theory Spec2Isabelle
  imports Complex_Main "HOL-Library.Log_Nat" "HOL-Library.AList"
begin

section \<open>JavaScript numbers\<close>

text \<open>
  The schema validator of \<^verbatim>\<open>transaction.model.ts\<close> and the statistics summary of the
  transaction service leave the decimal world through \<^verbatim>\<open>parseFloat\<close> and add the results
  with the \<^verbatim>\<open>+\<close> of JavaScript numbers. A number is an IEEE 754 binary64 value: a finite
  value is modelled by the rational it denotes (the two zeros are identified, which
  \<^verbatim>\<open>===\<close> does as well), next to the two infinities and NaN.
  \<open>round64\<close> is rounding to the nearest binary64 value, ties to the even significand:
  53 significant bits, least exponent \<open>-1074\<close>, overflow at \<open>2 ^ 1024\<close>.
\<close>

datatype number = Finite rat | PosInfinity | NegInfinity | NaN

definition roundHalfEven :: "rat \<Rightarrow> int" where
  "roundHalfEven x =
     (let f = \<lfloor>x\<rfloor>; d = x - of_int f
      in if d < 1/2 then f else if 1/2 < d then f + 1 else if even f then f else f + 1)"

text \<open>\<open>log2floor x\<close> is the binary exponent of a positive rational: \<open>2 ^ k \<le> x < 2 ^ (k + 1)\<close>.\<close>

definition log2floor :: "rat \<Rightarrow> int" where
  "log2floor x =
     (let (p, q) = quotient_of x; k = bitlen p - bitlen q
      in if 2 powi k \<le> x then k else k - 1)"

definition roundPos :: "rat \<Rightarrow> rat" where
  "roundPos x =
     (let e = max (log2floor x - 52) (- 1074)
      in of_int (roundHalfEven (x / 2 powi e)) * 2 powi e)"

definition round64 :: "rat \<Rightarrow> number" where
  "round64 x =
     (if x = 0 then Finite 0
      else let v = roundPos \<bar>x\<bar>
           in if 2 powi 1024 \<le> v then (if 0 < x then PosInfinity else NegInfinity)
              else Finite (if 0 < x then v else - v))"

text \<open>
  \<^verbatim>\<open>parseFloat(d.toString())\<close> of a decimal \<open>d\<close>: the nearest number. Decimals are
  modelled by the rationals they denote (see the next section).
\<close>

definition parseFloat :: "rat \<Rightarrow> number" where
  "parseFloat d = round64 d"

fun fneg :: "number \<Rightarrow> number" where
  "fneg (Finite a) = Finite (- a)"
| "fneg PosInfinity = NegInfinity"
| "fneg NegInfinity = PosInfinity"
| "fneg NaN = NaN"

fun fadd :: "number \<Rightarrow> number \<Rightarrow> number" where
  "fadd (Finite a) (Finite b) = round64 (a + b)"
| "fadd NaN y = NaN"
| "fadd x NaN = NaN"
| "fadd PosInfinity NegInfinity = NaN"
| "fadd NegInfinity PosInfinity = NaN"
| "fadd PosInfinity y = PosInfinity"
| "fadd x PosInfinity = PosInfinity"
| "fadd NegInfinity y = NegInfinity"
| "fadd x NegInfinity = NegInfinity"

text \<open>\<^verbatim>\<open>isFinite\<close> of JavaScript.\<close>

fun isFinite :: "number \<Rightarrow> bool" where
  "isFinite (Finite x) = True"
| "isFinite PosInfinity = False"
| "isFinite NegInfinity = False"
| "isFinite NaN = False"

section \<open>Decimals\<close>

text \<open>
  A monetary amount is a decimal number, modelled by the rational it denotes: the
  \<^verbatim>\<open>Decimal128\<close> of the store, the \<^verbatim>\<open>Decimal\<close> of decimal.js in the service, and the
  finite \<^verbatim>\<open>number\<close> of a request, which the service reads through its \<^verbatim>\<open>toString\<close>.
  The constructor \<^verbatim>\<open>new Decimal(v)\<close> and the comparison \<^verbatim>\<open>lessThan\<close> are exact.
  \<^verbatim>\<open>plus\<close> and \<^verbatim>\<open>minus\<close> round their result to \<^verbatim>\<open>Decimal.precision\<close> significant
  digits in the mode \<^verbatim>\<open>Decimal.rounding\<close>; the service sets neither, so the library's
  defaults hold: 20 digits and \<^verbatim>\<open>ROUND_HALF_UP\<close>, to the nearest and away from zero on a
  tie. \<open>finalise\<close> is that rounding. A result of at most 20 digits is stored unchanged by
  \<^verbatim>\<open>Decimal128.fromString\<close>, which holds 34.
  \<open>log10floor x\<close> is the decimal exponent of a positive rational:
  \<open>10 ^ k \<le> x < 10 ^ (k + 1)\<close>.
\<close>

type_synonym decimal = rat

definition log10floor :: "rat \<Rightarrow> int" where
  "log10floor x =
     (let (p, q) = quotient_of x;
          k = int (floorlog 10 (nat p)) - int (floorlog 10 (nat q))
      in if 10 powi k \<le> x then k else k - 1)"

definition precision :: int where
  "precision = 20"

definition finalise :: "decimal \<Rightarrow> decimal" where
  "finalise x =
     (if x = 0 then 0
      else let e = log10floor \<bar>x\<bar> - (precision - 1);
               m = \<lfloor>\<bar>x\<bar> / 10 powi e + 1/2\<rfloor>
           in if 0 < x then of_int m * 10 powi e else - (of_int m * 10 powi e))"

definition plusDecimal :: "decimal \<Rightarrow> decimal \<Rightarrow> decimal" where
  "plusDecimal x y = finalise (x + y)"

definition minusDecimal :: "decimal \<Rightarrow> decimal \<Rightarrow> decimal" where
  "minusDecimal x y = finalise (x - y)"

section \<open>Documents\<close>

text \<open>
  The three collections of the ledger, as the Mongoose schemas of
  \<^verbatim>\<open>account.model.ts\<close>, \<^verbatim>\<open>accountBalance.model.ts\<close> and \<^verbatim>\<open>transaction.model.ts\<close>
  declare them. Object ids are the strings that \<^verbatim>\<open>toString\<close> prints for them, and
  enumerated strings other than the three enums of \<^verbatim>\<open>transaction.interface.ts\<close> are
  strings. Fields that share a name in the source carry a prefix here (\<open>acc\<close>, \<open>bal\<close>,
  \<open>entry\<close>, \<open>req\<close>, \<open>tr\<close>, \<open>rev\<close>, \<open>stat\<close>); \<open>accId\<close> is \<^verbatim>\<open>_id\<close> of an account and
  \<open>purpose\<close> its \<^verbatim>\<open>metadata.purpose\<close>. Of the timestamps only \<open>createdAt\<close> of a
  transaction is kept (milliseconds), which the sweep of pending transactions reads.
  The transaction schema is strict and declares no \<^verbatim>\<open>fromAccount\<close>, \<^verbatim>\<open>toAccount\<close>,
  \<^verbatim>\<open>reference\<close> or \<^verbatim>\<open>processedAt\<close>: what the service passes or assigns under these
  names is not part of the document.
\<close>

datatype EntryType = DEBIT | CREDIT

datatype TransactionType =
  DEPOSIT | WITHDRAWAL | TRANSFER | PAYMENT | FEE | INTEREST | ADJUSTMENT | REVERSAL | REFUND

datatype TransactionStatus = PENDING | PROCESSING | COMPLETED | FAILED | CANCELLED

record Account =
  accId :: string
  accUserId :: string
  accNumber :: string
  accType :: string
  accCurrency :: string
  isActive :: bool
  purpose :: "string option"

record AccountBalance =
  balAccountId :: string
  balCurrency :: string
  balance :: decimal

record Entry =
  accountId :: string
  entryType :: EntryType
  entryAmount :: decimal

record Transaction =
  transactionId :: string
  transactionType :: TransactionType
  userId :: string
  entries :: "Entry list"
  amount :: decimal
  currency :: string
  status :: TransactionStatus
  description :: string
  metadata :: "(string \<times> string) list"
  failureReason :: "string option"
  createdAt :: int

text \<open>
  The request objects of \<^verbatim>\<open>transaction.interface.ts\<close>. \<^verbatim>\<open>WithdrawalTransactionDTO\<close> and
  \<^verbatim>\<open>FeeTransactionDTO\<close> have the fields of \<^verbatim>\<open>DepositTransactionDTO\<close>. The amount of a
  request is a \<^verbatim>\<open>number\<close>; the model covers the finite ones, as the decimal that
  \<^verbatim>\<open>toString\<close> prints. The metadata of a request is the list of its \<^verbatim>\<open>Object.entries\<close>.
\<close>

record DepositTransactionDTO =
  reqUserId :: string
  reqAccountNumber :: string
  reqAmount :: decimal
  reqCurrency :: string
  reqDescription :: "string option"
  reqReference :: "string option"
  reqMetadata :: "(string \<times> string) list option"

type_synonym WithdrawalTransactionDTO = DepositTransactionDTO
type_synonym FeeTransactionDTO = DepositTransactionDTO

record TransferTransactionDTO =
  trUserId :: string
  fromAccountNumber :: string
  toAccountNumber :: string
  trAmount :: decimal
  trCurrency :: string
  trDescription :: "string option"
  trReference :: "string option"
  trMetadata :: "(string \<times> string) list option"

record ReversalTransactionDTO =
  revUserId :: string
  originalTransactionId :: string
  reason :: string
  revMetadata :: "(string \<times> string) list option"

text \<open>
  The errors of \<^verbatim>\<open>utils/errors\<close> that the service throws, Mongoose's validation error,
  the duplicate-key error of a unique index and the error of the bson library, which the
  \<^verbatim>\<open>ObjectId\<close> constructor and the serialiser throw. \<open>InsufficientFundsError\<close> carries its message and its details: the account
  id (the per-entry form only), the available balance and the requested (or required)
  amount.
\<close>

datatype error =
    NotFoundError string
  | BadRequestError string "string option"
  | InsufficientFundsError string "string option" decimal decimal
  | ValidationError string
  | DuplicateKeyError
  | BSONError string
  | TransactionError string

fun errorMessage :: "error \<Rightarrow> string" where
  "errorMessage (NotFoundError m) = m"
| "errorMessage (BadRequestError m d) = m"
| "errorMessage (InsufficientFundsError m a x y) = m"
| "errorMessage (ValidationError m) = m"
| "errorMessage DuplicateKeyError = ''E11000 duplicate key error''"
| "errorMessage (BSONError m) = m"
| "errorMessage (TransactionError m) = m"

text \<open>
  The state: the three collections, in insertion order, and \<^verbatim>\<open>systemAccounts\<close>, the
  in-process cache of the service object. Values that the code draws from the clock,
  the random generator and the ObjectId generator are inputs of the model.
\<close>

record State =
  accounts :: "Account list"
  balances :: "AccountBalance list"
  transactions :: "Transaction list"
  systemAccounts :: "(string \<times> string) list"

record Fresh =
  now :: int
  timestamp :: string
  random :: string
  sysRandom :: string
  newObjectId :: string

section \<open>Store operations\<close>

text \<open>
  \<^verbatim>\<open>findOne\<close> returns the first matching document. \<^verbatim>\<open>save\<close> of a loaded document
  writes it back in place; a document is identified by its unique key (\<^verbatim>\<open>accountId\<close>
  of a balance, \<^verbatim>\<open>transactionId\<close> of a transaction; both fields carry a unique index).
\<close>

definition findAccount :: "string \<Rightarrow> Account list \<Rightarrow> Account option" where
  "findAccount accountNumber as = find (\<lambda>a. accNumber a = accountNumber \<and> isActive a) as"

definition findBalance :: "string \<Rightarrow> AccountBalance list \<Rightarrow> AccountBalance option" where
  "findBalance aid bs = find (\<lambda>b. balAccountId b = aid) bs"

fun saveBalance :: "AccountBalance \<Rightarrow> AccountBalance list \<Rightarrow> AccountBalance list" where
  "saveBalance b [] = []"
| "saveBalance b (x # xs) =
     (if balAccountId x = balAccountId b then b # xs else x # saveBalance b xs)"

fun saveTransaction :: "Transaction \<Rightarrow> Transaction list \<Rightarrow> Transaction list" where
  "saveTransaction t [] = []"
| "saveTransaction t (x # xs) =
     (if transactionId x = transactionId t then t # xs else x # saveTransaction t xs)"

text \<open>The balance of an account and the total of all balances, for the statements below.\<close>

definition balanceOf :: "State \<Rightarrow> string \<Rightarrow> decimal option" where
  "balanceOf s aid = map_option balance (findBalance aid (balances s))"

definition totalBalance :: "State \<Rightarrow> decimal" where
  "totalBalance s = sum_list (map balance (balances s))"

subsection \<open>Object ids and map keys\<close>

text \<open>
  \<^verbatim>\<open>new mongoose.Types.ObjectId(v)\<close> on a string, as bson 6 has it: a string of 24
  hexadecimal digits is accepted and denotes the id that prints in lower case; any other
  string throws.
\<close>

definition hexChar :: "char \<Rightarrow> bool" where
  "hexChar c \<longleftrightarrow>
     (let n = (of_char c :: nat)
      in (48 \<le> n \<and> n \<le> 57) \<or> (65 \<le> n \<and> n \<le> 70) \<or> (97 \<le> n \<and> n \<le> 102))"

definition toLowerCase :: "char \<Rightarrow> char" where
  "toLowerCase c =
     (let n = (of_char c :: nat) in if 65 \<le> n \<and> n \<le> 90 then char_of (n + 32) else c)"

definition ObjectId :: "string \<Rightarrow> error + string" where
  "ObjectId v =
     (if length v = 24 \<and> list_all hexChar v then Inr (map toLowerCase v)
      else Inl (BSONError
             ''input must be a 24 character hex string, 12 byte Uint8Array, or an integer''))"

text \<open>
  \<^verbatim>\<open>checkValidKey\<close> of Mongoose's map type, which the \<^verbatim>\<open>metadata\<close> path of a transaction
  has: a key may not start with \<^verbatim>\<open>$\<close>, contain a dot or be one of three reserved names.
  A map with such a key fails the cast of the path, which \<^verbatim>\<open>save\<close> reports as a
  validation error.
\<close>

definition checkValidKey :: "string \<Rightarrow> bool" where
  "checkValidKey key \<longleftrightarrow>
     take 1 key \<noteq> ''$'' \<and> CHR ''.'' \<notin> set key
     \<and> key \<notin> set [''__proto__'', ''constructor'', ''prototype'']"

subsection \<open>The validators of the transaction schema\<close>

text \<open>
  \<^verbatim>\<open>TransactionSchema.entries.validate\<close>: at least two entries, and the running sum of
  the signed amounts, accumulated by \<^verbatim>\<open>reduce\<close> in JavaScript numbers from \<open>0\<close>
  (a debit counts positive, a credit negative), is \<^verbatim>\<open>=== 0\<close>. The second message
  is cut before its parenthesis, which is not ASCII.
\<close>

definition entriesLengthValidator :: "Entry list \<Rightarrow> bool" where
  "entriesLengthValidator es \<longleftrightarrow> 2 \<le> length es"

definition entriesSum :: "Entry list \<Rightarrow> number" where
  "entriesSum es =
     foldl (\<lambda>acc entry.
              let amount = parseFloat (entryAmount entry)
              in fadd acc (if entryType entry = DEBIT then amount else fneg amount))
           (Finite 0) es"

definition entriesBalanceValidator :: "Entry list \<Rightarrow> bool" where
  "entriesBalanceValidator es \<longleftrightarrow> entriesSum es = Finite 0"

text \<open>
  The validation that \<^verbatim>\<open>save\<close> runs on a transaction: the paths \<^verbatim>\<open>transactionId\<close> and
  \<^verbatim>\<open>currency\<close> are required strings, which an empty string is not; the two validators
  of \<^verbatim>\<open>entries\<close>; the keys of \<^verbatim>\<open>metadata\<close>. The other required paths and the enums hold
  by the types of the model. Mongoose reports every failing path in one
  \<^verbatim>\<open>ValidationError\<close>; the model keeps the message of the first, in the order of the
  schema.
\<close>

definition validateTransaction :: "Transaction \<Rightarrow> error option" where
  "validateTransaction t =
     (if transactionId t = [] then
        Some (ValidationError ''Path transactionId is required.'')
      else if \<not> entriesLengthValidator (entries t) then
        Some (ValidationError
          ''A transaction must have at least two entries for double-entry accounting.'')
      else if \<not> entriesBalanceValidator (entries t) then
        Some (ValidationError
          ''Debits and credits must balance exactly.'')
      else if currency t = [] then
        Some (ValidationError ''Path currency is required.'')
      else if \<not> list_all checkValidKey (map fst (metadata t)) then
        Some (ValidationError ''Cast to Map failed for path metadata'')
      else None)"

text \<open>
  \<^verbatim>\<open>save\<close> of a new transaction: the validators run first, then the document is
  serialised, which fails on a metadata key with a NUL character (a field name of BSON
  ends at the first NUL), then the insert, which the unique index on \<^verbatim>\<open>transactionId\<close>
  refuses for an id already stored.
\<close>

definition serializableKey :: "string \<Rightarrow> bool" where
  "serializableKey key \<longleftrightarrow> CHR 0x00 \<notin> set key"

definition insertTransaction :: "Transaction \<Rightarrow> Transaction list \<Rightarrow> error + Transaction list" where
  "insertTransaction t ts =
     (case validateTransaction t of
        Some e \<Rightarrow> Inl e
      | None \<Rightarrow>
          if \<not> list_all serializableKey (map fst (metadata t)) then
            Inl (BSONError ''key must not contain null bytes'')
          else if transactionId t \<in> set (map transactionId ts) then Inl DuplicateKeyError
          else Inr (ts @ [t]))"

text \<open>
  \<^verbatim>\<open>save\<close> of a transaction loaded from the store: Mongoose validates the loaded paths
  again before it writes the document back.
\<close>

definition saveLoaded :: "Transaction \<Rightarrow> Transaction list \<Rightarrow> error + Transaction list" where
  "saveLoaded t ts =
     (case validateTransaction t of
        Some e \<Rightarrow> Inl e
      | None \<Rightarrow> Inr (saveTransaction t ts))"

text \<open>
  The \<^verbatim>\<open>catch\<close> block of the five operations: the session is aborted by the caller of
  this function, a validation error becomes a \<^verbatim>\<open>BadRequestError\<close>, any other error is
  thrown again.
\<close>

fun rethrow :: "error \<Rightarrow> error" where
  "rethrow (ValidationError m) = BadRequestError ''Invalid transaction data'' (Some m)"
| "rethrow e = e"

text \<open>\<^verbatim>\<open>x || d\<close> on an optional string: an absent and an empty string are both falsy.\<close>

fun orDefault :: "string option \<Rightarrow> string \<Rightarrow> string" where
  "orDefault None d = d"
| "orDefault (Some x) d = (if x = [] then d else x)"

text \<open>\<^verbatim>\<open>new Map(pairs)\<close>: a later pair replaces the value of an earlier key in place.\<close>

definition newMap :: "(string \<times> string) list \<Rightarrow> (string \<times> string) list" where
  "newMap kvs = foldl (\<lambda>m (k, v). AList.update k v m) [] kvs"

fun objectEntries :: "(string \<times> string) list option \<Rightarrow> (string \<times> string) list" where
  "objectEntries None = []"
| "objectEntries (Some kvs) = kvs"

text \<open>\<^verbatim>\<open>generateTransactionId\<close> of \<^verbatim>\<open>utils/crypto\<close>, on the clock's and the generator's strings.\<close>

definition generateTransactionId :: "string \<Rightarrow> string \<Rightarrow> string \<Rightarrow> string" where
  "generateTransactionId prefix ts rnd = prefix @ ''-'' @ ts @ ''-'' @ rnd"

section \<open>The transaction service\<close>

subsection \<open>System accounts\<close>

text \<open>
  The values of the enum \<^verbatim>\<open>CurrencyCode\<close>, and \<^verbatim>\<open>validateCurrency\<close> of
  \<^verbatim>\<open>utils/validators.ts\<close>. The account schema restricts \<^verbatim>\<open>currency\<close> to these values.
\<close>

definition CurrencyCode :: "string list" where
  "CurrencyCode = [''USD'', ''EUR'', ''GBP'', ''JPY'', ''CAD'', ''CHF'', ''AUD'', ''CNY'',
                   ''INR'', ''NGN'']"

definition validateCurrency :: "string \<Rightarrow> bool" where
  "validateCurrency v \<longleftrightarrow> v \<in> set CurrencyCode"

text \<open>
  The test \<^verbatim>\<open>if (this.systemAccounts[cacheKey])\<close> on the cache of the service: an absent
  entry and an empty string are both falsy.
\<close>

definition cached :: "(string \<times> string) list \<Rightarrow> string \<Rightarrow> string option" where
  "cached m k = (case map_of m k of None \<Rightarrow> None | Some v \<Rightarrow> if v = [] then None else Some v)"

text \<open>
  \<^verbatim>\<open>getSystemAccount\<close>: the cache, then the store, then a new \<^verbatim>\<open>SYSTEM\<close> account with a
  zero balance. It runs outside the session of its caller: what it saves stays saved when
  the caller aborts. The save of the account validates it, where the currency can fail
  the enum of the schema (\<^verbatim>\<open>SYSTEM\<close> is a value of \<^verbatim>\<open>AccountType\<close>, and the other paths
  are set to valid values); the two saves can fail on the unique indexes of
  \<^verbatim>\<open>accountNumber\<close> and \<^verbatim>\<open>accountId\<close> and on the primary key.
\<close>

definition getSystemAccount :: "Fresh \<Rightarrow> string \<Rightarrow> string \<Rightarrow> State \<Rightarrow> (error + string) \<times> State" where
  "getSystemAccount fr accountType cur s =
     (let cacheKey = accountType @ ''_'' @ cur in
      case cached (systemAccounts s) cacheKey of
        Some cachedId \<Rightarrow> (Inr cachedId, s)
      | None \<Rightarrow>
          (case find (\<lambda>a. accType a = ''SYSTEM'' \<and> accCurrency a = cur
                           \<and> purpose a = Some accountType) (accounts s) of
             Some systemAccount \<Rightarrow>
               (Inr (accId systemAccount),
                s\<lparr>systemAccounts := AList.update cacheKey (accId systemAccount) (systemAccounts s)\<rparr>)
           | None \<Rightarrow>
               let newSystemAccount =
                     \<lparr>accId = newObjectId fr,
                      accUserId = ''000000000000000000000001'',
                      accNumber = generateTransactionId ''SYS'' (timestamp fr) (sysRandom fr),
                      accType = ''SYSTEM'',
                      accCurrency = cur,
                      isActive = True,
                      purpose = Some accountType\<rparr>
               in if \<not> validateCurrency cur
                  then (Inl (ValidationError ''Path currency is not a valid enum value.''), s)
                  else if accNumber newSystemAccount \<in> set (map accNumber (accounts s))
                     \<or> accId newSystemAccount \<in> set (map accId (accounts s))
                  then (Inl DuplicateKeyError, s)
                  else
                    let s1 = s\<lparr>accounts := accounts s @ [newSystemAccount]\<rparr>;
                        systemBalance =
                          \<lparr>balAccountId = accId newSystemAccount, balCurrency = cur, balance = 0\<rparr>
                    in if balAccountId systemBalance \<in> set (map balAccountId (balances s1))
                       then (Inl DuplicateKeyError, s1)
                       else (Inr (accId newSystemAccount),
                             s1\<lparr>balances := balances s1 @ [systemBalance],
                                systemAccounts :=
                                  AList.update cacheKey (accId newSystemAccount) (systemAccounts s1)\<rparr>)))"

subsection \<open>Deposit, withdrawal, fee and transfer\<close>

text \<open>
  Each operation runs in a session: on an error the session is aborted and the store is
  the one before the call, but for what \<open>getSystemAccount\<close> saved. On success the
  transaction is inserted as \<open>PROCESSING\<close>, the balance is saved, the transaction is saved
  again as \<open>COMPLETED\<close>, and the session is committed. The user id of the request goes
  through the \<^verbatim>\<open>ObjectId\<close> constructor while the document is built, after the system
  account has been obtained. The new balance is computed by \<^verbatim>\<open>plus\<close> or \<^verbatim>\<open>minus\<close> of
  decimal.js.
\<close>

definition createDeposit :: "Fresh \<Rightarrow> DepositTransactionDTO \<Rightarrow> State \<Rightarrow> (error + Transaction) \<times> State" where
  "createDeposit fr depositData s =
     (case findAccount (reqAccountNumber depositData) (accounts s) of
        None \<Rightarrow> (Inl (NotFoundError ''Account not found or inactive''), s)
      | Some account \<Rightarrow>
          if accCurrency account \<noteq> reqCurrency depositData then
            (Inl (BadRequestError
                    (''Currency mismatch. Account is in '' @ accCurrency account
                       @ '', but deposit is in '' @ reqCurrency depositData) None), s)
          else
            (case findBalance (accId account) (balances s) of
               None \<Rightarrow> (Inl (NotFoundError ''Account balance not found''), s)
             | Some accountBalance \<Rightarrow>
                 let tid = generateTransactionId ''DEP'' (timestamp fr) (random fr) in
                 (case getSystemAccount fr ''DEPOSITS'' (reqCurrency depositData) s of
                    (Inl e, s1) \<Rightarrow> (Inl (rethrow e), s1)
                  | (Inr depositsAccountId, s1) \<Rightarrow>
                 (case ObjectId (reqUserId depositData) of
                    Inl e \<Rightarrow> (Inl (rethrow e), s1)
                  | Inr uid \<Rightarrow>
                      let es = [\<lparr>accountId = accId account, entryType = CREDIT,
                                  entryAmount = reqAmount depositData\<rparr>,
                                \<lparr>accountId = depositsAccountId, entryType = DEBIT,
                                  entryAmount = reqAmount depositData\<rparr>];
                          transaction =
                            \<lparr>transactionId = tid,
                             transactionType = DEPOSIT,
                             userId = uid,
                             entries = es,
                             amount = reqAmount depositData,
                             currency = reqCurrency depositData,
                             status = PROCESSING,
                             description = orDefault (reqDescription depositData) ''Deposit transaction'',
                             metadata = newMap (objectEntries (reqMetadata depositData)),
                             failureReason = None,
                             createdAt = now fr\<rparr>
                      in (case insertTransaction transaction (transactions s1) of
                            Inl e \<Rightarrow> (Inl (rethrow e), s1)
                          | Inr ts \<Rightarrow>
                              let currentBalance = balance accountBalance;
                                  newBalance = plusDecimal currentBalance (reqAmount depositData);
                                  bs = saveBalance (accountBalance\<lparr>balance := newBalance\<rparr>) (balances s1);
                                  completed = transaction\<lparr>status := COMPLETED\<rparr>
                              in (Inr completed,
                                  s1\<lparr>balances := bs, transactions := saveTransaction completed ts\<rparr>))))))"

definition createWithdrawal :: "Fresh \<Rightarrow> WithdrawalTransactionDTO \<Rightarrow> State \<Rightarrow> (error + Transaction) \<times> State" where
  "createWithdrawal fr withdrawalData s =
     (case findAccount (reqAccountNumber withdrawalData) (accounts s) of
        None \<Rightarrow> (Inl (NotFoundError ''Account not found or inactive''), s)
      | Some account \<Rightarrow>
          if accCurrency account \<noteq> reqCurrency withdrawalData then
            (Inl (BadRequestError
                    (''Currency mismatch. Account is in '' @ accCurrency account
                       @ '', but withdrawal is in '' @ reqCurrency withdrawalData) None), s)
          else
            (case findBalance (accId account) (balances s) of
               None \<Rightarrow> (Inl (NotFoundError ''Account balance not found''), s)
             | Some accountBalance \<Rightarrow>
                 let currentBalance = balance accountBalance in
                 if currentBalance < reqAmount withdrawalData then
                   (Inl (InsufficientFundsError ''Insufficient funds for withdrawal'' None
                           currentBalance (reqAmount withdrawalData)), s)
                 else
                   let tid = generateTransactionId ''WDR'' (timestamp fr) (random fr) in
                   (case getSystemAccount fr ''WITHDRAWALS'' (reqCurrency withdrawalData) s of
                      (Inl e, s1) \<Rightarrow> (Inl (rethrow e), s1)
                    | (Inr withdrawalsAccountId, s1) \<Rightarrow>
                   (case ObjectId (reqUserId withdrawalData) of
                      Inl e \<Rightarrow> (Inl (rethrow e), s1)
                    | Inr uid \<Rightarrow>
                        let es = [\<lparr>accountId = accId account, entryType = DEBIT,
                                    entryAmount = reqAmount withdrawalData\<rparr>,
                                  \<lparr>accountId = withdrawalsAccountId, entryType = CREDIT,
                                    entryAmount = reqAmount withdrawalData\<rparr>];
                            transaction =
                              \<lparr>transactionId = tid,
                               transactionType = WITHDRAWAL,
                               userId = uid,
                               entries = es,
                               amount = reqAmount withdrawalData,
                               currency = reqCurrency withdrawalData,
                               status = PROCESSING,
                               description =
                                 orDefault (reqDescription withdrawalData) ''Withdrawal transaction'',
                               metadata = newMap (objectEntries (reqMetadata withdrawalData)),
                               failureReason = None,
                               createdAt = now fr\<rparr>
                        in (case insertTransaction transaction (transactions s1) of
                              Inl e \<Rightarrow> (Inl (rethrow e), s1)
                            | Inr ts \<Rightarrow>
                                let newBalance = minusDecimal currentBalance (reqAmount withdrawalData);
                                    bs = saveBalance (accountBalance\<lparr>balance := newBalance\<rparr>)
                                           (balances s1);
                                    completed = transaction\<lparr>status := COMPLETED\<rparr>
                                in (Inr completed,
                                    s1\<lparr>balances := bs,
                                       transactions := saveTransaction completed ts\<rparr>))))))"

definition createFee :: "Fresh \<Rightarrow> FeeTransactionDTO \<Rightarrow> State \<Rightarrow> (error + Transaction) \<times> State" where
  "createFee fr feeData s =
     (case findAccount (reqAccountNumber feeData) (accounts s) of
        None \<Rightarrow> (Inl (NotFoundError ''Account not found or inactive''), s)
      | Some account \<Rightarrow>
          if accCurrency account \<noteq> reqCurrency feeData then
            (Inl (BadRequestError
                    (''Currency mismatch. Account is in '' @ accCurrency account
                       @ '', but fee is in '' @ reqCurrency feeData) None), s)
          else
            (case findBalance (accId account) (balances s) of
               None \<Rightarrow> (Inl (NotFoundError ''Account balance not found''), s)
             | Some accountBalance \<Rightarrow>
                 let currentBalance = balance accountBalance in
                 if currentBalance < reqAmount feeData then
                   (Inl (InsufficientFundsError ''Insufficient funds for fee deduction'' None
                           currentBalance (reqAmount feeData)), s)
                 else
                   let tid = generateTransactionId ''FEE'' (timestamp fr) (random fr) in
                   (case getSystemAccount fr ''FEES'' (reqCurrency feeData) s of
                      (Inl e, s1) \<Rightarrow> (Inl (rethrow e), s1)
                    | (Inr feesAccountId, s1) \<Rightarrow>
                   (case ObjectId (reqUserId feeData) of
                      Inl e \<Rightarrow> (Inl (rethrow e), s1)
                    | Inr uid \<Rightarrow>
                        let es = [\<lparr>accountId = accId account, entryType = DEBIT,
                                    entryAmount = reqAmount feeData\<rparr>,
                                  \<lparr>accountId = feesAccountId, entryType = CREDIT,
                                    entryAmount = reqAmount feeData\<rparr>];
                            transaction =
                              \<lparr>transactionId = tid,
                               transactionType = FEE,
                               userId = uid,
                               entries = es,
                               amount = reqAmount feeData,
                               currency = reqCurrency feeData,
                               status = PROCESSING,
                               description = orDefault (reqDescription feeData) ''Fee transaction'',
                               metadata = newMap (objectEntries (reqMetadata feeData)),
                               failureReason = None,
                               createdAt = now fr\<rparr>
                        in (case insertTransaction transaction (transactions s1) of
                              Inl e \<Rightarrow> (Inl (rethrow e), s1)
                            | Inr ts \<Rightarrow>
                                let newBalance = minusDecimal currentBalance (reqAmount feeData);
                                    bs = saveBalance (accountBalance\<lparr>balance := newBalance\<rparr>)
                                           (balances s1);
                                    completed = transaction\<lparr>status := COMPLETED\<rparr>
                                in (Inr completed,
                                    s1\<lparr>balances := bs,
                                       transactions := saveTransaction completed ts\<rparr>))))))"

text \<open>
  The transfer reads both balance documents before it writes either; the destination's
  new balance is computed from the document read at that point.
\<close>

definition createTransfer :: "Fresh \<Rightarrow> TransferTransactionDTO \<Rightarrow> State \<Rightarrow> (error + Transaction) \<times> State" where
  "createTransfer fr transferData s =
     (if fromAccountNumber transferData = toAccountNumber transferData then
        (Inl (BadRequestError ''Source and destination accounts cannot be the same'' None), s)
      else
        case findAccount (fromAccountNumber transferData) (accounts s) of
          None \<Rightarrow> (Inl (NotFoundError ''Source account not found or inactive''), s)
        | Some sourceAccount \<Rightarrow>
        (case findAccount (toAccountNumber transferData) (accounts s) of
          None \<Rightarrow> (Inl (NotFoundError ''Destination account not found or inactive''), s)
        | Some destinationAccount \<Rightarrow>
          if accCurrency sourceAccount \<noteq> trCurrency transferData then
            (Inl (BadRequestError
                    (''Currency mismatch. Source account is in '' @ accCurrency sourceAccount
                       @ '', but transfer is in '' @ trCurrency transferData) None), s)
          else if accCurrency destinationAccount \<noteq> trCurrency transferData then
            (Inl (BadRequestError
                    (''Currency mismatch. Destination account is in ''
                       @ accCurrency destinationAccount
                       @ '', but transfer is in '' @ trCurrency transferData) None), s)
          else if accUserId sourceAccount \<noteq> trUserId transferData then
            (Inl (BadRequestError ''You can only transfer from your own accounts'' None), s)
          else
            (case findBalance (accId sourceAccount) (balances s) of
               None \<Rightarrow> (Inl (NotFoundError ''Source account balance not found''), s)
             | Some sourceBalance \<Rightarrow>
            (case findBalance (accId destinationAccount) (balances s) of
               None \<Rightarrow> (Inl (NotFoundError ''Destination account balance not found''), s)
             | Some destinationBalance \<Rightarrow>
                 let currentSourceBalance = balance sourceBalance in
                 if currentSourceBalance < trAmount transferData then
                   (Inl (InsufficientFundsError ''Insufficient funds for transfer'' None
                           currentSourceBalance (trAmount transferData)), s)
                 else
                   let tid = generateTransactionId ''TRF'' (timestamp fr) (random fr) in
                   (case ObjectId (trUserId transferData) of
                      Inl e \<Rightarrow> (Inl (rethrow e), s)
                    | Inr uid \<Rightarrow>
                   let es = [\<lparr>accountId = accId sourceAccount, entryType = DEBIT,
                               entryAmount = trAmount transferData\<rparr>,
                             \<lparr>accountId = accId destinationAccount, entryType = CREDIT,
                               entryAmount = trAmount transferData\<rparr>];
                       transaction =
                         \<lparr>transactionId = tid,
                          transactionType = TRANSFER,
                          userId = uid,
                          entries = es,
                          amount = trAmount transferData,
                          currency = trCurrency transferData,
                          status = PROCESSING,
                          description = orDefault (trDescription transferData) ''Transfer transaction'',
                          metadata = newMap (objectEntries (trMetadata transferData)),
                          failureReason = None,
                          createdAt = now fr\<rparr>
                   in (case insertTransaction transaction (transactions s) of
                         Inl e \<Rightarrow> (Inl (rethrow e), s)
                       | Inr ts \<Rightarrow>
                           let newSourceBalance =
                                 minusDecimal currentSourceBalance (trAmount transferData);
                               bs1 = saveBalance (sourceBalance\<lparr>balance := newSourceBalance\<rparr>)
                                       (balances s);
                               currentDestBalance = balance destinationBalance;
                               newDestBalance =
                                 plusDecimal currentDestBalance (trAmount transferData);
                               bs2 = saveBalance (destinationBalance\<lparr>balance := newDestBalance\<rparr>) bs1;
                               completed = transaction\<lparr>status := COMPLETED\<rparr>
                           in (Inr completed,
                               s\<lparr>balances := bs2,
                                 transactions := saveTransaction completed ts\<rparr>)))))))"

subsection \<open>Posting entries to the balance store\<close>

text \<open>
  The loop over the entries that \<^verbatim>\<open>reverseTransaction\<close> and
  \<^verbatim>\<open>processPendingTransactions\<close> both contain, which differ in the message of the
  \<^verbatim>\<open>InsufficientFundsError\<close> only: each entry reads the balance document of its account,
  a credit adds, a debit subtracts (by \<^verbatim>\<open>plus\<close> and \<^verbatim>\<open>minus\<close> of decimal.js) and throws
  when the new balance is negative, and the document is saved. The function returns the error thrown, if any, and the balances as
  the loop left them at that point.
\<close>

fun applyEntries :: "string \<Rightarrow> Entry list \<Rightarrow> AccountBalance list \<Rightarrow> error option \<times> AccountBalance list" where
  "applyEntries msg [] bs = (None, bs)"
| "applyEntries msg (entry # rest) bs =
     (case findBalance (accountId entry) bs of
        None \<Rightarrow>
          (Some (NotFoundError (''Account balance not found for account ID: '' @ accountId entry)), bs)
      | Some accountBalance \<Rightarrow>
          let currentBalance = balance accountBalance;
              amt = entryAmount entry
          in if entryType entry = CREDIT then
               applyEntries msg rest
                 (saveBalance (accountBalance\<lparr>balance := plusDecimal currentBalance amt\<rparr>) bs)
             else
               let newBalance = minusDecimal currentBalance amt
               in if newBalance < 0 then
                    (Some (InsufficientFundsError msg (Some (accountId entry)) currentBalance amt), bs)
                  else
                    applyEntries msg rest (saveBalance (accountBalance\<lparr>balance := newBalance\<rparr>) bs))"

subsection \<open>Reversal\<close>

definition reverseEntry :: "Entry \<Rightarrow> Entry" where
  "reverseEntry entry =
     \<lparr>accountId = accountId entry,
      entryType = (if entryType entry = DEBIT then CREDIT else DEBIT),
      entryAmount = entryAmount entry\<rparr>"

text \<open>The two queries that open \<^verbatim>\<open>reverseTransaction\<close>.\<close>

definition findOriginal :: "string \<Rightarrow> Transaction list \<Rightarrow> Transaction option" where
  "findOriginal tid ts = find (\<lambda>t. transactionId t = tid \<and> status t = COMPLETED) ts"

definition findExistingReversal :: "string \<Rightarrow> Transaction list \<Rightarrow> Transaction option" where
  "findExistingReversal tid ts =
     find (\<lambda>t. map_of (metadata t) ''originalTransactionId'' = Some tid
                \<and> transactionType t = REVERSAL) ts"

definition reverseTransaction :: "Fresh \<Rightarrow> ReversalTransactionDTO \<Rightarrow> State \<Rightarrow> (error + Transaction) \<times> State" where
  "reverseTransaction fr reversalData s =
     (case findOriginal (originalTransactionId reversalData) (transactions s) of
        None \<Rightarrow>
          (Inl (NotFoundError ''Original transaction not found or not in completed state''), s)
      | Some originalTransaction \<Rightarrow>
          (case findExistingReversal (originalTransactionId reversalData) (transactions s) of
             Some existingReversal \<Rightarrow>
               (Inl (BadRequestError ''Transaction has already been reversed''
                       (Some (transactionId existingReversal))), s)
           | None \<Rightarrow>
               let tid = generateTransactionId ''REV'' (timestamp fr) (random fr);
                   reversedEntries = map reverseEntry (entries originalTransaction)
               in (case ObjectId (revUserId reversalData) of
                     Inl e \<Rightarrow> (Inl (rethrow e), s)
                   | Inr uid \<Rightarrow>
               let reversalTransaction =
                     \<lparr>transactionId = tid,
                      transactionType = REVERSAL,
                      userId = uid,
                      entries = reversedEntries,
                      amount = amount originalTransaction,
                      currency = currency originalTransaction,
                      status = PROCESSING,
                      description = ''Reversal: '' @ reason reversalData @ '' (Original: ''
                                      @ transactionId originalTransaction @ '')'',
                      metadata = newMap (objectEntries (revMetadata reversalData)
                                   @ [(''originalTransactionId'', transactionId originalTransaction),
                                      (''reversalReason'', reason reversalData)]),
                      failureReason = None,
                      createdAt = now fr\<rparr>
               in (case insertTransaction reversalTransaction (transactions s) of
                     Inl e \<Rightarrow> (Inl (rethrow e), s)
                   | Inr ts \<Rightarrow>
                       (case applyEntries ''Insufficient funds for reversal'' reversedEntries
                               (balances s) of
                          (Some e, bs) \<Rightarrow> (Inl (rethrow e), s)
                        | (None, bs) \<Rightarrow>
                            let completed = reversalTransaction\<lparr>status := COMPLETED\<rparr>
                            in (Inr completed,
                                s\<lparr>balances := bs,
                                  transactions := saveTransaction completed ts\<rparr>))))))"

subsection \<open>The sweep of pending transactions\<close>

text \<open>
  \<^verbatim>\<open>processPendingTransactions\<close> opens one session for the whole batch. The inner
  \<^verbatim>\<open>try\<close> of the loop is \<open>tryProcess\<close>: it returns the error caught, if any, with the
  balances and transactions as the session holds them at that point. The \<^verbatim>\<open>catch\<close>
  marks the transaction \<open>FAILED\<close>, saves it and goes on with the next one; that save is
  outside the inner \<^verbatim>\<open>try\<close>, so an error of it reaches the outer \<^verbatim>\<open>catch\<close>, which aborts
  the session.
\<close>

definition tryProcess :: "Transaction \<Rightarrow> AccountBalance list \<Rightarrow> Transaction list
    \<Rightarrow> error option \<times> AccountBalance list \<times> Transaction list" where
  "tryProcess transaction bs ts =
     (case saveLoaded (transaction\<lparr>status := PROCESSING\<rparr>) ts of
        Inl e \<Rightarrow> (Some e, bs, ts)
      | Inr ts1 \<Rightarrow>
          (case applyEntries ''Insufficient funds for transaction'' (entries transaction) bs of
             (Some e, bs1) \<Rightarrow> (Some e, bs1, ts1)
           | (None, bs1) \<Rightarrow>
               (case saveLoaded (transaction\<lparr>status := COMPLETED\<rparr>) ts1 of
                  Inl e \<Rightarrow> (Some e, bs1, ts1)
                | Inr ts2 \<Rightarrow> (None, bs1, ts2))))"

record SweepState =
  swBalances :: "AccountBalance list"
  swTransactions :: "Transaction list"
  swProcessed :: "string list"
  swFailed :: "string list"

fun sweepLoop :: "Transaction list \<Rightarrow> SweepState \<Rightarrow> error + SweepState" where
  "sweepLoop [] st = Inr st"
| "sweepLoop (transaction # rest) st =
     (case tryProcess transaction (swBalances st) (swTransactions st) of
        (None, bs, ts) \<Rightarrow>
          sweepLoop rest
            (st\<lparr>swBalances := bs, swTransactions := ts,
                swProcessed := swProcessed st @ [transactionId transaction]\<rparr>)
      | (Some err, bs, ts) \<Rightarrow>
          (case saveLoaded (transaction\<lparr>status := FAILED,
                                          failureReason := Some (errorMessage err)\<rparr>) ts of
             Inl e \<Rightarrow> Inl e
           | Inr ts1 \<Rightarrow>
               sweepLoop rest
                 (st\<lparr>swBalances := bs, swTransactions := ts1,
                     swFailed := swFailed st @ [transactionId transaction]\<rparr>)))"

record SweepResult =
  processed :: nat
  failed :: nat
  failedIds :: "string list"

definition pendingTransactions :: "int \<Rightarrow> Transaction list \<Rightarrow> Transaction list" where
  "pendingTransactions t ts = filter (\<lambda>x. status x = PENDING \<and> createdAt x \<le> t - 60000) ts"

definition processPendingTransactions :: "int \<Rightarrow> State \<Rightarrow> (error + SweepResult) \<times> State" where
  "processPendingTransactions t s =
     (case sweepLoop (pendingTransactions t (transactions s))
             \<lparr>swBalances = balances s, swTransactions = transactions s,
              swProcessed = [], swFailed = []\<rparr> of
        Inl e \<Rightarrow> (Inl (TransactionError ''Failed to process pending transactions''), s)
      | Inr st \<Rightarrow>
          (Inr \<lparr>processed = length (swProcessed st), failed = length (swFailed st),
                failedIds = swFailed st\<rparr>,
           s\<lparr>balances := swBalances st, transactions := swTransactions st\<rparr>))"

subsection \<open>The summary of the statistics\<close>

text \<open>
  \<^verbatim>\<open>calculateTransactionSummary\<close> folds the rows of the aggregation. The per-currency
  total is a JavaScript number: it starts at \<open>0\<close> when the entry is falsy (absent, \<open>0\<close>
  or NaN) and grows by \<^verbatim>\<open>parseFloat\<close> of the row's decimal total. Counts are natural
  numbers. The last loop prints each total by \<^verbatim>\<open>new Decimal(n).toFixed(2)\<close>; printing a
  number is a parameter (\<open>toFixed2\<close>) of the model.
\<close>

record Stat =
  statTransactionType :: TransactionType
  statCurrency :: string
  statCount :: nat
  statTotalAmount :: decimal

record 'a Summary =
  totalCount :: nat
  totalAmountByCurrency :: "(string \<times> 'a) list"
  countByType :: "(TransactionType \<times> nat) list"

fun falsy :: "number \<Rightarrow> bool" where
  "falsy (Finite x) = (x = 0)"
| "falsy NaN = True"
| "falsy PosInfinity = False"
| "falsy NegInfinity = False"

definition summaryStep :: "number Summary \<Rightarrow> Stat \<Rightarrow> number Summary" where
  "summaryStep summary stat =
     (let ty = statTransactionType stat;
          cur = statCurrency stat;
          byType = (case map_of (countByType summary) ty of None \<Rightarrow> 0 | Some c \<Rightarrow> c);
          byCurrency = (case map_of (totalAmountByCurrency summary) cur of
                          None \<Rightarrow> Finite 0
                        | Some v \<Rightarrow> if falsy v then Finite 0 else v)
      in \<lparr>totalCount = totalCount summary + statCount stat,
          totalAmountByCurrency =
            AList.update cur (fadd byCurrency (parseFloat (statTotalAmount stat)))
              (totalAmountByCurrency summary),
          countByType = AList.update ty (byType + statCount stat) (countByType summary)\<rparr>)"

definition accumulateSummary :: "Stat list \<Rightarrow> number Summary" where
  "accumulateSummary stats =
     foldl summaryStep \<lparr>totalCount = 0, totalAmountByCurrency = [], countByType = []\<rparr> stats"

definition calculateTransactionSummary :: "(number \<Rightarrow> string) \<Rightarrow> Stat list \<Rightarrow> string Summary" where
  "calculateTransactionSummary toFixed2 stats =
     (let summary = accumulateSummary stats
      in \<lparr>totalCount = totalCount summary,
          totalAmountByCurrency = map (\<lambda>(cur, v). (cur, toFixed2 v)) (totalAmountByCurrency summary),
          countByType = countByType summary\<rparr>)"

subsection \<open>The validator of account numbers\<close>

text \<open>
  \<^verbatim>\<open>validateAccountNumber\<close> of \<^verbatim>\<open>utils/validators.ts\<close> tests its argument against an anchored
  regular expression that is a sequence of literal characters and character classes, each
  matching one character. A class is a list of ranges.
\<close>

datatype atom = Lit char | Class "(char \<times> char) list"

fun atomMatches :: "atom \<Rightarrow> char \<Rightarrow> bool" where
  "atomMatches (Lit c) x = (x = c)"
| "atomMatches (Class rs) x = list_ex (\<lambda>(lo, hi). of_char lo \<le> (of_char x :: nat) \<and> (of_char x :: nat) \<le> of_char hi) rs"

fun regexTest :: "atom list \<Rightarrow> string \<Rightarrow> bool" where
  "regexTest [] [] = True"
| "regexTest (a # as) (x # xs) = (atomMatches a x \<and> regexTest as xs)"
| "regexTest [] (x # xs) = False"
| "regexTest (a # as) [] = False"

definition alnum :: atom where
  "alnum = Class [(CHR ''0'', CHR ''9''), (CHR ''A'', CHR ''Z''), (CHR ''a'', CHR ''z'')]"

definition accountNumberRegex :: "atom list" where
  "accountNumberRegex =
     map Lit ''ACCT-'' @ replicate 4 alnum @ [Lit CHR ''-''] @ replicate 4 alnum
       @ [Lit CHR ''-''] @ replicate 4 alnum"

definition validateAccountNumber :: "string \<Rightarrow> bool" where
  "validateAccountNumber v = regexTest accountNumberRegex v"

section \<open>The specification's predicates\<close>

text \<open>
  The invariants T1 to T4 of the specification's data model, in its words, and the
  account number format of its section on identifier formats. They are compared with
  the code's validators below.
\<close>

definition debitSum :: "Entry list \<Rightarrow> decimal" where
  "debitSum es = sum_list (map entryAmount (filter (\<lambda>e. entryType e = DEBIT) es))"

definition creditSum :: "Entry list \<Rightarrow> decimal" where
  "creditSum es = sum_list (map entryAmount (filter (\<lambda>e. entryType e = CREDIT) es))"





definition hexDigit :: atom where
  "hexDigit = Class [(CHR ''0'', CHR ''9''), (CHR ''A'', CHR ''F''), (CHR ''a'', CHR ''f'')]"

definition specAccountNumberRegex :: "atom list" where
  "specAccountNumberRegex =
     map Lit ''ACCT-'' @ replicate 4 hexDigit @ [Lit CHR ''-''] @ replicate 4 hexDigit
       @ [Lit CHR ''-''] @ replicate 4 hexDigit"

text \<open>
  The preconditions of a transfer as the specification lists them: the two account
  numbers differ, both name an existing active account, both accounts are in the declared
  currency, the source belongs to the requesting user, and the source balance is at
  least the amount.
\<close>

definition transferPreconditions :: "TransferTransactionDTO \<Rightarrow> State \<Rightarrow> bool" where
  "transferPreconditions tr s \<longleftrightarrow>
     fromAccountNumber tr \<noteq> toAccountNumber tr \<and>
     (\<exists>src \<in> set (accounts s). \<exists>dst \<in> set (accounts s).
         accNumber src = fromAccountNumber tr \<and> isActive src
       \<and> accNumber dst = toAccountNumber tr \<and> isActive dst
       \<and> accCurrency src = trCurrency tr \<and> accCurrency dst = trCurrency tr
       \<and> accUserId src = trUserId tr
       \<and> (\<exists>sb \<in> set (balances s). balAccountId sb = accId src \<and> trAmount tr \<le> balance sb))"

text \<open>
  The conditions under which the statements about a successful operation are made.
  The unique indexes of the store hold: account numbers, account ids, and the account
  ids of the balance documents.
\<close>

definition uniqueKeys :: "State \<Rightarrow> bool" where
  "uniqueKeys s \<longleftrightarrow>
     distinct (map accNumber (accounts s)) \<and> distinct (map accId (accounts s))
     \<and> distinct (map balAccountId (balances s))"

text \<open>
  The values drawn for a call are new to the store: the transaction id generated under
  the given prefix, the account number generated for a system account and the new
  object id.
\<close>

definition freshIds :: "Fresh \<Rightarrow> string \<Rightarrow> State \<Rightarrow> bool" where
  "freshIds fr prefix s \<longleftrightarrow>
     generateTransactionId prefix (timestamp fr) (random fr)
       \<notin> set (map transactionId (transactions s))
     \<and> generateTransactionId ''SYS'' (timestamp fr) (sysRandom fr)
         \<notin> set (map accNumber (accounts s))
     \<and> newObjectId fr \<notin> set (map accId (accounts s))
     \<and> newObjectId fr \<notin> set (map balAccountId (balances s))"

text \<open>
  A request that the schemas accept: the user id is the string of an object id (24
  hexadecimal digits), no metadata key starts with a dollar sign, contains a dot or a
  NUL character or is a reserved name, the currency is one of the currency codes, and
  the amount is a finite number.
\<close>

definition objectIdString :: "string \<Rightarrow> bool" where
  "objectIdString v \<longleftrightarrow> length v = 24 \<and> list_all hexChar v"

definition plainKey :: "string \<Rightarrow> bool" where
  "plainKey k \<longleftrightarrow>
     (k = [] \<or> hd k \<noteq> CHR ''$'') \<and> CHR ''.'' \<notin> set k \<and> CHR 0x00 \<notin> set k
     \<and> k \<noteq> ''__proto__'' \<and> k \<noteq> ''constructor'' \<and> k \<noteq> ''prototype''"

definition acceptableRequest :: "string \<Rightarrow> (string \<times> string) list option \<Rightarrow> string \<Rightarrow> decimal \<Rightarrow> bool" where
  "acceptableRequest uid md cur amt \<longleftrightarrow>
     objectIdString uid \<and> list_all plainKey (map fst (objectEntries md))
     \<and> cur \<in> set [''USD'', ''EUR'', ''GBP'', ''JPY'', ''CAD'', ''CHF'', ''AUD'', ''CNY'', ''INR'', ''NGN'']
     \<and> isFinite (parseFloat amt)"

text \<open>
  A decimal of at most 20 significant digits: an integer below \<open>10 ^ 20\<close> in absolute
  value, times a power of ten.
\<close>

definition fitsPrecision :: "decimal \<Rightarrow> bool" where
  "fitsPrecision x \<longleftrightarrow> (\<exists>m e. \<bar>m\<bar> < 10 ^ 20 \<and> x = of_int m * 10 powi e)"

text \<open>
  The system account of a purpose and a currency, and the cache of the service agreeing
  with the store: what it holds for the purpose and the currency, if anything, is the id
  of such an account.
\<close>

definition isSystemAccount :: "State \<Rightarrow> string \<Rightarrow> string \<Rightarrow> string \<Rightarrow> bool" where
  "isSystemAccount s aid p cur \<longleftrightarrow>
     (\<exists>a \<in> set (accounts s). accId a = aid \<and> accType a = ''SYSTEM'' \<and> accCurrency a = cur
                              \<and> purpose a = Some p)"

definition cacheAgrees :: "State \<Rightarrow> string \<Rightarrow> string \<Rightarrow> bool" where
  "cacheAgrees s p cur \<longleftrightarrow>
     (\<forall>aid. map_of (systemAccounts s) (p @ ''_'' @ cur) = Some aid \<longrightarrow> isSystemAccount s aid p cur)"

text \<open>The characters of the class \<^verbatim>\<open>[0-9A-Za-z]\<close>, by their codes.\<close>

definition alnumChar :: "char \<Rightarrow> bool" where
  "alnumChar c \<longleftrightarrow>
     (let n = (of_char c :: nat)
      in (48 \<le> n \<and> n \<le> 57) \<or> (65 \<le> n \<and> n \<le> 90) \<or> (97 \<le> n \<and> n \<le> 122))"


section \<open>Example data\<close>

text \<open>
  The seed of the specification's scenario S5: two active USD accounts of two users,
  \<open>A\<close> with balance \<open>100\<close> and \<open>B\<close> with balance \<open>0\<close>, an empty journal and an empty
  cache; and the values that three successive calls draw from the clock and the
  generators.
\<close>

definition exAccountA :: Account where
  "exAccountA = \<lparr>accId = ''64a000000000000000000001'', accUserId = ''64b000000000000000000001'',
                  accNumber = ''ACCT-0000-0000-0001'', accType = ''SAVINGS'',
                  accCurrency = ''USD'', isActive = True, purpose = None\<rparr>"

definition exAccountB :: Account where
  "exAccountB = \<lparr>accId = ''64a000000000000000000002'', accUserId = ''64b000000000000000000002'',
                  accNumber = ''ACCT-0000-0000-0002'', accType = ''SAVINGS'',
                  accCurrency = ''USD'', isActive = True, purpose = None\<rparr>"

definition exBalanceA :: AccountBalance where
  "exBalanceA = \<lparr>balAccountId = ''64a000000000000000000001'', balCurrency = ''USD'', balance = 100\<rparr>"

definition exBalanceB :: AccountBalance where
  "exBalanceB = \<lparr>balAccountId = ''64a000000000000000000002'', balCurrency = ''USD'', balance = 0\<rparr>"

definition exState :: State where
  "exState = \<lparr>accounts = [exAccountA, exAccountB], balances = [exBalanceA, exBalanceB],
               transactions = [], systemAccounts = []\<rparr>"

definition exFresh1 :: Fresh where
  "exFresh1 = \<lparr>now = 1000, timestamp = ''T1'', random = ''0000000A'', sysRandom = ''0000000B'',
                newObjectId = ''64c000000000000000000001''\<rparr>"

definition exFresh2 :: Fresh where
  "exFresh2 = \<lparr>now = 2000, timestamp = ''T2'', random = ''0000000C'', sysRandom = ''0000000D'',
                newObjectId = ''64c000000000000000000002''\<rparr>"

definition exFresh3 :: Fresh where
  "exFresh3 = \<lparr>now = 3000, timestamp = ''T3'', random = ''0000000E'', sysRandom = ''0000000F'',
                newObjectId = ''64c000000000000000000003''\<rparr>"

text \<open>
  A request on account \<open>A\<close> by its owner, a transfer from \<open>A\<close> to \<open>B\<close>, and the same
  two with a metadata object whose one key contains a dot.
\<close>

definition exRequest :: "decimal \<Rightarrow> DepositTransactionDTO" where
  "exRequest x = \<lparr>reqUserId = ''64b000000000000000000001'',
                   reqAccountNumber = ''ACCT-0000-0000-0001'', reqAmount = x,
                   reqCurrency = ''USD'', reqDescription = None, reqReference = None,
                   reqMetadata = None\<rparr>"

definition exTransfer :: "decimal \<Rightarrow> TransferTransactionDTO" where
  "exTransfer x = \<lparr>trUserId = ''64b000000000000000000001'',
                    fromAccountNumber = ''ACCT-0000-0000-0001'',
                    toAccountNumber = ''ACCT-0000-0000-0002'', trAmount = x, trCurrency = ''USD'',
                    trDescription = None, trReference = None, trMetadata = None\<rparr>"

definition exDottedRequest :: DepositTransactionDTO where
  "exDottedRequest = (exRequest 30)\<lparr>reqMetadata := Some [(''a.b'', ''x'')]\<rparr>"

definition exDottedTransfer :: TransferTransactionDTO where
  "exDottedTransfer = (exTransfer 40)\<lparr>trMetadata := Some [(''a.b'', ''x'')]\<rparr>"

definition exReversal :: "string \<Rightarrow> ReversalTransactionDTO" where
  "exReversal tid = \<lparr>revUserId = ''64b000000000000000000009'', originalTransactionId = tid,
                      reason = ''requested'', revMetadata = None\<rparr>"

text \<open>The seed with the balance of \<open>A\<close> at \<open>10 ^ 21\<close>.\<close>

definition exLargeState :: State where
  "exLargeState =
     exState\<lparr>balances := [exBalanceA\<lparr>balance := 1000000000000000000000\<rparr>, exBalanceB]\<rparr>"

text \<open>
  A journal in which the transfer \<open>TRF-T1-0000000A\<close> of \<open>40\<close> from \<open>A\<close> to \<open>B\<close> is
  \<open>COMPLETED\<close> and a \<open>REVERSAL\<close> that names it is stored with status \<open>FAILED\<close>,
  as the sweep leaves a pending reversal that it could not post.
\<close>

definition exOriginal :: Transaction where
  "exOriginal =
     \<lparr>transactionId = ''TRF-T1-0000000A'', transactionType = TRANSFER,
      userId = ''64b000000000000000000001'',
      entries = [\<lparr>accountId = ''64a000000000000000000001'', entryType = DEBIT, entryAmount = 40\<rparr>,
                 \<lparr>accountId = ''64a000000000000000000002'', entryType = CREDIT, entryAmount = 40\<rparr>],
      amount = 40, currency = ''USD'',
      status = COMPLETED, description = ''Transfer transaction'',
      metadata = [], failureReason = None,
      createdAt = 1000\<rparr>"

definition exFailedReversal :: Transaction where
  "exFailedReversal =
     \<lparr>transactionId = ''REV-T2-0000000C'', transactionType = REVERSAL,
      userId = ''64b000000000000000000009'',
      entries = [\<lparr>accountId = ''64a000000000000000000001'', entryType = CREDIT, entryAmount = 40\<rparr>,
                 \<lparr>accountId = ''64a000000000000000000002'', entryType = DEBIT, entryAmount = 40\<rparr>],
      amount = 40, currency = ''USD'',
      status = FAILED, description = ''Reversal'',
      metadata = [(''originalTransactionId'', ''TRF-T1-0000000A'')],
      failureReason = Some ''Insufficient funds for transaction'', createdAt = 2000\<rparr>"

definition exBlockedState :: State where
  "exBlockedState =
     \<lparr>accounts = [exAccountA, exAccountB],
      balances = [exBalanceA\<lparr>balance := 60\<rparr>, exBalanceB\<lparr>balance := 40\<rparr>],
      transactions = [exOriginal, exFailedReversal], systemAccounts = []\<rparr>"

text \<open>
  The state after the withdrawal of \<open>30\<close> from \<open>A\<close> in \<open>exState\<close>, drawn with \<open>exFresh1\<close>:
  the \<open>WITHDRAWALS\<close> system account has been created with a zero balance.
\<close>

definition exWithdrawalsAccount :: Account where
  "exWithdrawalsAccount =
     \<lparr>accId = ''64c000000000000000000001'', accUserId = ''000000000000000000000001'',
      accNumber = ''SYS-T1-0000000B'', accType = ''SYSTEM'', accCurrency = ''USD'',
      isActive = True, purpose = Some ''WITHDRAWALS''\<rparr>"

definition exWithdrawal :: Transaction where
  "exWithdrawal =
     \<lparr>transactionId = ''WDR-T1-0000000A'', transactionType = WITHDRAWAL,
      userId = ''64b000000000000000000001'',
      entries = [\<lparr>accountId = ''64a000000000000000000001'', entryType = DEBIT, entryAmount = 30\<rparr>,
                 \<lparr>accountId = ''64c000000000000000000001'', entryType = CREDIT, entryAmount = 30\<rparr>],
      amount = 30, currency = ''USD'',
      status = COMPLETED, description = ''Withdrawal transaction'',
      metadata = [], failureReason = None,
      createdAt = 1000\<rparr>"

definition exWithdrawnState :: State where
  "exWithdrawnState =
     \<lparr>accounts = [exAccountA, exAccountB, exWithdrawalsAccount],
      balances = [exBalanceA\<lparr>balance := 70\<rparr>, exBalanceB,
                  \<lparr>balAccountId = ''64c000000000000000000001'', balCurrency = ''USD'', balance = 0\<rparr>],
      transactions = [exWithdrawal],
      systemAccounts = [(''WITHDRAWALS_USD'', ''64c000000000000000000001'')]\<rparr>"

text \<open>
  A state in which the \<open>DEPOSITS\<close> system account of USD exists with a zero balance, and
  the state that the deposit of \<open>30\<close> into \<open>A\<close>, drawn with \<open>exFresh1\<close>, makes of it.
\<close>

definition exDepositsAccount :: Account where
  "exDepositsAccount =
     \<lparr>accId = ''64c000000000000000000009'', accUserId = ''000000000000000000000001'',
      accNumber = ''SYS-T0-00000009'', accType = ''SYSTEM'', accCurrency = ''USD'',
      isActive = True, purpose = Some ''DEPOSITS''\<rparr>"

definition exSystemState :: State where
  "exSystemState =
     \<lparr>accounts = [exAccountA, exAccountB, exDepositsAccount],
      balances = [exBalanceA, exBalanceB,
                  \<lparr>balAccountId = ''64c000000000000000000009'', balCurrency = ''USD'', balance = 0\<rparr>],
      transactions = [], systemAccounts = []\<rparr>"

definition exDeposit :: Transaction where
  "exDeposit =
     \<lparr>transactionId = ''DEP-T1-0000000A'', transactionType = DEPOSIT,
      userId = ''64b000000000000000000001'',
      entries = [\<lparr>accountId = ''64a000000000000000000001'', entryType = CREDIT, entryAmount = 30\<rparr>,
                 \<lparr>accountId = ''64c000000000000000000009'', entryType = DEBIT, entryAmount = 30\<rparr>],
      amount = 30, currency = ''USD'',
      status = COMPLETED, description = ''Deposit transaction'',
      metadata = [], failureReason = None,
      createdAt = 1000\<rparr>"

definition exDepositedState :: State where
  "exDepositedState =
     \<lparr>accounts = [exAccountA, exAccountB, exDepositsAccount],
      balances = [exBalanceA\<lparr>balance := 130\<rparr>, exBalanceB,
                  \<lparr>balAccountId = ''64c000000000000000000009'', balCurrency = ''USD'', balance = 0\<rparr>],
      transactions = [exDeposit],
      systemAccounts = [(''DEPOSITS_USD'', ''64c000000000000000000009'')]\<rparr>"

text \<open>
  A transaction whose entries balance (\<open>DEBIT A 5\<close>, \<open>CREDIT B 5\<close>) but whose declared
  amount is \<open>7\<close> and whose declared currency is EUR, while \<open>A\<close> and \<open>B\<close> are USD accounts;
  and one whose debit of \<open>2 ^ 53 + 1\<close> stands against a credit of \<open>2 ^ 53\<close>.
\<close>

definition exMisdeclared :: Transaction where
  "exMisdeclared =
     \<lparr>transactionId = ''TXN-T1-0000000A'', transactionType = ADJUSTMENT,
      userId = ''64b000000000000000000001'',
      entries = [\<lparr>accountId = ''64a000000000000000000001'', entryType = DEBIT, entryAmount = 5\<rparr>,
                 \<lparr>accountId = ''64a000000000000000000002'', entryType = CREDIT, entryAmount = 5\<rparr>],
      amount = 7, currency = ''EUR'',
      status = PROCESSING, description = [], metadata = [],
      failureReason = None, createdAt = 1000\<rparr>"

definition exUnbalanced :: Transaction where
  "exUnbalanced =
     \<lparr>transactionId = ''TXN-T1-0000000B'', transactionType = ADJUSTMENT,
      userId = ''64b000000000000000000001'',
      entries = [\<lparr>accountId = ''64a000000000000000000001'', entryType = DEBIT,
                  entryAmount = 9007199254740993\<rparr>,
                 \<lparr>accountId = ''64a000000000000000000002'', entryType = CREDIT,
                  entryAmount = 9007199254740992\<rparr>],
      amount = 9007199254740993, currency = ''USD'',
      status = PROCESSING, description = [], metadata = [],
      failureReason = None, createdAt = 1000\<rparr>"

text \<open>
  Three entries in cents that balance exactly: debits of \<open>0.10\<close> and \<open>0.20\<close> against a
  credit of \<open>0.30\<close>.
\<close>

definition exCentEntries :: "Entry list" where
  "exCentEntries =
     [\<lparr>accountId = ''64a000000000000000000001'', entryType = DEBIT, entryAmount = 1/10\<rparr>,
      \<lparr>accountId = ''64a000000000000000000002'', entryType = DEBIT, entryAmount = 2/10\<rparr>,
      \<lparr>accountId = ''64c000000000000000000001'', entryType = CREDIT, entryAmount = 3/10\<rparr>]"

text \<open>A row of the aggregation: the deposits in USD, with their decimal total.\<close>

definition exStat :: "decimal \<Rightarrow> Stat" where
  "exStat x = \<lparr>statTransactionType = DEPOSIT, statCurrency = ''USD'', statCount = 1,
                statTotalAmount = x\<rparr>"

text \<open>
  Two pending transactions, both older than a minute at time \<open>100000\<close>, over balances
  \<open>A = 100\<close> and \<open>B = 0\<close>: the first moves \<open>10\<close> from \<open>A\<close> to \<open>B\<close>, the second credits
  \<open>A\<close> with \<open>50\<close> and then debits \<open>B\<close> with \<open>50\<close>.
\<close>

definition exPending1 :: Transaction where
  "exPending1 =
     \<lparr>transactionId = ''TXN-T0-00000001'', transactionType = TRANSFER,
      userId = ''64b000000000000000000001'',
      entries = [\<lparr>accountId = ''64a000000000000000000001'', entryType = DEBIT, entryAmount = 10\<rparr>,
                 \<lparr>accountId = ''64a000000000000000000002'', entryType = CREDIT, entryAmount = 10\<rparr>],
      amount = 10, currency = ''USD'',
      status = PENDING, description = [], metadata = [],
      failureReason = None, createdAt = 0\<rparr>"

definition exPending2 :: Transaction where
  "exPending2 =
     \<lparr>transactionId = ''TXN-T0-00000002'', transactionType = TRANSFER,
      userId = ''64b000000000000000000002'',
      entries = [\<lparr>accountId = ''64a000000000000000000001'', entryType = CREDIT, entryAmount = 50\<rparr>,
                 \<lparr>accountId = ''64a000000000000000000002'', entryType = DEBIT, entryAmount = 50\<rparr>],
      amount = 50, currency = ''USD'',
      status = PENDING, description = [], metadata = [],
      failureReason = None, createdAt = 0\<rparr>"

definition exPendingState :: State where
  "exPendingState =
     \<lparr>accounts = [exAccountA, exAccountB], balances = [exBalanceA, exBalanceB],
      transactions = [exPending1, exPending2], systemAccounts = []\<rparr>"

section \<open>Rounding to binary64\<close>

text \<open>
  Facts about \<open>round64\<close> that the validator's running sum needs: a value \<open>m * 2 ^ k\<close> with
  \<open>m \<le> 2 ^ 53\<close> and \<open>k \<ge> -1074\<close> below the overflow threshold is its own rounding, every
  finite result of \<open>round64\<close> has this form, and so rounding is idempotent and exact on
  the integers up to \<open>2 ^ 53\<close>.
\<close>

lemma roundHalfEven_of_int: "roundHalfEven (of_int j) = j"
  by (simp add: roundHalfEven_def)

lemma roundHalfEven_le:
  assumes "x \<le> of_int n"
  shows "roundHalfEven x \<le> n"
proof (cases "\<lfloor>x\<rfloor> = n")
  case True
  then have "x - of_int \<lfloor>x\<rfloor> \<le> 0" using assms by simp
  then show ?thesis using True by (simp add: roundHalfEven_def Let_def)
next
  case False
  have "\<lfloor>x\<rfloor> \<le> n" using assms by (simp add: floor_le_iff)
  then have "\<lfloor>x\<rfloor> + 1 \<le> n" using False by simp
  then show ?thesis by (simp add: roundHalfEven_def Let_def)
qed

lemma roundHalfEven_ge:
  assumes "of_int n \<le> x"
  shows "n \<le> roundHalfEven x"
proof -
  have "n \<le> \<lfloor>x\<rfloor>" using assms by (simp add: le_floor_iff)
  then show ?thesis by (simp add: roundHalfEven_def Let_def)
qed

lemma bitlen_pos: "0 < p \<Longrightarrow> 1 \<le> bitlen p"
  using bitlen_eq_zero_iff[of p] bitlen_nonneg[of p] by linarith

lemma bitlen_rat_bounds:
  assumes "0 < p"
  shows "2 powi (bitlen p - 1) \<le> (of_int p :: rat)" and "(of_int p :: rat) < 2 powi (bitlen p)"
proof -
  have b: "2 ^ nat (bitlen p - 1) \<le> p" "p < 2 ^ nat (bitlen p)"
    using bitlen_bounds[OF assms] by auto
  have "(of_int (2 ^ nat (bitlen p - 1)) :: rat) \<le> of_int p"
    using b(1) of_int_le_iff by blast
  then show "2 powi (bitlen p - 1) \<le> (of_int p :: rat)"
    using bitlen_pos[OF assms] by (simp add: power_int_nonneg_exp)
  have "(of_int p :: rat) < of_int (2 ^ nat (bitlen p))"
    using b(2) of_int_less_iff by blast
  then show "(of_int p :: rat) < 2 powi (bitlen p)"
    using bitlen_nonneg[of p] by (simp add: power_int_nonneg_exp)
qed

lemma pow2_less_iff: "(2::rat) powi a < 2 powi b \<longleftrightarrow> a < b"
proof
  assume h: "(2::rat) powi a < 2 powi b"
  show "a < b"
  proof (rule ccontr)
    assume "\<not> a < b"
    then have "b \<le> a" by simp
    then have "(2::rat) powi b \<le> 2 powi a" by (intro power_int_increasing) auto
    with h show False by simp
  qed
next
  assume "a < b"
  then show "(2::rat) powi a < 2 powi b" by (intro power_int_strict_increasing) auto
qed

lemma pow2_le_iff: "(2::rat) powi a \<le> 2 powi b \<longleftrightarrow> a \<le> b"
  using pow2_less_iff[of b a] by (auto simp: not_less[symmetric])

lemma log2floor_bounds:
  assumes "0 < x"
  shows "2 powi (log2floor x) \<le> x" and "x < 2 powi (log2floor x + 1)"
proof -
  obtain p q where pq: "quotient_of x = (p, q)" by (cases "quotient_of x")
  have q: "0 < q" using pq quotient_of_denom_pos by blast
  have x: "x = of_int p / of_int q" using pq quotient_of_div by blast
  have p: "0 < p" using assms x q by (simp add: zero_less_divide_iff)
  define k where "k = bitlen p - bitlen q"
  note bp = bitlen_rat_bounds[OF p]
  note bq = bitlen_rat_bounds[OF q]
  have "2 powi (k - 1) = (2::rat) powi (bitlen p - 1) / 2 powi (bitlen q)"
    by (simp add: k_def power_int_diff power_int_add algebra_simps)
  also have "\<dots> \<le> of_int p / of_int q"
    using bp(1) bq(2) p q by (intro frac_le) auto
  finally have lo: "2 powi (k - 1) \<le> x" using x by simp
  have "x = of_int p / of_int q" by (rule x)
  also have "\<dots> < 2 powi (bitlen p) / 2 powi (bitlen q - 1)"
    using bp(2) bq(1) p q by (intro frac_less) auto
  also have "\<dots> = 2 powi (k + 1)"
    by (simp add: k_def power_int_diff power_int_add algebra_simps)
  finally have hi: "x < 2 powi (k + 1)" .
  have L: "log2floor x = (if 2 powi k \<le> x then k else k - 1)"
    by (simp add: log2floor_def pq k_def Let_def)
  show "2 powi (log2floor x) \<le> x" using lo L by auto
  show "x < 2 powi (log2floor x + 1)" using hi L by (auto simp: not_le)
qed

lemma log2floor_unique:
  assumes "2 powi k \<le> x" "x < 2 powi (k + 1)"
  shows "log2floor x = k"
proof -
  have x: "0 < x" using assms(1) by (meson less_le_trans zero_less_numeral zero_less_power_int)
  note b = log2floor_bounds[OF x]
  have "(2::rat) powi k < 2 powi (log2floor x + 1)" using assms(1) b(2) by linarith
  then have 1: "k < log2floor x + 1" by (simp only: pow2_less_iff)
  have "(2::rat) powi (log2floor x) < 2 powi (k + 1)" using assms(2) b(1) by linarith
  then have 2: "log2floor x < k + 1" by (simp only: pow2_less_iff)
  show ?thesis using 1 2 by simp
qed


lemma roundPos_representable:
  assumes m: "0 < m" "m \<le> 2 ^ 53" and k: "- 1074 \<le> k"
  shows "roundPos (of_int m * 2 powi k) = of_int m * 2 powi k"
proof -
  define x :: rat where "x = of_int m * 2 powi k"
  define L where "L = log2floor x"
  define e where "e = max (L - 52) (- 1074)"
  have xpos: "0 < x" using m(1) by (simp add: x_def)
  note b = log2floor_bounds[OF xpos, folded L_def]
  have "(of_int m :: rat) \<le> of_int (2 ^ 53)" using m(2) of_int_le_iff by blast
  then have "(of_int m :: rat) \<le> 2 powi 53" by simp
  then have "x \<le> 2 powi 53 * 2 powi k"
    unfolding x_def by (intro mult_right_mono) auto
  then have xle: "x \<le> 2 powi (53 + k)" by (simp add: power_int_add)
  have "(2::rat) powi L \<le> 2 powi (53 + k)" using b(1) xle by linarith
  then have Lle: "L \<le> 53 + k" by (simp only: pow2_le_iff)
  have "\<exists>j. x / 2 powi e = of_int j"
  proof (cases "e \<le> k")
    case True
    have "x / 2 powi e = of_int m * 2 powi (k - e)"
      by (simp add: x_def power_int_diff)
    also have "\<dots> = of_int m * 2 ^ nat (k - e)"
      using True by (simp add: power_int_nonneg_exp)
    also have "\<dots> = of_int (m * 2 ^ nat (k - e))" by simp
    finally show ?thesis by blast
  next
    case False
    then have e: "e = L - 52" and "k < L - 52" using k by (auto simp: e_def max_def split: if_splits)
    then have L: "L = 53 + k" using Lle by linarith
    have "x = 2 powi (53 + k)" using b(1) xle L by simp
    then have "x / 2 powi e = 2 powi 52"
      using e L by (simp add: power_int_diff[symmetric] del: power_int_numeral)
    also have "\<dots> = of_int (2 ^ 52)" by simp
    finally show ?thesis by blast
  qed
  then obtain j where j: "x / 2 powi e = of_int j" by blast
  then have "of_int j * 2 powi e = x" by (simp add: field_simps)
  moreover have "roundPos x = of_int (roundHalfEven (x / 2 powi e)) * 2 powi e"
    by (simp add: roundPos_def Let_def e_def L_def)
  ultimately show ?thesis using j by (simp add: roundHalfEven_of_int x_def)
qed

lemma roundPos_form:
  assumes "0 < x"
  shows "\<exists>m k. 0 \<le> m \<and> m \<le> 2 ^ 53 \<and> - 1074 \<le> k \<and> roundPos x = of_int m * 2 powi k"
proof -
  define L where "L = log2floor x"
  define e where "e = max (L - 52) (- 1074)"
  note b = log2floor_bounds[OF assms, folded L_def]
  have r: "roundPos x = of_int (roundHalfEven (x / 2 powi e)) * 2 powi e"
    by (simp add: roundPos_def Let_def e_def L_def)
  have "of_int 0 \<le> x / 2 powi e" using assms by simp
  then have m0: "0 \<le> roundHalfEven (x / 2 powi e)" by (rule roundHalfEven_ge)
  have "x / 2 powi e \<le> 2 powi (L + 1) / 2 powi e"
    using b(2) by (intro divide_right_mono) auto
  also have "\<dots> = 2 powi (L + 1 - e)" by (simp add: power_int_diff)
  also have "\<dots> \<le> 2 powi 53" by (simp only: pow2_le_iff) (simp add: e_def)
  also have "\<dots> = of_int (2 ^ 53)" by simp
  finally have "roundHalfEven (x / 2 powi e) \<le> 2 ^ 53" by (rule roundHalfEven_le)
  moreover have "- 1074 \<le> e" by (simp add: e_def)
  ultimately show ?thesis using r m0 by blast
qed

lemma round64_representable:
  assumes "0 < m" "m \<le> 2 ^ 53" "- 1074 \<le> k" "of_int m * 2 powi k < (2::rat) powi 1024"
  shows "round64 (of_int m * 2 powi k) = Finite (of_int m * 2 powi k)"
    and "round64 (- (of_int m * 2 powi k)) = Finite (- (of_int m * 2 powi k))"
proof -
  define x :: rat where "x = of_int m * 2 powi k"
  have xpos: "0 < x" using assms(1) by (simp add: x_def)
  have r: "roundPos x = x" unfolding x_def using assms(1-3) by (rule roundPos_representable)
  have lt: "\<not> 2 powi 1024 \<le> x" using assms(4) by (simp add: x_def)
  show "round64 (of_int m * 2 powi k) = Finite (of_int m * 2 powi k)"
    using xpos r lt unfolding x_def[symmetric] by (simp add: round64_def Let_def del: power_int_numeral)
  show "round64 (- (of_int m * 2 powi k)) = Finite (- (of_int m * 2 powi k))"
    using xpos r lt unfolding x_def[symmetric] by (simp add: round64_def Let_def del: power_int_numeral)
qed

lemma round64_idem:
  assumes "round64 x = Finite y"
  shows "round64 y = Finite y" and "round64 (- y) = Finite (- y)"
proof -
  have "round64 y = Finite y \<and> round64 (- y) = Finite (- y)"
  proof (cases "x = 0")
    case True
    then show ?thesis using assms by (auto simp: round64_def)
  next
    case False
    define v where "v = roundPos \<bar>x\<bar>"
    have lt: "v < 2 powi 1024" and y: "y = v \<or> y = - v"
      using assms False by (auto simp: round64_def Let_def v_def split: if_splits simp del: power_int_numeral)
    obtain m k where mk: "0 \<le> m" "m \<le> 2 ^ 53" "- 1074 \<le> k" "v = of_int m * 2 powi k"
      using roundPos_form[of "\<bar>x\<bar>"] False unfolding v_def by auto
    show ?thesis
    proof (cases "m = 0")
      case True
      then have "y = 0" using y mk(4) by auto
      then show ?thesis by (simp add: round64_def)
    next
      case False
      then have "0 < m" using mk(1) by simp
      from round64_representable[OF this mk(2) mk(3)] lt mk(4)
      have "round64 v = Finite v" "round64 (- v) = Finite (- v)" by auto
      then show ?thesis using y by auto
    qed
  qed
  then show "round64 y = Finite y" and "round64 (- y) = Finite (- y)" by auto
qed

lemma round64_int:
  assumes "\<bar>n\<bar> \<le> 2 ^ 53"
  shows "round64 (of_int n) = Finite (of_int n)"
proof (cases "n = 0")
  case True then show ?thesis by (simp add: round64_def)
next
  case False
  define m where "m = \<bar>n\<bar>"
  have m: "0 < m" "m \<le> 2 ^ 53" using False assms by (auto simp: m_def)
  have "(of_int m :: rat) \<le> of_int (2 ^ 53)" using m(2) of_int_le_iff by blast
  also have "\<dots> < 2 powi 1024" by simp
  finally have "of_int m * 2 powi 0 < (2::rat) powi 1024" by simp
  from round64_representable[OF m _ this]
  have "round64 (of_int m) = Finite (of_int m)" "round64 (- of_int m) = Finite (- of_int m)" by auto
  then show ?thesis using False by (cases "0 < n") (auto simp: m_def abs_if)
qed

lemma isFinite_iff: "isFinite n \<longleftrightarrow> (\<exists>r. n = Finite r)"
  by (cases n) auto

lemma fadd_zero_left:
  assumes "round64 x = Finite r"
  shows "fadd (Finite 0) (Finite r) = Finite r" and "fadd (Finite 0) (Finite (- r)) = Finite (- r)"
  using round64_idem[OF assms] by simp_all

lemma fadd_cancel: "fadd (Finite (- r)) (Finite r) = Finite 0" "fadd (Finite r) (Finite (- r)) = Finite 0"
  by (simp_all add: round64_def)

lemma entriesBalanceValidator_debit_credit:
  assumes "isFinite (parseFloat x)"
  shows "entriesBalanceValidator
           [\<lparr>accountId = a, entryType = DEBIT, entryAmount = x\<rparr>,
            \<lparr>accountId = b, entryType = CREDIT, entryAmount = x\<rparr>]"
proof -
  obtain r where r: "round64 x = Finite r"
    using assms by (auto simp: isFinite_iff parseFloat_def)
  show ?thesis
    using fadd_zero_left[OF r] fadd_cancel[of r]
    by (simp add: entriesBalanceValidator_def entriesSum_def parseFloat_def r Let_def)
qed

lemma entriesBalanceValidator_credit_debit:
  assumes "isFinite (parseFloat x)"
  shows "entriesBalanceValidator
           [\<lparr>accountId = a, entryType = CREDIT, entryAmount = x\<rparr>,
            \<lparr>accountId = b, entryType = DEBIT, entryAmount = x\<rparr>]"
proof -
  obtain r where r: "round64 x = Finite r"
    using assms by (auto simp: isFinite_iff parseFloat_def)
  show ?thesis
    using fadd_zero_left[OF r] fadd_cancel[of r]
    by (simp add: entriesBalanceValidator_def entriesSum_def parseFloat_def r Let_def)
qed

lemma parseFloat_int: "\<bar>n\<bar> \<le> 2 ^ 53 \<Longrightarrow> parseFloat (of_int n) = Finite (of_int n)"
  by (simp add: parseFloat_def round64_int)

lemma isFinite_parseFloat_int: "\<bar>n\<bar> \<le> 2 ^ 53 \<Longrightarrow> isFinite (parseFloat (of_int n))"
  by (simp add: parseFloat_int)

section \<open>Rounding to 20 significant digits\<close>

text \<open>
  Facts about \<open>finalise\<close>: a decimal of at most 20 significant digits is its own
  rounding, and rounding keeps the sign.
\<close>

lemma pow10_less_iff: "(10::rat) powi a < 10 powi b \<longleftrightarrow> a < b"
proof
  assume h: "(10::rat) powi a < 10 powi b"
  show "a < b"
  proof (rule ccontr)
    assume "\<not> a < b"
    then have "b \<le> a" by simp
    then have "(10::rat) powi b \<le> 10 powi a" by (intro power_int_increasing) auto
    with h show False by simp
  qed
next
  assume "a < b"
  then show "(10::rat) powi a < 10 powi b" by (intro power_int_strict_increasing) auto
qed

lemma floorlog_rat_bounds:
  assumes "0 < p"
  shows "10 powi (int (floorlog 10 (nat p)) - 1) \<le> (of_int p :: rat)"
    and "(of_int p :: rat) < 10 powi (int (floorlog 10 (nat p)))"
proof -
  have np: "0 < nat p" using assms by simp
  have ten: "(1::nat) < 10" by simp
  have "floorlog 10 (nat p) \<noteq> 0" using np by (simp only: floorlog_eq_zero_iff) simp
  then obtain m where m: "floorlog 10 (nat p) = Suc m" using not0_implies_Suc by blast
  have b: "10 ^ m \<le> nat p" "nat p < 10 ^ Suc m"
    using floorlog_bounds[OF np ten] unfolding m by simp_all
  have ip: "int (nat p) = p" using assms by simp
  have "int (10 ^ m) \<le> int (nat p)" using b(1) by (simp only: of_nat_le_iff)
  then have "(10::int) ^ m \<le> p" unfolding ip by simp
  then have "(of_int (10 ^ m) :: rat) \<le> of_int p" by (simp only: of_int_le_iff)
  then have 1: "(10::rat) ^ m \<le> of_int p" by simp
  have e1: "int (Suc m) - 1 = int m" by simp
  show "10 powi (int (floorlog 10 (nat p)) - 1) \<le> (of_int p :: rat)"
    unfolding m e1 power_int_of_nat by (rule 1)
  have "int (nat p) < int (10 ^ Suc m)" using b(2) by (simp only: of_nat_less_iff)
  then have "p < (10::int) ^ Suc m" unfolding ip by simp
  then have "(of_int p :: rat) < of_int (10 ^ Suc m)" by (simp only: of_int_less_iff)
  then have 2: "(of_int p :: rat) < 10 ^ Suc m" by simp
  show "(of_int p :: rat) < 10 powi (int (floorlog 10 (nat p)))"
    unfolding m power_int_of_nat by (rule 2)
qed

lemma log10floor_bounds:
  assumes "0 < x"
  shows "10 powi (log10floor x) \<le> x" and "x < 10 powi (log10floor x + 1)"
proof -
  obtain p q where pq: "quotient_of x = (p, q)" by (cases "quotient_of x")
  have q: "0 < q" using pq quotient_of_denom_pos by blast
  have x: "x = of_int p / of_int q" using pq quotient_of_div by blast
  have p: "0 < p" using assms x q by (simp add: zero_less_divide_iff)
  define dp where "dp = int (floorlog 10 (nat p))"
  define dq where "dq = int (floorlog 10 (nat q))"
  define k where "k = dp - dq"
  note bp = floorlog_rat_bounds[OF p, folded dp_def]
  note bq = floorlog_rat_bounds[OF q, folded dq_def]
  have "10 powi (k - 1) = (10::rat) powi (dp - 1) / 10 powi dq"
    by (simp add: k_def power_int_diff power_int_add algebra_simps)
  also have "\<dots> \<le> of_int p / of_int q"
    using bp(1) bq(2) p q by (intro frac_le) auto
  finally have lo: "10 powi (k - 1) \<le> x" using x by simp
  have "x = of_int p / of_int q" by (rule x)
  also have "\<dots> < 10 powi dp / 10 powi (dq - 1)"
    using bp(2) bq(1) p q by (intro frac_less) auto
  also have "\<dots> = 10 powi (k + 1)"
    by (simp add: k_def power_int_diff power_int_add algebra_simps)
  finally have hi: "x < 10 powi (k + 1)" .
  have L: "log10floor x = (if 10 powi k \<le> x then k else k - 1)"
    by (simp add: log10floor_def pq k_def dp_def dq_def Let_def)
  show "10 powi (log10floor x) \<le> x" using lo L by auto
  show "x < 10 powi (log10floor x + 1)" using hi L by (auto simp: not_le)
qed

lemma log10floor_unique:
  assumes "10 powi k \<le> x" "x < 10 powi (k + 1)"
  shows "log10floor x = k"
proof -
  have "0 < (10::rat) powi k" by simp
  then have x: "0 < x" using assms(1) by (rule less_le_trans)
  note b = log10floor_bounds[OF x]
  have "(10::rat) powi k < 10 powi (log10floor x + 1)"
    using assms(1) b(2) by (rule le_less_trans)
  then have 1: "k < log10floor x + 1" by (simp only: pow10_less_iff)
  have "(10::rat) powi (log10floor x) < 10 powi (k + 1)"
    using b(1) assms(2) by (rule le_less_trans)
  then have 2: "log10floor x < k + 1" by (simp only: pow10_less_iff)
  show ?thesis using 1 2 by simp
qed


lemma floor_add_half: "\<lfloor>(of_int j :: rat) + 1/2\<rfloor> = j"
  by (rule floor_unique) simp_all

lemma finalise_zero: "finalise 0 = 0"
  by (simp add: finalise_def)

lemma finalise_uminus: "finalise (- x) = - finalise x"
  by (simp add: finalise_def Let_def)

lemma finalise_pos_exact:
  assumes m: "0 < m" "m < 10 ^ 20"
  shows "finalise (of_int m * 10 powi k) = of_int m * 10 powi k"
proof -
  define x :: rat where "x = of_int m * 10 powi k"
  define L where "L = log10floor x"
  define e where "e = L - 19"
  have xpos: "0 < x" using m(1) by (simp add: x_def)
  note b = log10floor_bounds[OF xpos, folded L_def]
  have "(of_int m :: rat) < of_int (10 ^ 20)" using m(2) by (simp only: of_int_less_iff)
  then have "(of_int m :: rat) < 10 powi 20" by simp
  then have "x < 10 powi 20 * 10 powi k"
    unfolding x_def by (intro mult_strict_right_mono) auto
  then have xlt: "x < 10 powi (20 + k)" by (simp add: power_int_add)
  have "(10::rat) powi L < 10 powi (20 + k)" using b(1) xlt by (rule le_less_trans)
  then have "L < 20 + k" by (simp only: pow10_less_iff)
  then have ek: "e \<le> k" by (simp add: e_def)
  have "x / 10 powi e = of_int m * 10 powi (k - e)"
    by (simp add: x_def power_int_diff)
  also have "\<dots> = of_int m * 10 ^ nat (k - e)"
    using ek by (simp add: power_int_def)
  also have "\<dots> = of_int (m * 10 ^ nat (k - e))" by simp
  finally have "\<exists>j. x / 10 powi e = of_int j" by blast
  then obtain j where j: "x / 10 powi e = of_int j" by blast
  then have bk: "of_int j * 10 powi e = x" by (simp add: field_simps)
  have "finalise x = of_int \<lfloor>x / 10 powi e + 1/2\<rfloor> * 10 powi e"
    using xpos by (simp add: finalise_def Let_def precision_def e_def L_def)
  also have "\<dots> = x" unfolding j floor_add_half by (rule bk)
  finally show ?thesis by (simp only: x_def)
qed

lemma finalise_exact:
  assumes "\<bar>m\<bar> < 10 ^ 20"
  shows "finalise (of_int m * 10 powi k) = of_int m * 10 powi k"
proof -
  consider "m = 0" | "0 < m" | "m < 0" by linarith
  then show ?thesis
  proof cases
    case 1
    then show ?thesis by (simp add: finalise_zero)
  next
    case 2
    then show ?thesis using assms by (intro finalise_pos_exact) auto
  next
    case 3
    then have "finalise (of_int (- m) * 10 powi k) = of_int (- m) * 10 powi k"
      using assms by (intro finalise_pos_exact) auto
    then have "finalise (- (of_int m * 10 powi k)) = - (of_int m * 10 powi k)" by simp
    then show ?thesis by (simp only: finalise_uminus neg_equal_iff_equal)
  qed
qed

lemma finalise_fits: "fitsPrecision x \<Longrightarrow> finalise x = x"
  unfolding fitsPrecision_def using finalise_exact by blast

lemma finalise_of_int: "\<bar>n\<bar> < 10 ^ 20 \<Longrightarrow> finalise (of_int n) = of_int n"
  using finalise_exact[of n 0] by simp

lemma finalise_pos:
  assumes "0 < x"
  shows "0 < finalise x"
proof -
  define L where "L = log10floor x"
  define e where "e = L - 19"
  note b = log10floor_bounds[OF assms, folded L_def]
  have "(10::rat) powi 19 = 10 powi L / 10 powi e"
    by (simp add: e_def power_int_diff[symmetric] del: power_int_numeral)
  also have "\<dots> \<le> x / 10 powi e" using b(1) by (intro divide_right_mono) auto
  finally have "(10::rat) powi 19 \<le> x / 10 powi e" .
  moreover have "(1::rat) \<le> 10 powi 19" by simp
  ultimately have "(1::rat) \<le> x / 10 powi e" by (rule order_trans[rotated])
  then have "(1::rat) \<le> x / 10 powi e + 1/2" by linarith
  then have "1 \<le> \<lfloor>x / 10 powi e + 1/2\<rfloor>" by (simp only: le_floor_iff of_int_1)
  then have "0 < (of_int \<lfloor>x / 10 powi e + 1/2\<rfloor> :: rat) * 10 powi e"
    by (intro mult_pos_pos) auto
  moreover have "finalise x = of_int \<lfloor>x / 10 powi e + 1/2\<rfloor> * 10 powi e"
    using assms by (simp add: finalise_def Let_def precision_def e_def L_def)
  ultimately show ?thesis by simp
qed

lemma finalise_less_zero_iff: "finalise x < 0 \<longleftrightarrow> x < 0"
proof -
  consider "x = 0" | "0 < x" | "x < 0" by linarith
  then show ?thesis
  proof cases
    case 1 then show ?thesis by (simp add: finalise_zero)
  next
    case 2 then show ?thesis using finalise_pos[OF 2] by simp
  next
    case 3
    then have "0 < finalise (- x)" by (intro finalise_pos) simp
    then show ?thesis using 3 by (simp add: finalise_uminus)
  qed
qed

lemma finalise_eval:
  assumes "10 powi k \<le> x" "x < 10 powi (k + 1)"
  shows "finalise x = of_int \<lfloor>x / 10 powi (k - 19) + 1/2\<rfloor> * 10 powi (k - 19)"
proof -
  have "0 < (10::rat) powi k" by simp
  then have x: "0 < x" using assms(1) by (rule less_le_trans)
  show ?thesis
    using x by (simp add: finalise_def Let_def precision_def log10floor_unique[OF assms])
qed

lemma finalise_above_precision:
  "finalise (1000000000000000000000 - 1) = 1000000000000000000000"
proof -
  have "finalise 999999999999999999999
          = of_int \<lfloor>(999999999999999999999::rat) / 10 powi (20 - 19) + 1/2\<rfloor> * 10 powi (20 - 19)"
    by (rule finalise_eval) simp_all
  also have "\<dots> = of_int \<lfloor>(500000000000000000002::rat) / 5\<rfloor> * 10" by simp
  also have "\<lfloor>(500000000000000000002::rat) / 5\<rfloor> = 100000000000000000000"
    by (rule floor_unique) simp_all
  finally show ?thesis by simp
qed


lemma minusDecimal_negative: "minusDecimal x y < 0 \<longleftrightarrow> x < y"
  by (simp add: minusDecimal_def finalise_less_zero_iff)

lemma minusDecimal_fits: "fitsPrecision (x - y) \<Longrightarrow> minusDecimal x y = x - y"
  by (simp add: minusDecimal_def finalise_fits)

lemma plusDecimal_fits: "fitsPrecision (x + y) \<Longrightarrow> plusDecimal x y = x + y"
  by (simp add: plusDecimal_def finalise_fits)

lemma fitsPrecision_of_int: "\<bar>n\<bar> < 10 ^ 20 \<Longrightarrow> fitsPrecision (of_int n)"
  unfolding fitsPrecision_def by (rule exI[of _ n], rule exI[of _ 0]) simp

section \<open>Facts about the store operations\<close>

lemma not_CREDIT: "x \<noteq> CREDIT \<longleftrightarrow> x = DEBIT"
  by (cases x) auto

lemma findBalance_saveBalance:
  "findBalance a (saveBalance b bs) =
     (if a = balAccountId b then (case findBalance a bs of None \<Rightarrow> None | Some x \<Rightarrow> Some b)
      else findBalance a bs)"
  by (induction bs) (auto simp: findBalance_def)

lemma findBalance_append_Some:
  "findBalance a bs = Some b \<Longrightarrow> findBalance a (bs @ cs) = Some b"
  by (induction bs) (auto simp: findBalance_def)

lemma saveTransaction_append_last:
  "transactionId t \<notin> set (map transactionId ts) \<Longrightarrow> transactionId t' = transactionId t \<Longrightarrow>
     saveTransaction t' (ts @ [t]) = ts @ [t']"
  by (induction ts) auto


lemma validateTransaction_None:
  "validateTransaction t = None \<longleftrightarrow>
     transactionId t \<noteq> [] \<and> entriesLengthValidator (entries t)
     \<and> entriesBalanceValidator (entries t) \<and> currency t \<noteq> []
     \<and> list_all checkValidKey (map fst (metadata t))"
  by (auto simp: validateTransaction_def)

lemma validateTransaction_ok:
  assumes "tid \<noteq> []" "entriesLengthValidator es" "entriesBalanceValidator es" "cur \<noteq> []"
      and "list_all checkValidKey (map fst md)"
  shows "validateTransaction
           \<lparr>transactionId = tid, transactionType = ty, userId = u, entries = es, amount = a,
            currency = cur, status = st, description = d, metadata = md, failureReason = f,
            createdAt = c\<rparr> = None"
  using assms by (simp add: validateTransaction_None)

text \<open>What a successful \<open>getSystemAccount\<close> leaves: the journal as it was, and the balances
  as they were or with one new zero balance at the end, for a new account id.\<close>

lemma getSystemAccount_Inr:
  assumes "getSystemAccount fr ty cur s = (Inr i, s1)"
  shows "transactions s1 = transactions s \<and>
         (balances s1 = balances s \<or>
          (balances s1 = balances s @ [\<lparr>balAccountId = i, balCurrency = cur, balance = 0\<rparr>]
           \<and> i \<notin> set (map balAccountId (balances s))))"
  using assms
  by (auto simp: getSystemAccount_def cached_def Let_def split: option.splits if_splits)

lemma getSystemAccount_findBalance:
  assumes "getSystemAccount fr ty cur s = (Inr i, s1)" "findBalance a (balances s) = Some b"
  shows "findBalance a (balances s1) = Some b"
  using getSystemAccount_Inr[OF assms(1)] assms(2)
  by (auto simp: findBalance_append_Some)

lemma getSystemAccount_succeeds:
  assumes "freshIds fr prefix s" "validateCurrency cur"
  shows "\<exists>i s1. getSystemAccount fr ty cur s = (Inr i, s1)"
  using assms
  by (auto simp: getSystemAccount_def cached_def freshIds_def Let_def split: option.splits)

lemma getSystemAccount_isSystemAccount:
  assumes "getSystemAccount fr ty cur s = (Inr i, s1)" "cacheAgrees s ty cur"
  shows "isSystemAccount s1 i ty cur"
proof (cases "cached (systemAccounts s) (ty @ ''_'' @ cur)")
  case (Some c)
  then have "i = c" "s1 = s" using assms(1) by (simp_all add: getSystemAccount_def)
  moreover have "map_of (systemAccounts s) (ty @ ''_'' @ cur) = Some c"
    using Some by (simp add: cached_def split: option.splits if_splits)
  ultimately show ?thesis using assms(2) by (simp add: cacheAgrees_def)
next
  case None
  show ?thesis
  proof (cases "find (\<lambda>a. accType a = ''SYSTEM'' \<and> accCurrency a = cur \<and> purpose a = Some ty)
                  (accounts s)")
    case (Some a)
    then have a: "a \<in> set (accounts s)" "accType a = ''SYSTEM''" "accCurrency a = cur"
        "purpose a = Some ty"
      by (auto simp: find_Some_iff)
    have "i = accId a" "accounts s1 = accounts s"
      using assms(1) None Some by (auto simp: getSystemAccount_def)
    then show ?thesis using a by (auto simp: isSystemAccount_def)
  next
    case N: None
    show ?thesis
      using assms(1) None N
      by (auto simp: getSystemAccount_def isSystemAccount_def Let_def split: if_splits)
  qed
qed

section \<open>Facts about lookups, object ids and map keys\<close>

lemma find_unique:
  assumes "distinct (map f xs)" "x \<in> set xs" "P x" "\<And>y. y \<in> set xs \<Longrightarrow> P y \<Longrightarrow> f y = f x"
  shows "find P xs = Some x"
  using assms
proof (induction xs)
  case Nil
  then show ?case by simp
next
  case (Cons y ys)
  have d: "f y \<notin> f ` set ys" "distinct (map f ys)" using Cons.prems(1) by simp_all
  show ?case
  proof (cases "P y")
    case True
    have "y \<in> set (y # ys)" by simp
    then have e: "f y = f x" using True by (rule Cons.prems(4))
    have "x \<notin> set ys"
    proof
      assume "x \<in> set ys"
      then have "f x \<in> f ` set ys" by (rule imageI)
      then show False using d(1) e by simp
    qed
    then have "y = x" using Cons.prems(2) by simp
    then show ?thesis using True by simp
  next
    case False
    then have "x \<noteq> y" using Cons.prems(3) by blast
    then have m: "x \<in> set ys" using Cons.prems(2) by simp
    have "find P ys = Some x"
    proof (rule Cons.IH[OF d(2) m Cons.prems(3)])
      fix z assume "z \<in> set ys" "P z"
      then show "f z = f x" using Cons.prems(4)[of z] by simp
    qed
    then show ?thesis using False by simp
  qed
qed

lemma findAccount_unique:
  assumes "distinct (map accNumber as)" "a \<in> set as" "accNumber a = n" "isActive a"
  shows "findAccount n as = Some a"
  unfolding findAccount_def
proof (rule find_unique[where f = accNumber, OF assms(1,2)])
  show "accNumber a = n \<and> isActive a" using assms(3,4) by simp
  fix y assume "accNumber y = n \<and> isActive y"
  then show "accNumber y = accNumber a" using assms(3) by simp
qed

lemma findAccount_SomeD:
  "findAccount n as = Some a \<Longrightarrow> a \<in> set as \<and> accNumber a = n \<and> isActive a"
  by (auto simp: findAccount_def find_Some_iff)

lemma findBalance_unique:
  assumes "distinct (map balAccountId bs)" "b \<in> set bs"
  shows "findBalance (balAccountId b) bs = Some b"
  unfolding findBalance_def
  by (rule find_unique[where f = balAccountId, OF assms]) simp_all

lemma findBalance_SomeD:
  "findBalance a bs = Some b \<Longrightarrow> b \<in> set bs \<and> balAccountId b = a"
  by (auto simp: findBalance_def find_Some_iff)

lemma ObjectId_objectIdString: "objectIdString v \<Longrightarrow> \<exists>u. ObjectId v = Inr u"
  by (simp add: ObjectId_def objectIdString_def)

lemma plainKey_checkValidKey: "plainKey k \<Longrightarrow> checkValidKey k"
  by (cases k) (auto simp: plainKey_def checkValidKey_def)

lemma plainKey_serializableKey: "plainKey k \<Longrightarrow> serializableKey k"
  by (simp add: plainKey_def serializableKey_def)

lemma foldl_update_keys:
  "fst ` set (foldl (\<lambda>m (k, v). AList.update k v m) acc kvs) = fst ` set acc \<union> fst ` set kvs"
proof (induction kvs arbitrary: acc)
  case Nil
  then show ?case by simp
next
  case (Cons kv kvs)
  obtain k v where kv: "kv = (k, v)" by (cases kv)
  have "fst ` set (foldl (\<lambda>m (k, v). AList.update k v m) acc (kv # kvs))
          = fst ` set (AList.update k v acc) \<union> fst ` set kvs"
    unfolding kv by (simp add: Cons.IH)
  also have "\<dots> = ({k} \<union> fst ` set acc) \<union> fst ` set kvs" by (simp only: dom_update)
  also have "\<dots> = fst ` set acc \<union> fst ` set (kv # kvs)" unfolding kv by auto
  finally show ?case .
qed

lemma newMap_keys: "set (map fst (newMap kvs)) = set (map fst kvs)"
  using foldl_update_keys[of "[]" kvs] by (simp add: newMap_def)

lemma newMap_checkValidKey:
  "list_all plainKey (map fst kvs) \<Longrightarrow> list_all checkValidKey (map fst (newMap kvs))"
  unfolding list_all_iff newMap_keys using plainKey_checkValidKey by blast

lemma newMap_serializableKey:
  "list_all plainKey (map fst kvs) \<Longrightarrow> list_all serializableKey (map fst (newMap kvs))"
  unfolding list_all_iff newMap_keys using plainKey_serializableKey by blast

lemma generateTransactionId_nonempty: "generateTransactionId p t r \<noteq> []"
  by (simp add: generateTransactionId_def)

lemma acceptableRequest_currency: "acceptableRequest u md cur amt \<Longrightarrow> cur \<noteq> [] \<and> validateCurrency cur"
  by (auto simp: acceptableRequest_def validateCurrency_def CurrencyCode_def)

section \<open>Evaluating the examples\<close>

lemmas ex_defs = exState_def exAccountA_def exAccountB_def exBalanceA_def exBalanceB_def
  exFresh1_def exFresh2_def exFresh3_def exRequest_def exTransfer_def exReversal_def
  exDottedRequest_def exDottedTransfer_def exLargeState_def
  exOriginal_def exFailedReversal_def exBlockedState_def
  exWithdrawnState_def exWithdrawal_def exWithdrawalsAccount_def
  exDepositsAccount_def exSystemState_def exDeposit_def exDepositedState_def
  exMisdeclared_def exUnbalanced_def exCentEntries_def exStat_def
  exPending1_def exPending2_def exPendingState_def

lemmas op_defs = findAccount_def findBalance_def insertTransaction_def validateTransaction_def
  entriesLengthValidator_def getSystemAccount_def generateTransactionId_def Let_def
  findOriginal_def findExistingReversal_def newMap_def reverseEntry_def balanceOf_def
  ObjectId_def hexChar_def toLowerCase_def checkValidKey_def validateCurrency_def
  CurrencyCode_def plusDecimal_def minusDecimal_def cached_def serializableKey_def

lemma pair_validators:
  assumes "\<bar>n\<bar> \<le> 2 ^ 53"
  shows "entriesBalanceValidator
           [\<lparr>accountId = a, entryType = DEBIT, entryAmount = of_int n\<rparr>,
            \<lparr>accountId = b, entryType = CREDIT, entryAmount = of_int n\<rparr>]"
    and "entriesBalanceValidator
           [\<lparr>accountId = a, entryType = CREDIT, entryAmount = of_int n\<rparr>,
            \<lparr>accountId = b, entryType = DEBIT, entryAmount = of_int n\<rparr>]"
  using entriesBalanceValidator_debit_credit[OF isFinite_parseFloat_int[OF assms]]
        entriesBalanceValidator_credit_debit[OF isFinite_parseFloat_int[OF assms]]
  by simp_all

text \<open>Rounding to 20 digits leaves the small whole numbers of the examples as they are.\<close>

lemma finalise_numeral: "numeral w < (10::int) ^ 20 \<Longrightarrow> finalise (numeral w) = numeral w"
  using finalise_of_int[of "numeral w"] by simp

lemma finalise_one: "finalise 1 = 1"
  using finalise_of_int[of 1] by simp

lemmas dec_simps = finalise_zero finalise_one finalise_numeral finalise_uminus
  finalise_less_zero_iff

section \<open>Withdrawal\<close>

lemma createWithdrawal_insufficient:
  assumes "findAccount (reqAccountNumber w) (accounts s) = Some account"
      and "accCurrency account = reqCurrency w"
      and "findBalance (accId account) (balances s) = Some accountBalance"
      and "balance accountBalance < reqAmount w"
  shows "createWithdrawal fr w s =
           (Inl (InsufficientFundsError ''Insufficient funds for withdrawal'' None
                   (balance accountBalance) (reqAmount w)), s)"
  using assms by (simp add: createWithdrawal_def Let_def)

lemma createWithdrawal_success:
  assumes acc: "findAccount (reqAccountNumber w) (accounts s) = Some account"
      and cur: "accCurrency account = reqCurrency w"
      and bal: "findBalance (accId account) (balances s) = Some accountBalance"
      and suf: "reqAmount w \<le> balance accountBalance"
      and req: "acceptableRequest (reqUserId w) (reqMetadata w) (reqCurrency w) (reqAmount w)"
      and sys: "getSystemAccount fr ''WITHDRAWALS'' (reqCurrency w) s = (Inr sysId, s1)"
      and new: "generateTransactionId ''WDR'' (timestamp fr) (random fr)
                  \<notin> set (map transactionId (transactions s))"
  shows "\<exists>t s'. createWithdrawal fr w s = (Inr t, s')
           \<and> transactionId t = generateTransactionId ''WDR'' (timestamp fr) (random fr)
           \<and> transactionType t = WITHDRAWAL \<and> status t = COMPLETED
           \<and> amount t = reqAmount w \<and> currency t = reqCurrency w
           \<and> entries t = [\<lparr>accountId = accId account, entryType = DEBIT, entryAmount = reqAmount w\<rparr>,
                          \<lparr>accountId = sysId, entryType = CREDIT, entryAmount = reqAmount w\<rparr>]
           \<and> transactions s' = transactions s @ [t]
           \<and> accounts s' = accounts s1
           \<and> balances s' =
                saveBalance (accountBalance\<lparr>balance := minusDecimal (balance accountBalance) (reqAmount w)\<rparr>)
                  (balances s1)"
proof -
  have tr: "transactions s1 = transactions s"
    using getSystemAccount_Inr[OF sys] by simp
  have fin: "isFinite (parseFloat (reqAmount w))" using req by (simp add: acceptableRequest_def)
  have v: "entriesBalanceValidator
             [\<lparr>accountId = accId account, entryType = DEBIT, entryAmount = reqAmount w\<rparr>,
              \<lparr>accountId = sysId, entryType = CREDIT, entryAmount = reqAmount w\<rparr>]"
    by (rule entriesBalanceValidator_debit_credit[OF fin])
  obtain uid where uid: "ObjectId (reqUserId w) = Inr uid"
    using req ObjectId_objectIdString by (auto simp: acceptableRequest_def)
  have keys: "list_all checkValidKey (map fst (newMap (objectEntries (reqMetadata w))))"
             "list_all serializableKey (map fst (newMap (objectEntries (reqMetadata w))))"
    using req by (simp_all add: newMap_checkValidKey newMap_serializableKey acceptableRequest_def)
  have c: "reqCurrency w \<noteq> []" using acceptableRequest_currency[OF req] by simp
  show ?thesis
    using acc cur bal suf sys new v uid keys c
    by (simp add: createWithdrawal_def Let_def insertTransaction_def validateTransaction_ok
        generateTransactionId_nonempty entriesLengthValidator_def tr saveTransaction_append_last
        not_less[symmetric])
qed

text \<open>
  C2, as the code has it. The store keeps its unique indexes, \<open>account\<close> is an active
  account with the number and the currency of the request, and \<open>accountBalance\<close> is its
  balance document. If the balance is less than the amount, the call returns
  \<open>InsufficientFundsError\<close> with the available balance and the requested amount and the state
  is the one before the call. Otherwise (equality included), for a request that the
  schemas accept, with the values drawn for the call new to the store, the cache agreeing
  with the store, and the difference of balance and amount of at most 20 significant
  digits, the call returns one transaction \<open>t\<close>, \<open>COMPLETED\<close>, of type \<open>WITHDRAWAL\<close>, with
  the id generated under the prefix \<open>WDR\<close> and the entries \<open>DEBIT\<close> customer and \<open>CREDIT\<close>
  the \<open>SYSTEM\<close> account of purpose \<open>WITHDRAWALS\<close> and of the currency, each for the amount;
  \<open>t\<close> is the one transaction added to the journal, the customer's balance is the old one
  minus the amount, and every other balance of the store is as it was.
\<close>

theorem createWithdrawal_sufficiency:
  assumes "account \<in> set (accounts s)" "accNumber account = reqAccountNumber w" "isActive account"
      and "accCurrency account = reqCurrency w"
      and "accountBalance \<in> set (balances s)" "balAccountId accountBalance = accId account"
      and "uniqueKeys s"
  shows "(balance accountBalance < reqAmount w \<longrightarrow>
            createWithdrawal fr w s =
              (Inl (InsufficientFundsError ''Insufficient funds for withdrawal'' None
                      (balance accountBalance) (reqAmount w)), s))
       \<and> (reqAmount w \<le> balance accountBalance
          \<and> acceptableRequest (reqUserId w) (reqMetadata w) (reqCurrency w) (reqAmount w)
          \<and> freshIds fr ''WDR'' s \<and> cacheAgrees s ''WITHDRAWALS'' (reqCurrency w)
          \<and> fitsPrecision (balance accountBalance - reqAmount w) \<longrightarrow>
            (\<exists>sysId t s'.
                 createWithdrawal fr w s = (Inr t, s')
               \<and> isSystemAccount s' sysId ''WITHDRAWALS'' (reqCurrency w)
               \<and> transactionId t = generateTransactionId ''WDR'' (timestamp fr) (random fr)
               \<and> transactionType t = WITHDRAWAL \<and> status t = COMPLETED
               \<and> amount t = reqAmount w \<and> currency t = reqCurrency w
               \<and> entries t =
                   [\<lparr>accountId = accId account, entryType = DEBIT, entryAmount = reqAmount w\<rparr>,
                    \<lparr>accountId = sysId, entryType = CREDIT, entryAmount = reqAmount w\<rparr>]
               \<and> transactions s' = transactions s @ [t]
               \<and> balanceOf s' (accId account) = Some (balance accountBalance - reqAmount w)
               \<and> (\<forall>a b. a \<noteq> accId account \<and> balanceOf s a = Some b \<longrightarrow>
                     balanceOf s' a = Some b)))"
proof (intro conjI impI)
  have acc: "findAccount (reqAccountNumber w) (accounts s) = Some account"
    using assms(1-3,7) by (intro findAccount_unique) (simp_all add: uniqueKeys_def)
  have bal: "findBalance (accId account) (balances s) = Some accountBalance"
    using findBalance_unique[of "balances s" accountBalance] assms(5-7)
    by (simp add: uniqueKeys_def)
  {
    assume "balance accountBalance < reqAmount w"
    then show "createWithdrawal fr w s =
        (Inl (InsufficientFundsError ''Insufficient funds for withdrawal'' None
                (balance accountBalance) (reqAmount w)), s)"
      using acc assms(4) bal by (intro createWithdrawal_insufficient)
  }
  assume h: "reqAmount w \<le> balance accountBalance
          \<and> acceptableRequest (reqUserId w) (reqMetadata w) (reqCurrency w) (reqAmount w)
          \<and> freshIds fr ''WDR'' s \<and> cacheAgrees s ''WITHDRAWALS'' (reqCurrency w)
          \<and> fitsPrecision (balance accountBalance - reqAmount w)"
  then have suf: "reqAmount w \<le> balance accountBalance"
    and req: "acceptableRequest (reqUserId w) (reqMetadata w) (reqCurrency w) (reqAmount w)"
    and fresh: "freshIds fr ''WDR'' s"
    and cache: "cacheAgrees s ''WITHDRAWALS'' (reqCurrency w)"
    and fits: "fitsPrecision (balance accountBalance - reqAmount w)"
    by simp_all
  have vc: "validateCurrency (reqCurrency w)" using acceptableRequest_currency[OF req] by simp
  have "\<exists>i s1. getSystemAccount fr ''WITHDRAWALS'' (reqCurrency w) s = (Inr i, s1)"
    using fresh vc by (rule getSystemAccount_succeeds)
  then obtain sysId s1 where
    sys: "getSystemAccount fr ''WITHDRAWALS'' (reqCurrency w) s = (Inr sysId, s1)"
    by - ((erule exE)+, rule that)
  have new: "generateTransactionId ''WDR'' (timestamp fr) (random fr)
               \<notin> set (map transactionId (transactions s))"
    using fresh by (simp add: freshIds_def)
  from createWithdrawal_success[OF acc assms(4) bal suf req sys new]
  obtain t s' where r: "createWithdrawal fr w s = (Inr t, s')"
      "transactionId t = generateTransactionId ''WDR'' (timestamp fr) (random fr)"
      "transactionType t = WITHDRAWAL" "status t = COMPLETED"
      "amount t = reqAmount w" "currency t = reqCurrency w"
      "entries t = [\<lparr>accountId = accId account, entryType = DEBIT, entryAmount = reqAmount w\<rparr>,
                    \<lparr>accountId = sysId, entryType = CREDIT, entryAmount = reqAmount w\<rparr>]"
      "transactions s' = transactions s @ [t]"
      "accounts s' = accounts s1"
      "balances s' =
         saveBalance (accountBalance\<lparr>balance := minusDecimal (balance accountBalance) (reqAmount w)\<rparr>)
           (balances s1)"
    by blast
  have isys: "isSystemAccount s' sysId ''WITHDRAWALS'' (reqCurrency w)"
    using getSystemAccount_isSystemAccount[OF sys cache] r(9) by (simp add: isSystemAccount_def)
  have id: "balAccountId accountBalance = accId account" by (rule assms(6))
  have b1: "findBalance (accId account) (balances s1) = Some accountBalance"
    using getSystemAccount_findBalance[OF sys bal] .
  have own: "balanceOf s' (accId account) = Some (balance accountBalance - reqAmount w)"
    using b1 id by (simp add: balanceOf_def r(10) findBalance_saveBalance minusDecimal_fits[OF fits])
  have other: "\<forall>a b. a \<noteq> accId account \<and> balanceOf s a = Some b \<longrightarrow> balanceOf s' a = Some b"
  proof (intro allI impI)
    fix a b assume ab: "a \<noteq> accId account \<and> balanceOf s a = Some b"
    then obtain doc where doc: "findBalance a (balances s) = Some doc" "balance doc = b"
      by (auto simp: balanceOf_def)
    have "findBalance a (balances s1) = Some doc"
      using getSystemAccount_findBalance[OF sys doc(1)] .
    then show "balanceOf s' a = Some b"
      using ab id doc(2) by (simp add: balanceOf_def r(10) findBalance_saveBalance)
  qed
  show "\<exists>sysId t s'.
                 createWithdrawal fr w s = (Inr t, s')
               \<and> isSystemAccount s' sysId ''WITHDRAWALS'' (reqCurrency w)
               \<and> transactionId t = generateTransactionId ''WDR'' (timestamp fr) (random fr)
               \<and> transactionType t = WITHDRAWAL \<and> status t = COMPLETED
               \<and> amount t = reqAmount w \<and> currency t = reqCurrency w
               \<and> entries t =
                   [\<lparr>accountId = accId account, entryType = DEBIT, entryAmount = reqAmount w\<rparr>,
                    \<lparr>accountId = sysId, entryType = CREDIT, entryAmount = reqAmount w\<rparr>]
               \<and> transactions s' = transactions s @ [t]
               \<and> balanceOf s' (accId account) = Some (balance accountBalance - reqAmount w)
               \<and> (\<forall>a b. a \<noteq> accId account \<and> balanceOf s a = Some b \<longrightarrow>
                     balanceOf s' a = Some b)"
    by (intro exI conjI) (rule r(1) isys r(2-8) own other)+
qed

lemma exState_facts:
  "exAccountA \<in> set (accounts exState)" "exAccountB \<in> set (accounts exState)"
  "exBalanceA \<in> set (balances exState)" "exBalanceB \<in> set (balances exState)"
  "balAccountId exBalanceA = accId exAccountA" "balAccountId exBalanceB = accId exAccountB"
  "isActive exAccountA" "isActive exAccountB"
  "uniqueKeys exState"
  by (simp_all add: uniqueKeys_def exState_def exAccountA_def exAccountB_def exBalanceA_def
      exBalanceB_def)

lemma exRequest_acceptable:
  assumes "isFinite (parseFloat x)"
  shows "acceptableRequest (reqUserId (exRequest x)) (reqMetadata (exRequest x))
           (reqCurrency (exRequest x)) (reqAmount (exRequest x))"
  using assms by (simp add: acceptableRequest_def objectIdString_def hexChar_def exRequest_def)

theorem createWithdrawal_sufficiency_witness:
  "createWithdrawal exFresh1 (exRequest 175) exState =
     (Inl (InsufficientFundsError ''Insufficient funds for withdrawal'' None 100 175), exState)
   \<and> (\<exists>sysId t s'. createWithdrawal exFresh1 (exRequest 30) exState = (Inr t, s')
         \<and> isSystemAccount s' sysId ''WITHDRAWALS'' ''USD''
         \<and> transactionId t = ''WDR-T1-0000000A''
         \<and> transactionType t = WITHDRAWAL \<and> status t = COMPLETED
         \<and> entries t = [\<lparr>accountId = ''64a000000000000000000001'', entryType = DEBIT,
                          entryAmount = 30\<rparr>,
                        \<lparr>accountId = sysId, entryType = CREDIT, entryAmount = 30\<rparr>]
         \<and> transactions s' = [t]
         \<and> balanceOf s' ''64a000000000000000000001'' = Some 70
         \<and> balanceOf s' ''64a000000000000000000002'' = Some 0)"
proof -
  have n: "accNumber exAccountA = reqAccountNumber (exRequest x)" for x
    by (simp add: exRequest_def exAccountA_def)
  have c: "accCurrency exAccountA = reqCurrency (exRequest x)" for x
    by (simp add: exRequest_def exAccountA_def)
  note t = createWithdrawal_sufficiency[OF exState_facts(1) n exState_facts(7) c
      exState_facts(3,5,9)]
  have low: "balance exBalanceA < reqAmount (exRequest 175)"
    by (simp add: exRequest_def exBalanceA_def)
  have suf: "reqAmount (exRequest 30) \<le> balance exBalanceA"
    by (simp add: exRequest_def exBalanceA_def)
  have req: "acceptableRequest (reqUserId (exRequest 30)) (reqMetadata (exRequest 30))
               (reqCurrency (exRequest 30)) (reqAmount (exRequest 30))"
    by (rule exRequest_acceptable[OF isFinite_parseFloat_int[of 30, simplified]])
  have fresh: "freshIds exFresh1 ''WDR'' exState"
    by (simp add: freshIds_def ex_defs op_defs)
  have cache: "cacheAgrees exState ''WITHDRAWALS'' (reqCurrency (exRequest 30))"
    by (simp add: cacheAgrees_def exState_def)
  have fits: "fitsPrecision (balance exBalanceA - reqAmount (exRequest 30))"
    using fitsPrecision_of_int[of 70] by (simp add: exRequest_def exBalanceA_def)
  have tid: "generateTransactionId ''WDR'' (timestamp exFresh1) (random exFresh1) = ''WDR-T1-0000000A''"
    by (simp add: generateTransactionId_def exFresh1_def)
  have bb: "balanceOf exState ''64a000000000000000000002'' = Some 0" by (simp add: ex_defs op_defs)
  have 1: "createWithdrawal exFresh1 (exRequest 175) exState =
     (Inl (InsufficientFundsError ''Insufficient funds for withdrawal'' None 100 175), exState)"
    using t[of 175 exFresh1] low by (simp add: exRequest_def exBalanceA_def)
  from t[of 30 exFresh1] suf req fresh cache fits
  obtain sysId t s' where r:
      "createWithdrawal exFresh1 (exRequest 30) exState = (Inr t, s')"
      "isSystemAccount s' sysId ''WITHDRAWALS'' (reqCurrency (exRequest 30))"
      "transactionId t = generateTransactionId ''WDR'' (timestamp exFresh1) (random exFresh1)"
      "transactionType t = WITHDRAWAL" "status t = COMPLETED"
      "entries t =
         [\<lparr>accountId = accId exAccountA, entryType = DEBIT, entryAmount = reqAmount (exRequest 30)\<rparr>,
          \<lparr>accountId = sysId, entryType = CREDIT, entryAmount = reqAmount (exRequest 30)\<rparr>]"
      "transactions s' = transactions exState @ [t]"
      "balanceOf s' (accId exAccountA) = Some (balance exBalanceA - reqAmount (exRequest 30))"
      "\<forall>a b. a \<noteq> accId exAccountA \<and> balanceOf exState a = Some b \<longrightarrow> balanceOf s' a = Some b"
    by blast
  have 2: "\<exists>sysId t s'. createWithdrawal exFresh1 (exRequest 30) exState = (Inr t, s')
         \<and> isSystemAccount s' sysId ''WITHDRAWALS'' ''USD''
         \<and> transactionId t = ''WDR-T1-0000000A''
         \<and> transactionType t = WITHDRAWAL \<and> status t = COMPLETED
         \<and> entries t = [\<lparr>accountId = ''64a000000000000000000001'', entryType = DEBIT,
                          entryAmount = 30\<rparr>,
                        \<lparr>accountId = sysId, entryType = CREDIT, entryAmount = 30\<rparr>]
         \<and> transactions s' = [t]
         \<and> balanceOf s' ''64a000000000000000000001'' = Some 70
         \<and> balanceOf s' ''64a000000000000000000002'' = Some 0"
  proof (intro exI conjI)
    show "createWithdrawal exFresh1 (exRequest 30) exState = (Inr t, s')" by (rule r(1))
    show "isSystemAccount s' sysId ''WITHDRAWALS'' ''USD''" using r(2) by (simp add: exRequest_def)
    show "transactionId t = ''WDR-T1-0000000A''" using r(3) tid by simp
    show "transactionType t = WITHDRAWAL" by (rule r(4))
    show "status t = COMPLETED" by (rule r(5))
    show "entries t = [\<lparr>accountId = ''64a000000000000000000001'', entryType = DEBIT,
                          entryAmount = 30\<rparr>,
                        \<lparr>accountId = sysId, entryType = CREDIT, entryAmount = 30\<rparr>]"
      using r(6) by (simp add: exRequest_def exAccountA_def)
    show "transactions s' = [t]" using r(7) by (simp add: exState_def)
    show "balanceOf s' ''64a000000000000000000001'' = Some 70"
      using r(8) by (simp add: exRequest_def exAccountA_def exBalanceA_def)
    show "balanceOf s' ''64a000000000000000000002'' = Some 0"
      using r(9) bb by (simp add: exAccountA_def)
  qed
  show ?thesis using 1 2 by (rule conjI)
qed

text \<open>
  C2 as stated fails on the code in two ways. In the seed, where \<open>A\<close> is active, in USD
  and holds \<open>100\<close>, the withdrawal of \<open>30\<close> whose metadata has the key \<^verbatim>\<open>a.b\<close> is refused:
  the journal and the balance of \<open>A\<close> stay as they were. And where \<open>A\<close> holds \<open>10 ^ 21\<close>,
  the withdrawal of \<open>1\<close> is \<open>COMPLETED\<close> and leaves the balance at \<open>10 ^ 21\<close>: the
  difference has 21 digits and is rounded to 20.
\<close>

theorem createWithdrawal_dotted_key_and_rounding:
  "balanceOf exState ''64a000000000000000000001'' = Some 100
   \<and> reqAmount exDottedRequest = 30
   \<and> isl (fst (createWithdrawal exFresh1 exDottedRequest exState))
   \<and> transactions (snd (createWithdrawal exFresh1 exDottedRequest exState)) = []
   \<and> balanceOf (snd (createWithdrawal exFresh1 exDottedRequest exState))
        ''64a000000000000000000001'' = Some 100
   \<and> balanceOf exLargeState ''64a000000000000000000001'' = Some 1000000000000000000000
   \<and> map status (transactions (snd (createWithdrawal exFresh1 (exRequest 1) exLargeState)))
       = [COMPLETED]
   \<and> balanceOf (snd (createWithdrawal exFresh1 (exRequest 1) exLargeState))
        ''64a000000000000000000001'' = Some 1000000000000000000000"
proof -
  note v = pair_validators[of 30, simplified] pair_validators[of 1, simplified]
  note f = finalise_above_precision[simplified]
  have 1: "balanceOf exState ''64a000000000000000000001'' = Some 100"
    by (simp add: ex_defs op_defs)
  have 2: "reqAmount exDottedRequest = 30" by (simp add: ex_defs)
  have d: "createWithdrawal exFresh1 exDottedRequest exState =
      (Inl (BadRequestError ''Invalid transaction data''
              (Some ''Cast to Map failed for path metadata'')),
       exState\<lparr>accounts := [exAccountA, exAccountB, exWithdrawalsAccount],
               balances := [exBalanceA, exBalanceB,
                            \<lparr>balAccountId = ''64c000000000000000000001'', balCurrency = ''USD'',
                             balance = 0\<rparr>],
               systemAccounts := [(''WITHDRAWALS_USD'', ''64c000000000000000000001'')]\<rparr>)"
    by (simp add: createWithdrawal_def ex_defs op_defs v)
  have 3: "isl (fst (createWithdrawal exFresh1 exDottedRequest exState))" by (simp add: d)
  have 4: "transactions (snd (createWithdrawal exFresh1 exDottedRequest exState)) = []"
    by (simp add: d) (simp add: exState_def)
  have 5: "balanceOf (snd (createWithdrawal exFresh1 exDottedRequest exState))
        ''64a000000000000000000001'' = Some 100"
    by (simp add: d) (simp add: ex_defs op_defs)
  have 6: "balanceOf exLargeState ''64a000000000000000000001'' = Some 1000000000000000000000"
    by (simp add: ex_defs op_defs)
  have l: "createWithdrawal exFresh1 (exRequest 1) exLargeState =
      (Inr (exWithdrawal\<lparr>entries :=
               [\<lparr>accountId = ''64a000000000000000000001'', entryType = DEBIT, entryAmount = 1\<rparr>,
                \<lparr>accountId = ''64c000000000000000000001'', entryType = CREDIT, entryAmount = 1\<rparr>],
             amount := 1\<rparr>),
       exLargeState\<lparr>accounts := [exAccountA, exAccountB, exWithdrawalsAccount],
               balances := [exBalanceA\<lparr>balance := 1000000000000000000000\<rparr>, exBalanceB,
                            \<lparr>balAccountId = ''64c000000000000000000001'', balCurrency = ''USD'',
                             balance = 0\<rparr>],
               transactions := [exWithdrawal\<lparr>entries :=
               [\<lparr>accountId = ''64a000000000000000000001'', entryType = DEBIT, entryAmount = 1\<rparr>,
                \<lparr>accountId = ''64c000000000000000000001'', entryType = CREDIT, entryAmount = 1\<rparr>],
             amount := 1\<rparr>],
               systemAccounts := [(''WITHDRAWALS_USD'', ''64c000000000000000000001'')]\<rparr>)"
    by (simp add: createWithdrawal_def ex_defs op_defs v f)
  have 7: "map status (transactions (snd (createWithdrawal exFresh1 (exRequest 1) exLargeState)))
       = [COMPLETED]"
    by (simp add: l) (simp add: exWithdrawal_def)
  have 8: "balanceOf (snd (createWithdrawal exFresh1 (exRequest 1) exLargeState))
        ''64a000000000000000000001'' = Some 1000000000000000000000"
    by (simp add: l) (simp add: ex_defs op_defs)
  show ?thesis by (intro conjI 1 2 3 4 5 6 7 8)
qed

section \<open>Transfer\<close>

lemma createTransfer_failure_state:
  assumes "createTransfer fr tr s = (Inl e, s')"
  shows "s' = s"
  using assms
  by (auto simp: createTransfer_def Let_def split: if_splits option.splits sum.splits)

lemma createTransfer_Inr:
  assumes "createTransfer fr tr s = (Inr t, s')"
  shows "fromAccountNumber tr \<noteq> toAccountNumber tr \<and>
         (\<exists>src dst sb. findAccount (fromAccountNumber tr) (accounts s) = Some src
            \<and> findAccount (toAccountNumber tr) (accounts s) = Some dst
            \<and> accCurrency src = trCurrency tr \<and> accCurrency dst = trCurrency tr
            \<and> accUserId src = trUserId tr
            \<and> findBalance (accId src) (balances s) = Some sb
            \<and> trAmount tr \<le> balance sb)"
  using assms
  by (auto simp: createTransfer_def Let_def not_less split: if_splits option.splits sum.splits)

lemma createTransfer_rejects:
  assumes "\<not> transferPreconditions tr s"
  shows "\<exists>e. createTransfer fr tr s = (Inl e, s)"
proof (cases "createTransfer fr tr s")
  case (Pair r s')
  show ?thesis
  proof (cases r)
    case (Inl e)
    then have "s' = s" using Pair createTransfer_failure_state by blast
    then show ?thesis using Pair Inl by simp
  next
    case (Inr t)
    from createTransfer_Inr[OF Pair[unfolded Inr]]
    obtain src dst sb where h: "fromAccountNumber tr \<noteq> toAccountNumber tr"
        "findAccount (fromAccountNumber tr) (accounts s) = Some src"
        "findAccount (toAccountNumber tr) (accounts s) = Some dst"
        "accCurrency src = trCurrency tr" "accCurrency dst = trCurrency tr"
        "accUserId src = trUserId tr"
        "findBalance (accId src) (balances s) = Some sb"
        "trAmount tr \<le> balance sb"
      by blast
    note a = findAccount_SomeD[OF h(2)] findAccount_SomeD[OF h(3)] findBalance_SomeD[OF h(7)]
    have "transferPreconditions tr s"
      unfolding transferPreconditions_def
      using h(1,4,5,6,8) a by blast
    then show ?thesis using assms by simp
  qed
qed

lemma distinct_map_eq:
  assumes "distinct (map f xs)" "x \<in> set xs" "y \<in> set xs" "f x = f y"
  shows "x = y"
proof -
  have "inj_on f (set xs)" using assms(1) by (simp add: distinct_map)
  then show ?thesis using assms(4,2,3) by (rule inj_onD)
qed

lemma createTransfer_success:
  assumes src: "findAccount (fromAccountNumber tr) (accounts s) = Some src"
      and dst: "findAccount (toAccountNumber tr) (accounts s) = Some dst"
      and ne: "fromAccountNumber tr \<noteq> toAccountNumber tr"
      and cur: "accCurrency src = trCurrency tr" "accCurrency dst = trCurrency tr"
      and own: "accUserId src = trUserId tr"
      and sb: "findBalance (accId src) (balances s) = Some sb"
      and db: "findBalance (accId dst) (balances s) = Some db"
      and suf: "trAmount tr \<le> balance sb"
      and req: "acceptableRequest (trUserId tr) (trMetadata tr) (trCurrency tr) (trAmount tr)"
      and new: "generateTransactionId ''TRF'' (timestamp fr) (random fr)
                  \<notin> set (map transactionId (transactions s))"
  shows "\<exists>t s'. createTransfer fr tr s = (Inr t, s')
           \<and> transactionId t = generateTransactionId ''TRF'' (timestamp fr) (random fr)
           \<and> transactionType t = TRANSFER \<and> status t = COMPLETED
           \<and> amount t = trAmount tr \<and> currency t = trCurrency tr
           \<and> entries t = [\<lparr>accountId = accId src, entryType = DEBIT, entryAmount = trAmount tr\<rparr>,
                          \<lparr>accountId = accId dst, entryType = CREDIT, entryAmount = trAmount tr\<rparr>]
           \<and> transactions s' = transactions s @ [t]
           \<and> balances s' =
               saveBalance (db\<lparr>balance := plusDecimal (balance db) (trAmount tr)\<rparr>)
                 (saveBalance (sb\<lparr>balance := minusDecimal (balance sb) (trAmount tr)\<rparr>) (balances s))"
proof -
  have fin: "isFinite (parseFloat (trAmount tr))" using req by (simp add: acceptableRequest_def)
  have v: "entriesBalanceValidator
             [\<lparr>accountId = accId src, entryType = DEBIT, entryAmount = trAmount tr\<rparr>,
              \<lparr>accountId = accId dst, entryType = CREDIT, entryAmount = trAmount tr\<rparr>]"
    by (rule entriesBalanceValidator_debit_credit[OF fin])
  obtain uid where uid: "ObjectId (trUserId tr) = Inr uid"
    using req ObjectId_objectIdString by (auto simp: acceptableRequest_def)
  have keys: "list_all checkValidKey (map fst (newMap (objectEntries (trMetadata tr))))"
             "list_all serializableKey (map fst (newMap (objectEntries (trMetadata tr))))"
    using req by (simp_all add: newMap_checkValidKey newMap_serializableKey acceptableRequest_def)
  have c: "trCurrency tr \<noteq> []" using acceptableRequest_currency[OF req] by simp
  show ?thesis
    using src dst ne cur own sb db suf new v uid keys c
    by (simp add: createTransfer_def Let_def insertTransaction_def validateTransaction_ok
        generateTransactionId_nonempty entriesLengthValidator_def saveTransaction_append_last
        not_less[symmetric])
qed

text \<open>
  C3, as the code has it. A transfer fails unless the preconditions hold (distinct
  account numbers, both naming an existing active account, both accounts in the declared
  currency, the source owned by the requesting user, the source balance at least the
  amount), and every failure leaves the state as it was. When they hold in a store that
  keeps its unique indexes, with \<open>src\<close> and \<open>dst\<close> the two accounts and \<open>sb\<close> and \<open>db\<close>
  their balance documents, for a request that the schemas accept, the generated id being
  new and the two new balances of at most 20 significant digits, the call returns one
  transaction \<open>t\<close>, \<open>COMPLETED\<close>, of type \<open>TRANSFER\<close>, with the id generated under \<open>TRF\<close> and
  the entries \<open>DEBIT\<close> source and \<open>CREDIT\<close> destination, each for the amount; \<open>t\<close> is the
  one transaction added to the journal, the source balance is the old one minus the
  amount, the destination balance the old one plus the amount, and no other balance
  changes.
\<close>

theorem createTransfer_contract:
  "(\<not> transferPreconditions tr s \<longrightarrow> (\<exists>e. createTransfer fr tr s = (Inl e, s)))
   \<and> (\<forall>e s'. createTransfer fr tr s = (Inl e, s') \<longrightarrow> s' = s)
   \<and> (transferPreconditions tr s \<and> uniqueKeys s
      \<and> src \<in> set (accounts s) \<and> accNumber src = fromAccountNumber tr
      \<and> dst \<in> set (accounts s) \<and> accNumber dst = toAccountNumber tr
      \<and> sb \<in> set (balances s) \<and> balAccountId sb = accId src
      \<and> db \<in> set (balances s) \<and> balAccountId db = accId dst
      \<and> acceptableRequest (trUserId tr) (trMetadata tr) (trCurrency tr) (trAmount tr)
      \<and> generateTransactionId ''TRF'' (timestamp fr) (random fr)
           \<notin> set (map transactionId (transactions s))
      \<and> fitsPrecision (balance sb - trAmount tr)
      \<and> fitsPrecision (balance db + trAmount tr) \<longrightarrow>
        (\<exists>t s'. createTransfer fr tr s = (Inr t, s')
           \<and> transactionId t = generateTransactionId ''TRF'' (timestamp fr) (random fr)
           \<and> transactionType t = TRANSFER \<and> status t = COMPLETED
           \<and> amount t = trAmount tr \<and> currency t = trCurrency tr
           \<and> entries t = [\<lparr>accountId = accId src, entryType = DEBIT, entryAmount = trAmount tr\<rparr>,
                          \<lparr>accountId = accId dst, entryType = CREDIT, entryAmount = trAmount tr\<rparr>]
           \<and> transactions s' = transactions s @ [t]
           \<and> balanceOf s' (accId src) = Some (balance sb - trAmount tr)
           \<and> balanceOf s' (accId dst) = Some (balance db + trAmount tr)
           \<and> (\<forall>a. a \<noteq> accId src \<and> a \<noteq> accId dst \<longrightarrow> balanceOf s' a = balanceOf s a)))"
proof (intro conjI allI impI)
  assume "\<not> transferPreconditions tr s"
  then show "\<exists>e. createTransfer fr tr s = (Inl e, s)" by (rule createTransfer_rejects)
next
  fix e s' assume "createTransfer fr tr s = (Inl e, s')"
  then show "s' = s" by (rule createTransfer_failure_state)
next
  assume h: "transferPreconditions tr s \<and> uniqueKeys s
      \<and> src \<in> set (accounts s) \<and> accNumber src = fromAccountNumber tr
      \<and> dst \<in> set (accounts s) \<and> accNumber dst = toAccountNumber tr
      \<and> sb \<in> set (balances s) \<and> balAccountId sb = accId src
      \<and> db \<in> set (balances s) \<and> balAccountId db = accId dst
      \<and> acceptableRequest (trUserId tr) (trMetadata tr) (trCurrency tr) (trAmount tr)
      \<and> generateTransactionId ''TRF'' (timestamp fr) (random fr)
           \<notin> set (map transactionId (transactions s))
      \<and> fitsPrecision (balance sb - trAmount tr)
      \<and> fitsPrecision (balance db + trAmount tr)"
  then have pre: "transferPreconditions tr s"
    and uk: "distinct (map accNumber (accounts s))" "distinct (map accId (accounts s))"
            "distinct (map balAccountId (balances s))"
    and ms: "src \<in> set (accounts s)" "accNumber src = fromAccountNumber tr"
    and md: "dst \<in> set (accounts s)" "accNumber dst = toAccountNumber tr"
    and msb: "sb \<in> set (balances s)" "balAccountId sb = accId src"
    and mdb: "db \<in> set (balances s)" "balAccountId db = accId dst"
    and req: "acceptableRequest (trUserId tr) (trMetadata tr) (trCurrency tr) (trAmount tr)"
    and new: "generateTransactionId ''TRF'' (timestamp fr) (random fr)
           \<notin> set (map transactionId (transactions s))"
    and fits: "fitsPrecision (balance sb - trAmount tr)" "fitsPrecision (balance db + trAmount tr)"
    by (simp_all add: uniqueKeys_def)
  from pre obtain src' dst' sb' where p:
      "fromAccountNumber tr \<noteq> toAccountNumber tr"
      "src' \<in> set (accounts s)" "dst' \<in> set (accounts s)"
      "accNumber src' = fromAccountNumber tr" "isActive src'"
      "accNumber dst' = toAccountNumber tr" "isActive dst'"
      "accCurrency src' = trCurrency tr" "accCurrency dst' = trCurrency tr"
      "accUserId src' = trUserId tr"
      "sb' \<in> set (balances s)" "balAccountId sb' = accId src'" "trAmount tr \<le> balance sb'"
    unfolding transferPreconditions_def by blast
  have es: "src' = src" using uk(1) p(2) ms(1) by (rule distinct_map_eq) (simp add: p(4) ms(2))
  have ed: "dst' = dst" using uk(1) p(3) md(1) by (rule distinct_map_eq) (simp add: p(6) md(2))
  have eb: "sb' = sb" using uk(3) p(11) msb(1) by (rule distinct_map_eq) (simp add: p(12) msb(2) es)
  have src: "findAccount (fromAccountNumber tr) (accounts s) = Some src"
    using uk(1) ms p(5) es by (intro findAccount_unique) simp_all
  have dst: "findAccount (toAccountNumber tr) (accounts s) = Some dst"
    using uk(1) md p(7) ed by (intro findAccount_unique) simp_all
  have sb: "findBalance (accId src) (balances s) = Some sb"
    using findBalance_unique[OF uk(3) msb(1)] msb(2) by simp
  have db: "findBalance (accId dst) (balances s) = Some db"
    using findBalance_unique[OF uk(3) mdb(1)] mdb(2) by simp
  have cur: "accCurrency src = trCurrency tr" "accCurrency dst = trCurrency tr"
    and own: "accUserId src = trUserId tr"
    and suf: "trAmount tr \<le> balance sb"
    using p(8,9,10,13) es ed eb by simp_all
  from createTransfer_success[OF src dst p(1) cur own sb db suf req new]
  obtain t s' where r: "createTransfer fr tr s = (Inr t, s')"
      "transactionId t = generateTransactionId ''TRF'' (timestamp fr) (random fr)"
      "transactionType t = TRANSFER" "status t = COMPLETED"
      "amount t = trAmount tr" "currency t = trCurrency tr"
      "entries t = [\<lparr>accountId = accId src, entryType = DEBIT, entryAmount = trAmount tr\<rparr>,
                    \<lparr>accountId = accId dst, entryType = CREDIT, entryAmount = trAmount tr\<rparr>]"
      "transactions s' = transactions s @ [t]"
      "balances s' =
         saveBalance (db\<lparr>balance := plusDecimal (balance db) (trAmount tr)\<rparr>)
           (saveBalance (sb\<lparr>balance := minusDecimal (balance sb) (trAmount tr)\<rparr>) (balances s))"
    by blast
  have "src \<noteq> dst" using ms(2) md(2) p(1) by auto
  then have diff: "accId src \<noteq> accId dst"
    using distinct_map_eq[OF uk(2) ms(1) md(1)] by blast
  note ex = minusDecimal_fits[OF fits(1)] plusDecimal_fits[OF fits(2)]
  have b1: "balanceOf s' (accId src) = Some (balance sb - trAmount tr)"
    using sb msb(2) mdb(2) diff by (simp add: balanceOf_def r(9) findBalance_saveBalance ex)
  have b2: "balanceOf s' (accId dst) = Some (balance db + trAmount tr)"
    using db msb(2) mdb(2) diff by (simp add: balanceOf_def r(9) findBalance_saveBalance ex)
  have b3: "\<forall>a. a \<noteq> accId src \<and> a \<noteq> accId dst \<longrightarrow> balanceOf s' a = balanceOf s a"
    using msb(2) mdb(2) by (simp add: balanceOf_def r(9) findBalance_saveBalance)
  show "\<exists>t s'. createTransfer fr tr s = (Inr t, s')
           \<and> transactionId t = generateTransactionId ''TRF'' (timestamp fr) (random fr)
           \<and> transactionType t = TRANSFER \<and> status t = COMPLETED
           \<and> amount t = trAmount tr \<and> currency t = trCurrency tr
           \<and> entries t = [\<lparr>accountId = accId src, entryType = DEBIT, entryAmount = trAmount tr\<rparr>,
                          \<lparr>accountId = accId dst, entryType = CREDIT, entryAmount = trAmount tr\<rparr>]
           \<and> transactions s' = transactions s @ [t]
           \<and> balanceOf s' (accId src) = Some (balance sb - trAmount tr)
           \<and> balanceOf s' (accId dst) = Some (balance db + trAmount tr)
           \<and> (\<forall>a. a \<noteq> accId src \<and> a \<noteq> accId dst \<longrightarrow> balanceOf s' a = balanceOf s a)"
    by (intro exI conjI) (rule r(1-8) b1 b2 b3)+
qed

theorem createTransfer_contract_witness:
  "(\<exists>e. createTransfer exFresh1 (exTransfer 140) exState = (Inl e, exState))
   \<and> (\<exists>t s'. createTransfer exFresh1 (exTransfer 40) exState = (Inr t, s')
         \<and> transactionId t = ''TRF-T1-0000000A''
         \<and> transactionType t = TRANSFER \<and> status t = COMPLETED
         \<and> entries t = [\<lparr>accountId = ''64a000000000000000000001'', entryType = DEBIT,
                          entryAmount = 40\<rparr>,
                        \<lparr>accountId = ''64a000000000000000000002'', entryType = CREDIT,
                          entryAmount = 40\<rparr>]
         \<and> transactions s' = [t]
         \<and> balanceOf s' ''64a000000000000000000001'' = Some 60
         \<and> balanceOf s' ''64a000000000000000000002'' = Some 40)"
proof -
  have no: "\<not> transferPreconditions (exTransfer 140) exState"
    by (simp add: transferPreconditions_def ex_defs)
  have pre: "transferPreconditions (exTransfer 40) exState"
    by (simp add: transferPreconditions_def ex_defs)
  have n: "accNumber exAccountA = fromAccountNumber (exTransfer 40)"
          "accNumber exAccountB = toAccountNumber (exTransfer 40)"
    by (simp_all add: exTransfer_def exAccountA_def exAccountB_def)
  have req: "acceptableRequest (trUserId (exTransfer 40)) (trMetadata (exTransfer 40))
               (trCurrency (exTransfer 40)) (trAmount (exTransfer 40))"
    using isFinite_parseFloat_int[of 40, simplified]
    by (simp add: acceptableRequest_def objectIdString_def hexChar_def exTransfer_def)
  have new: "generateTransactionId ''TRF'' (timestamp exFresh1) (random exFresh1)
               \<notin> set (map transactionId (transactions exState))"
    by (simp add: exState_def)
  have fits: "fitsPrecision (balance exBalanceA - trAmount (exTransfer 40))"
             "fitsPrecision (balance exBalanceB + trAmount (exTransfer 40))"
    using fitsPrecision_of_int[of 60] fitsPrecision_of_int[of 40]
    by (simp_all add: exTransfer_def exBalanceA_def exBalanceB_def)
  have tid: "generateTransactionId ''TRF'' (timestamp exFresh1) (random exFresh1) = ''TRF-T1-0000000A''"
    by (simp add: generateTransactionId_def exFresh1_def)
  have 1: "\<exists>e. createTransfer exFresh1 (exTransfer 140) exState = (Inl e, exState)"
    using createTransfer_contract[of "exTransfer 140" exState exFresh1] no by blast
  have hyp: "transferPreconditions (exTransfer 40) exState \<and> uniqueKeys exState
      \<and> exAccountA \<in> set (accounts exState) \<and> accNumber exAccountA = fromAccountNumber (exTransfer 40)
      \<and> exAccountB \<in> set (accounts exState) \<and> accNumber exAccountB = toAccountNumber (exTransfer 40)
      \<and> exBalanceA \<in> set (balances exState) \<and> balAccountId exBalanceA = accId exAccountA
      \<and> exBalanceB \<in> set (balances exState) \<and> balAccountId exBalanceB = accId exAccountB
      \<and> acceptableRequest (trUserId (exTransfer 40)) (trMetadata (exTransfer 40))
           (trCurrency (exTransfer 40)) (trAmount (exTransfer 40))
      \<and> generateTransactionId ''TRF'' (timestamp exFresh1) (random exFresh1)
           \<notin> set (map transactionId (transactions exState))
      \<and> fitsPrecision (balance exBalanceA - trAmount (exTransfer 40))
      \<and> fitsPrecision (balance exBalanceB + trAmount (exTransfer 40))"
    by (intro conjI pre exState_facts(9) exState_facts(1) n(1) exState_facts(2) n(2)
        exState_facts(3) exState_facts(5) exState_facts(4) exState_facts(6) req new fits)
  from createTransfer_contract[of "exTransfer 40" exState exFresh1 exAccountA exAccountB
      exBalanceA exBalanceB, THEN conjunct2, THEN conjunct2, THEN mp, OF hyp]
  obtain t s' where r: "createTransfer exFresh1 (exTransfer 40) exState = (Inr t, s')"
      "transactionId t = generateTransactionId ''TRF'' (timestamp exFresh1) (random exFresh1)"
      "transactionType t = TRANSFER" "status t = COMPLETED"
      "entries t =
         [\<lparr>accountId = accId exAccountA, entryType = DEBIT, entryAmount = trAmount (exTransfer 40)\<rparr>,
          \<lparr>accountId = accId exAccountB, entryType = CREDIT, entryAmount = trAmount (exTransfer 40)\<rparr>]"
      "transactions s' = transactions exState @ [t]"
      "balanceOf s' (accId exAccountA) = Some (balance exBalanceA - trAmount (exTransfer 40))"
      "balanceOf s' (accId exAccountB) = Some (balance exBalanceB + trAmount (exTransfer 40))"
    by blast
  have 2: "\<exists>t s'. createTransfer exFresh1 (exTransfer 40) exState = (Inr t, s')
         \<and> transactionId t = ''TRF-T1-0000000A''
         \<and> transactionType t = TRANSFER \<and> status t = COMPLETED
         \<and> entries t = [\<lparr>accountId = ''64a000000000000000000001'', entryType = DEBIT,
                          entryAmount = 40\<rparr>,
                        \<lparr>accountId = ''64a000000000000000000002'', entryType = CREDIT,
                          entryAmount = 40\<rparr>]
         \<and> transactions s' = [t]
         \<and> balanceOf s' ''64a000000000000000000001'' = Some 60
         \<and> balanceOf s' ''64a000000000000000000002'' = Some 40"
  proof (intro exI conjI)
    show "createTransfer exFresh1 (exTransfer 40) exState = (Inr t, s')" by (rule r(1))
    show "transactionId t = ''TRF-T1-0000000A''" using r(2) tid by simp
    show "transactionType t = TRANSFER" by (rule r(3))
    show "status t = COMPLETED" by (rule r(4))
    show "entries t = [\<lparr>accountId = ''64a000000000000000000001'', entryType = DEBIT,
                          entryAmount = 40\<rparr>,
                        \<lparr>accountId = ''64a000000000000000000002'', entryType = CREDIT,
                          entryAmount = 40\<rparr>]"
      using r(5) by (simp add: exTransfer_def exAccountA_def exAccountB_def)
    show "transactions s' = [t]" using r(6) by (simp add: exState_def)
    show "balanceOf s' ''64a000000000000000000001'' = Some 60"
      using r(7) by (simp add: exTransfer_def exAccountA_def exBalanceA_def)
    show "balanceOf s' ''64a000000000000000000002'' = Some 40"
      using r(8) by (simp add: exTransfer_def exAccountB_def exBalanceB_def)
  qed
  show ?thesis using 1 2 by (rule conjI)
qed

text \<open>
  C3 as stated fails on the code in two ways. In the seed the transfer of \<open>40\<close> from \<open>A\<close>
  to \<open>B\<close> meets every precondition; with a metadata object whose key is \<^verbatim>\<open>a.b\<close> it is
  refused. And where \<open>A\<close> holds \<open>10 ^ 21\<close>, the transfer of \<open>1\<close> is \<open>COMPLETED\<close>, the
  balance of \<open>B\<close> rises from \<open>0\<close> to \<open>1\<close> and the balance of \<open>A\<close> stays at \<open>10 ^ 21\<close>.
\<close>

theorem createTransfer_dotted_key_and_rounding:
  "transferPreconditions exDottedTransfer exState
   \<and> isl (fst (createTransfer exFresh1 exDottedTransfer exState))
   \<and> transferPreconditions (exTransfer 1) exLargeState
   \<and> balanceOf exLargeState ''64a000000000000000000001'' = Some 1000000000000000000000
   \<and> balanceOf exLargeState ''64a000000000000000000002'' = Some 0
   \<and> map status (transactions (snd (createTransfer exFresh1 (exTransfer 1) exLargeState)))
       = [COMPLETED]
   \<and> balanceOf (snd (createTransfer exFresh1 (exTransfer 1) exLargeState))
        ''64a000000000000000000001'' = Some 1000000000000000000000
   \<and> balanceOf (snd (createTransfer exFresh1 (exTransfer 1) exLargeState))
        ''64a000000000000000000002'' = Some 1"
proof -
  note v = pair_validators[of 40, simplified] pair_validators[of 1, simplified]
  note f = finalise_above_precision[simplified]
  have 1: "transferPreconditions exDottedTransfer exState"
    by (simp add: transferPreconditions_def ex_defs)
  have 2: "isl (fst (createTransfer exFresh1 exDottedTransfer exState))"
    by (simp add: createTransfer_def ex_defs op_defs v)
  have 3: "transferPreconditions (exTransfer 1) exLargeState"
    by (simp add: transferPreconditions_def ex_defs)
  have 4: "balanceOf exLargeState ''64a000000000000000000001'' = Some 1000000000000000000000"
    by (simp add: ex_defs op_defs)
  have 5: "balanceOf exLargeState ''64a000000000000000000002'' = Some 0"
    by (simp add: ex_defs op_defs)
  have l: "snd (createTransfer exFresh1 (exTransfer 1) exLargeState) =
       exLargeState\<lparr>balances := [exBalanceA\<lparr>balance := 1000000000000000000000\<rparr>,
                                 exBalanceB\<lparr>balance := 1\<rparr>],
               transactions := [exOriginal\<lparr>entries :=
               [\<lparr>accountId = ''64a000000000000000000001'', entryType = DEBIT, entryAmount = 1\<rparr>,
                \<lparr>accountId = ''64a000000000000000000002'', entryType = CREDIT, entryAmount = 1\<rparr>],
             amount := 1\<rparr>]\<rparr>"
    by (simp add: createTransfer_def ex_defs op_defs v f dec_simps)
  have 6: "map status (transactions (snd (createTransfer exFresh1 (exTransfer 1) exLargeState)))
       = [COMPLETED]"
    by (simp add: l) (simp add: exOriginal_def)
  have 7: "balanceOf (snd (createTransfer exFresh1 (exTransfer 1) exLargeState))
        ''64a000000000000000000001'' = Some 1000000000000000000000"
    by (simp add: l) (simp add: ex_defs op_defs)
  have 8: "balanceOf (snd (createTransfer exFresh1 (exTransfer 1) exLargeState))
        ''64a000000000000000000002'' = Some 1"
    by (simp add: l) (simp add: ex_defs op_defs)
  show ?thesis by (intro conjI 1 2 3 4 5 6 7 8)
qed

section \<open>Facts about posting and reversal\<close>

lemma find_Some_D: "find P xs = Some x \<Longrightarrow> x \<in> set xs \<and> P x"
  by (auto simp: find_Some_iff)

lemma plainKey_reversal_keys:
  "plainKey ''originalTransactionId''" "plainKey ''reversalReason''"
  by (simp_all add: plainKey_def)

lemma reversal_metadata_keys:
  assumes "list_all plainKey (map fst kvs)"
  shows "list_all checkValidKey
           (map fst (newMap (kvs @ [(''originalTransactionId'', i), (''reversalReason'', r)])))"
    and "list_all serializableKey
           (map fst (newMap (kvs @ [(''originalTransactionId'', i), (''reversalReason'', r)])))"
  by (rule newMap_checkValidKey, simp add: assms plainKey_reversal_keys)
     (rule newMap_serializableKey, simp add: assms plainKey_reversal_keys)


section \<open>The duplicate-reversal guard\<close>

lemma findExistingReversal_member:
  assumes "r \<in> set ts" "transactionType r = REVERSAL"
      and "map_of (metadata r) ''originalTransactionId'' = Some tid"
  shows "\<exists>x. findExistingReversal tid ts = Some x"
proof (cases "findExistingReversal tid ts")
  case None
  then show ?thesis using assms by (auto simp: findExistingReversal_def find_None_iff)
next
  case (Some x)
  then show ?thesis by blast
qed

text \<open>
  C10. Whenever the journal holds a transaction \<open>r\<close> of type \<open>REVERSAL\<close> whose metadata
  carries the original's id under \<open>originalTransactionId\<close> (nothing is asked of the status
  of \<open>r\<close>: \<open>PENDING\<close>, \<open>PROCESSING\<close>, \<open>FAILED\<close> and \<open>COMPLETED\<close> alike), every call of
  \<open>reverseTransaction\<close> for that id is rejected and leaves the state, \<open>r\<close> included, as it was;
  when the call reaches the guard, that is when the original is found \<open>COMPLETED\<close>, the
  error is the already-reversed error with the id of the stored reversal.
\<close>

theorem existingReversal_blocks_any_status:
  "r \<in> set (transactions s) \<and> transactionType r = REVERSAL
     \<and> map_of (metadata r) ''originalTransactionId'' = Some (originalTransactionId rd) \<longrightarrow>
   (\<exists>e. reverseTransaction fr rd s = (Inl e, s))
   \<and> (findOriginal (originalTransactionId rd) (transactions s) = Some orig \<longrightarrow>
        (\<exists>x. x \<in> set (transactions s) \<and> transactionType x = REVERSAL
           \<and> reverseTransaction fr rd s =
               (Inl (BadRequestError ''Transaction has already been reversed''
                       (Some (transactionId x))), s)))"
proof (intro impI conjI)
  assume h: "r \<in> set (transactions s) \<and> transactionType r = REVERSAL
     \<and> map_of (metadata r) ''originalTransactionId'' = Some (originalTransactionId rd)"
  then obtain x where x: "findExistingReversal (originalTransactionId rd) (transactions s) = Some x"
    using findExistingReversal_member by blast
  show "\<exists>e. reverseTransaction fr rd s = (Inl e, s)"
    using x by (auto simp: reverseTransaction_def split: option.splits)
  assume "findOriginal (originalTransactionId rd) (transactions s) = Some orig"
  moreover have "x \<in> set (transactions s) \<and> transactionType x = REVERSAL"
    using x by (auto simp: findExistingReversal_def dest: find_Some_D)
  ultimately show "\<exists>x. x \<in> set (transactions s) \<and> transactionType x = REVERSAL
           \<and> reverseTransaction fr rd s =
               (Inl (BadRequestError ''Transaction has already been reversed''
                       (Some (transactionId x))), s)"
    using x by (auto simp: reverseTransaction_def)
qed

theorem existingReversal_blocks_any_status_witness:
  "status exFailedReversal = FAILED
   \<and> exFailedReversal \<in> set (transactions exBlockedState)
   \<and> findOriginal ''TRF-T1-0000000A'' (transactions exBlockedState) = Some exOriginal
   \<and> (\<exists>x. x \<in> set (transactions exBlockedState) \<and> transactionType x = REVERSAL
         \<and> reverseTransaction exFresh3 (exReversal ''TRF-T1-0000000A'') exBlockedState =
            (Inl (BadRequestError ''Transaction has already been reversed''
                    (Some (transactionId x))), exBlockedState))"
proof -
  have st: "status exFailedReversal = FAILED" by (simp add: exFailedReversal_def)
  have m: "exFailedReversal \<in> set (transactions exBlockedState)"
    by (simp add: exBlockedState_def)
  have ty: "transactionType exFailedReversal = REVERSAL" by (simp add: exFailedReversal_def)
  have md: "map_of (metadata exFailedReversal) ''originalTransactionId''
              = Some (originalTransactionId (exReversal ''TRF-T1-0000000A''))"
    by (simp add: exFailedReversal_def exReversal_def)
  have o: "findOriginal (originalTransactionId (exReversal ''TRF-T1-0000000A''))
             (transactions exBlockedState) = Some exOriginal"
    by (simp add: findOriginal_def exBlockedState_def exOriginal_def exReversal_def)
  have prem: "exFailedReversal \<in> set (transactions exBlockedState)
      \<and> transactionType exFailedReversal = REVERSAL
      \<and> map_of (metadata exFailedReversal) ''originalTransactionId''
          = Some (originalTransactionId (exReversal ''TRF-T1-0000000A''))"
    using m ty md by (intro conjI)
  note c = existingReversal_blocks_any_status[of exFailedReversal exBlockedState
      "exReversal ''TRF-T1-0000000A''" exFresh3 exOriginal, THEN mp, OF prem,
      THEN conjunct2, THEN mp, OF o]
  have o': "findOriginal ''TRF-T1-0000000A'' (transactions exBlockedState) = Some exOriginal"
    using o by (simp add: exReversal_def)
  show ?thesis by (intro conjI st m o' c)
qed

section \<open>Reversal and insufficient funds\<close>

lemma applyEntries_append:
  "applyEntries msg (xs @ ys) bs =
     (case applyEntries msg xs bs of
        (None, bs') \<Rightarrow> applyEntries msg ys bs'
      | (Some e, bs') \<Rightarrow> (Some e, bs'))"
  by (induction xs arbitrary: bs) (auto simp: Let_def split: option.splits)

lemma applyEntries_insufficient_iff:
  "(\<exists>m a av rq. fst (applyEntries msg es bs) = Some (InsufficientFundsError m a av rq)) \<longleftrightarrow>
   (\<exists>pre e post bs' b. es = pre @ e # post \<and> applyEntries msg pre bs = (None, bs')
       \<and> entryType e = DEBIT \<and> findBalance (accountId e) bs' = Some b
       \<and> balance b < entryAmount e)"
  (is "?L es bs \<longleftrightarrow> ?R es bs")
proof
  assume "?R es bs"
  then obtain pre e post bs' b where h: "es = pre @ e # post"
      "applyEntries msg pre bs = (None, bs')" "entryType e = DEBIT"
      "findBalance (accountId e) bs' = Some b" "balance b < entryAmount e"
    by blast
  then show "?L es bs" by (simp add: applyEntries_append Let_def minusDecimal_negative)
next
  show "?L es bs \<Longrightarrow> ?R es bs"
  proof (induction es arbitrary: bs)
    case Nil
    then show ?case by simp
  next
    case (Cons x xs)
    from Cons.prems obtain ab where ab: "findBalance (accountId x) bs = Some ab"
      by (auto split: option.splits)
    show ?case
    proof (cases "entryType x = DEBIT \<and> balance ab < entryAmount x")
      case True
      have "x # xs = [] @ x # xs" "applyEntries msg [] bs = (None, bs)" by simp_all
      then show ?thesis using True ab by blast
    next
      case False
      define nb where "nb = (if entryType x = CREDIT then plusDecimal (balance ab) (entryAmount x)
                             else minusDecimal (balance ab) (entryAmount x))"
      have step: "applyEntries msg (x # xs) bs =
                    applyEntries msg xs (saveBalance (ab\<lparr>balance := nb\<rparr>) bs)"
        using False ab by (auto simp: Let_def nb_def not_CREDIT minusDecimal_negative)
      then have "?L xs (saveBalance (ab\<lparr>balance := nb\<rparr>) bs)" using Cons.prems by simp
      from Cons.IH[OF this] obtain pre e post bs' b where h: "xs = pre @ e # post"
          "applyEntries msg pre (saveBalance (ab\<lparr>balance := nb\<rparr>) bs) = (None, bs')"
          "entryType e = DEBIT" "findBalance (accountId e) bs' = Some b"
          "balance b < entryAmount e"
        by blast
      have "applyEntries msg (x # pre) bs = (None, bs')"
        using False ab h(2) by (auto simp: Let_def nb_def not_CREDIT minusDecimal_negative)
      moreover have "x # xs = (x # pre) @ e # post" using h(1) by simp
      ultimately show ?thesis using h(3-5) by blast
    qed
  qed
qed

lemma reverseTransaction_accounts:
  "reverseTransaction fr rd (s\<lparr>accounts := as\<rparr>) =
     (fst (reverseTransaction fr rd s), (snd (reverseTransaction fr rd s))\<lparr>accounts := as\<rparr>)"
  by (simp add: reverseTransaction_def Let_def split: option.splits sum.splits prod.splits)

lemma applyEntries_rethrow:
  "applyEntries msg es bs = (Some x, bs') \<Longrightarrow> rethrow x = x"
  by (induction es arbitrary: bs) (auto simp: Let_def split: option.splits if_splits)

lemma reverseTransaction_posting:
  assumes "findOriginal (originalTransactionId rd) (transactions s) = Some orig"
      and "findExistingReversal (originalTransactionId rd) (transactions s) = None"
      and "objectIdString (revUserId rd)"
      and "list_all plainKey (map fst (objectEntries (revMetadata rd)))"
      and "currency orig \<noteq> []"
      and "entriesLengthValidator (map reverseEntry (entries orig))"
      and "entriesBalanceValidator (map reverseEntry (entries orig))"
      and "generateTransactionId ''REV'' (timestamp fr) (random fr)
             \<notin> set (map transactionId (transactions s))"
  shows "(\<exists>e. fst (reverseTransaction fr rd s) = Inl e) \<longleftrightarrow>
         fst (applyEntries ''Insufficient funds for reversal''
                (map reverseEntry (entries orig)) (balances s)) \<noteq> None"
    and "fst (reverseTransaction fr rd s) = Inl e \<longleftrightarrow>
         fst (applyEntries ''Insufficient funds for reversal''
                (map reverseEntry (entries orig)) (balances s)) = Some e"
proof -
  obtain uid where uid: "ObjectId (revUserId rd) = Inr uid"
    using ObjectId_objectIdString[OF assms(3)] by blast
  note keys = reversal_metadata_keys[OF assms(4)]
  show "(\<exists>e. fst (reverseTransaction fr rd s) = Inl e) \<longleftrightarrow>
         fst (applyEntries ''Insufficient funds for reversal''
                (map reverseEntry (entries orig)) (balances s)) \<noteq> None"
    using assms(1,2,5-8) uid keys
    by (auto simp: reverseTransaction_def Let_def insertTransaction_def validateTransaction_ok
          generateTransactionId_nonempty applyEntries_rethrow
        split: option.splits sum.splits prod.splits)
  show "fst (reverseTransaction fr rd s) = Inl e \<longleftrightarrow>
         fst (applyEntries ''Insufficient funds for reversal''
                (map reverseEntry (entries orig)) (balances s)) = Some e"
    using assms(1,2,5-8) uid keys
    by (auto simp: reverseTransaction_def Let_def insertTransaction_def validateTransaction_ok
          generateTransactionId_nonempty applyEntries_rethrow
        split: option.splits sum.splits prod.splits)
qed

text \<open>
  C5, as the code has it. For a call that reaches the posting loop (the original is
  found \<open>COMPLETED\<close>, no reversal names it, the user id is the string of an object id,
  the reversal document passes the validation of the schema, that is its metadata keys
  are valid, its currency is not empty and the reversed entries pass the two validators,
  and the generated id is new): the reversal fails with \<open>InsufficientFundsError\<close> if and only if
  the loop, having posted a prefix of the side-flipped entries, comes to a \<open>DEBIT\<close> entry
  whose amount exceeds the balance its account has at that point. The accounts
  collection is not read: replacing it by any other leaves the result as it is, so the
  type of an account, \<open>SYSTEM\<close> or not, makes no difference.
\<close>

theorem reversal_insufficient_funds_iff:
  assumes "findOriginal (originalTransactionId rd) (transactions s) = Some orig"
      and "findExistingReversal (originalTransactionId rd) (transactions s) = None"
      and "objectIdString (revUserId rd)"
      and "list_all plainKey (map fst (objectEntries (revMetadata rd)))"
      and "currency orig \<noteq> []"
      and "entriesLengthValidator (map reverseEntry (entries orig))"
      and "entriesBalanceValidator (map reverseEntry (entries orig))"
      and "generateTransactionId ''REV'' (timestamp fr) (random fr)
             \<notin> set (map transactionId (transactions s))"
  shows "((\<exists>m a av rq. fst (reverseTransaction fr rd s) = Inl (InsufficientFundsError m a av rq))
          \<longleftrightarrow>
          (\<exists>pre e post bs' b. map reverseEntry (entries orig) = pre @ e # post
              \<and> applyEntries ''Insufficient funds for reversal'' pre (balances s) = (None, bs')
              \<and> entryType e = DEBIT \<and> findBalance (accountId e) bs' = Some b
              \<and> balance b < entryAmount e))
       \<and> reverseTransaction fr rd (s\<lparr>accounts := as\<rparr>) =
           (fst (reverseTransaction fr rd s), (snd (reverseTransaction fr rd s))\<lparr>accounts := as\<rparr>)"
proof (rule conjI)
  show "(\<exists>m a av rq. fst (reverseTransaction fr rd s) = Inl (InsufficientFundsError m a av rq))
          \<longleftrightarrow>
          (\<exists>pre e post bs' b. map reverseEntry (entries orig) = pre @ e # post
              \<and> applyEntries ''Insufficient funds for reversal'' pre (balances s) = (None, bs')
              \<and> entryType e = DEBIT \<and> findBalance (accountId e) bs' = Some b
              \<and> balance b < entryAmount e)"
    unfolding reverseTransaction_posting(2)[OF assms]
    by (rule applyEntries_insufficient_iff)
  show "reverseTransaction fr rd (s\<lparr>accounts := as\<rparr>) =
           (fst (reverseTransaction fr rd s), (snd (reverseTransaction fr rd s))\<lparr>accounts := as\<rparr>)"
    by (rule reverseTransaction_accounts)
qed

theorem reversal_insufficient_funds_iff_witness:
  "((\<exists>m a av rq. fst (reverseTransaction exFresh2 (exReversal ''WDR-T1-0000000A'') exWithdrawnState)
        = Inl (InsufficientFundsError m a av rq))
    \<longleftrightarrow>
    (\<exists>pre e post bs' b. map reverseEntry (entries exWithdrawal) = pre @ e # post
        \<and> applyEntries ''Insufficient funds for reversal'' pre (balances exWithdrawnState)
             = (None, bs')
        \<and> entryType e = DEBIT \<and> findBalance (accountId e) bs' = Some b
        \<and> balance b < entryAmount e))
   \<and> fst (reverseTransaction exFresh2 (exReversal ''WDR-T1-0000000A'') exWithdrawnState)
       = Inl (InsufficientFundsError ''Insufficient funds for reversal'' (Some ''64c000000000000000000001'') 0 30)"
proof -
  have o: "findOriginal (originalTransactionId (exReversal ''WDR-T1-0000000A''))
             (transactions exWithdrawnState) = Some exWithdrawal"
    by (simp add: findOriginal_def exWithdrawnState_def exWithdrawal_def exReversal_def)
  have n: "findExistingReversal (originalTransactionId (exReversal ''WDR-T1-0000000A''))
             (transactions exWithdrawnState) = None"
    by (simp add: findExistingReversal_def exWithdrawnState_def exWithdrawal_def exReversal_def)
  have u: "objectIdString (revUserId (exReversal ''WDR-T1-0000000A''))"
    by (simp add: objectIdString_def hexChar_def exReversal_def)
  have k: "list_all plainKey (map fst (objectEntries (revMetadata (exReversal ''WDR-T1-0000000A''))))"
    by (simp add: exReversal_def)
  have c: "currency exWithdrawal \<noteq> []" by (simp add: exWithdrawal_def)
  have l: "entriesLengthValidator (map reverseEntry (entries exWithdrawal))"
    by (simp add: entriesLengthValidator_def exWithdrawal_def)
  have v: "entriesBalanceValidator (map reverseEntry (entries exWithdrawal))"
    using entriesBalanceValidator_credit_debit[OF isFinite_parseFloat_int[of 30, simplified],
        of "''64a000000000000000000001''" "''64c000000000000000000001''"]
    by (simp add: exWithdrawal_def reverseEntry_def)
  have f: "generateTransactionId ''REV'' (timestamp exFresh2) (random exFresh2)
             \<notin> set (map transactionId (transactions exWithdrawnState))"
    by (simp add: generateTransactionId_def exFresh2_def exWithdrawnState_def exWithdrawal_def)
  note t = reversal_insufficient_funds_iff[OF o n u k c l v f, of "accounts exWithdrawnState"]
  have e: "fst (reverseTransaction exFresh2 (exReversal ''WDR-T1-0000000A'') exWithdrawnState)
       = Inl (InsufficientFundsError ''Insufficient funds for reversal'' (Some ''64c000000000000000000001'') 0 30)"
    using v by (simp add: reverseTransaction_def ex_defs op_defs dec_simps)
  show ?thesis using t[THEN conjunct1] e by (rule conjI)
qed

text \<open>
  The withdrawal of \<open>30\<close> from \<open>A\<close> leaves \<open>exWithdrawnState\<close>. Its reversal posts
  \<open>CREDIT A 30\<close> and then \<open>DEBIT 30\<close> on the \<open>WITHDRAWALS\<close> account, whose balance is \<open>0\<close>:
  the only debit falls on a \<open>SYSTEM\<close> account, and the reversal fails with
  \<open>InsufficientFundsError\<close>.
\<close>

theorem reversal_system_account_not_exempt:
  "snd (createWithdrawal exFresh1 (exRequest 30) exState) = exWithdrawnState
   \<and> map reverseEntry (entries exWithdrawal) =
       [\<lparr>accountId = ''64a000000000000000000001'', entryType = CREDIT, entryAmount = 30\<rparr>,
        \<lparr>accountId = ''64c000000000000000000001'', entryType = DEBIT, entryAmount = 30\<rparr>]
   \<and> findBalance ''64c000000000000000000001'' (balances exWithdrawnState)
       = Some \<lparr>balAccountId = ''64c000000000000000000001'', balCurrency = ''USD'',
                 balance = 0\<rparr>
   \<and> map accType (filter (\<lambda>a. accId a = ''64c000000000000000000001'') (accounts exWithdrawnState)) = [''SYSTEM'']
   \<and> reverseTransaction exFresh2 (exReversal ''WDR-T1-0000000A'') exWithdrawnState =
       (Inl (InsufficientFundsError ''Insufficient funds for reversal'' (Some ''64c000000000000000000001'') 0 30),
        exWithdrawnState)"
proof -
  have v: "entriesBalanceValidator
             [\<lparr>accountId = a, entryType = DEBIT, entryAmount = 30\<rparr>,
              \<lparr>accountId = b, entryType = CREDIT, entryAmount = 30\<rparr>]" for a b
    by (rule entriesBalanceValidator_debit_credit[OF isFinite_parseFloat_int[of 30, simplified]])
  have w: "entriesBalanceValidator
             [\<lparr>accountId = a, entryType = CREDIT, entryAmount = 30\<rparr>,
              \<lparr>accountId = b, entryType = DEBIT, entryAmount = 30\<rparr>]" for a b
    by (rule entriesBalanceValidator_credit_debit[OF isFinite_parseFloat_int[of 30, simplified]])
  show ?thesis
    by (simp add: createWithdrawal_def reverseTransaction_def ex_defs op_defs v w dec_simps)
qed

section \<open>Reversal of a deposit\<close>

text \<open>
  C4 on the code. In \<open>exSystemState\<close> account \<open>A\<close> holds \<open>100\<close> and the \<open>DEPOSITS\<close>
  account of USD holds \<open>0\<close>. The deposit of \<open>30\<close> into \<open>A\<close> is \<open>COMPLETED\<close> with the
  entries \<open>CREDIT A 30\<close> and \<open>DEBIT DEPOSITS 30\<close> and leaves \<open>A = 130\<close> and
  \<open>DEPOSITS = 0\<close>. Its reversal succeeds, posts both flipped entries and leaves \<open>A = 100\<close>
  and \<open>DEPOSITS = 30\<close>: of the two balances that the original names, the second is not the
  one before the original, and the total of all balances is \<open>130\<close>, not \<open>100\<close>. A second
  reversal of the same deposit is refused with the already-reversed error and leaves the
  state as it was.
\<close>

theorem reversal_of_deposit_credits_system_account:
  "balanceOf exSystemState ''64a000000000000000000001'' = Some 100
   \<and> balanceOf exSystemState ''64c000000000000000000009'' = Some 0
   \<and> totalBalance exSystemState = 100
   \<and> createDeposit exFresh1 (exRequest 30) exSystemState = (Inr exDeposit, exDepositedState)
   \<and> balanceOf exDepositedState ''64a000000000000000000001'' = Some 130
   \<and> balanceOf exDepositedState ''64c000000000000000000009'' = Some 0
   \<and> \<not> isl (fst (reverseTransaction exFresh2 (exReversal ''DEP-T1-0000000A'') exDepositedState))
   \<and> map status (transactions
         (snd (reverseTransaction exFresh2 (exReversal ''DEP-T1-0000000A'') exDepositedState)))
       = [COMPLETED, COMPLETED]
   \<and> map entries (transactions
         (snd (reverseTransaction exFresh2 (exReversal ''DEP-T1-0000000A'') exDepositedState)))
       = [[\<lparr>accountId = ''64a000000000000000000001'', entryType = CREDIT, entryAmount = 30\<rparr>,
           \<lparr>accountId = ''64c000000000000000000009'', entryType = DEBIT, entryAmount = 30\<rparr>],
          [\<lparr>accountId = ''64a000000000000000000001'', entryType = DEBIT, entryAmount = 30\<rparr>,
           \<lparr>accountId = ''64c000000000000000000009'', entryType = CREDIT, entryAmount = 30\<rparr>]]
   \<and> balanceOf (snd (reverseTransaction exFresh2 (exReversal ''DEP-T1-0000000A'') exDepositedState))
        ''64a000000000000000000001'' = Some 100
   \<and> balanceOf (snd (reverseTransaction exFresh2 (exReversal ''DEP-T1-0000000A'') exDepositedState))
        ''64c000000000000000000009'' = Some 30
   \<and> totalBalance (snd (reverseTransaction exFresh2 (exReversal ''DEP-T1-0000000A'') exDepositedState))
       = 130
   \<and> reverseTransaction exFresh3 (exReversal ''DEP-T1-0000000A'')
        (snd (reverseTransaction exFresh2 (exReversal ''DEP-T1-0000000A'') exDepositedState))
       = (Inl (BadRequestError ''Transaction has already been reversed'' (Some ''REV-T2-0000000C'')),
          snd (reverseTransaction exFresh2 (exReversal ''DEP-T1-0000000A'') exDepositedState))"
proof -
  note v = pair_validators[of 30, simplified]
  have 1: "balanceOf exSystemState ''64a000000000000000000001'' = Some 100"
    by (simp add: ex_defs op_defs)
  have 2: "balanceOf exSystemState ''64c000000000000000000009'' = Some 0"
    by (simp add: ex_defs op_defs)
  have 3: "totalBalance exSystemState = 100" by (simp add: totalBalance_def ex_defs)
  have 4: "createDeposit exFresh1 (exRequest 30) exSystemState = (Inr exDeposit, exDepositedState)"
    by (simp add: createDeposit_def ex_defs op_defs v dec_simps)
  have 5: "balanceOf exDepositedState ''64a000000000000000000001'' = Some 130"
    by (simp add: ex_defs op_defs)
  have 6: "balanceOf exDepositedState ''64c000000000000000000009'' = Some 0"
    by (simp add: ex_defs op_defs)
  define reversal where "reversal =
     \<lparr>transactionId = ''REV-T2-0000000C'', transactionType = REVERSAL,
      userId = ''64b000000000000000000009'',
      entries = [\<lparr>accountId = ''64a000000000000000000001'', entryType = DEBIT, entryAmount = 30\<rparr>,
                 \<lparr>accountId = ''64c000000000000000000009'', entryType = CREDIT, entryAmount = 30\<rparr>],
      amount = 30, currency = ''USD'', status = COMPLETED,
      description = ''Reversal: requested (Original: DEP-T1-0000000A)'',
      metadata = [(''originalTransactionId'', ''DEP-T1-0000000A''), (''reversalReason'', ''requested'')],
      failureReason = None, createdAt = 2000\<rparr>"
  define reversed where "reversed =
     exDepositedState\<lparr>balances := [exBalanceA, exBalanceB,
                    \<lparr>balAccountId = ''64c000000000000000000009'', balCurrency = ''USD'', balance = 30\<rparr>],
                  transactions := [exDeposit, reversal]\<rparr>"
  have r: "reverseTransaction exFresh2 (exReversal ''DEP-T1-0000000A'') exDepositedState
             = (Inr reversal, reversed)"
    by (simp add: reverseTransaction_def reversal_def reversed_def ex_defs op_defs v dec_simps)
  have 7: "\<not> isl (fst (reverseTransaction exFresh2 (exReversal ''DEP-T1-0000000A'') exDepositedState))"
    by (simp add: r)
  have 8: "map status (transactions
         (snd (reverseTransaction exFresh2 (exReversal ''DEP-T1-0000000A'') exDepositedState)))
       = [COMPLETED, COMPLETED]"
    by (simp add: r reversed_def reversal_def exDeposit_def)
  have 9: "map entries (transactions
         (snd (reverseTransaction exFresh2 (exReversal ''DEP-T1-0000000A'') exDepositedState)))
       = [[\<lparr>accountId = ''64a000000000000000000001'', entryType = CREDIT, entryAmount = 30\<rparr>,
           \<lparr>accountId = ''64c000000000000000000009'', entryType = DEBIT, entryAmount = 30\<rparr>],
          [\<lparr>accountId = ''64a000000000000000000001'', entryType = DEBIT, entryAmount = 30\<rparr>,
           \<lparr>accountId = ''64c000000000000000000009'', entryType = CREDIT, entryAmount = 30\<rparr>]]"
    by (simp add: r reversed_def reversal_def exDeposit_def)
  have 10: "balanceOf (snd (reverseTransaction exFresh2 (exReversal ''DEP-T1-0000000A'') exDepositedState))
        ''64a000000000000000000001'' = Some 100"
    by (simp add: r reversed_def) (simp add: ex_defs op_defs)
  have 11: "balanceOf (snd (reverseTransaction exFresh2 (exReversal ''DEP-T1-0000000A'') exDepositedState))
        ''64c000000000000000000009'' = Some 30"
    by (simp add: r reversed_def) (simp add: ex_defs op_defs)
  have 12: "totalBalance (snd (reverseTransaction exFresh2 (exReversal ''DEP-T1-0000000A'') exDepositedState))
       = 130"
    by (simp add: r reversed_def totalBalance_def) (simp add: ex_defs)
  have 13: "reverseTransaction exFresh3 (exReversal ''DEP-T1-0000000A'')
        (snd (reverseTransaction exFresh2 (exReversal ''DEP-T1-0000000A'') exDepositedState))
       = (Inl (BadRequestError ''Transaction has already been reversed'' (Some ''REV-T2-0000000C'')),
          snd (reverseTransaction exFresh2 (exReversal ''DEP-T1-0000000A'') exDepositedState))"
    unfolding r snd_conv
    by (simp add: reverseTransaction_def reversed_def reversal_def ex_defs op_defs)
  show ?thesis by (intro conjI 1 2 3 4 5 6 7 8 9 10 11 12 13)
qed

section \<open>The account number validator\<close>

lemma regexTest_append:
  "regexTest (as @ bs) v \<longleftrightarrow>
     (\<exists>x y. v = x @ y \<and> length x = length as \<and> regexTest as x \<and> regexTest bs y)"
proof (induction as v rule: regexTest.induct)
  case 1
  then show ?case by simp
next
  case (2 a as x xs)
  show ?case
  proof
    assume "regexTest ((a # as) @ bs) (x # xs)"
    then have "atomMatches a x" "regexTest (as @ bs) xs" by simp_all
    then obtain u y where "xs = u @ y" "length u = length as" "regexTest as u" "regexTest bs y"
      using 2 by blast
    then have "x # xs = (x # u) @ y \<and> length (x # u) = length (a # as)
        \<and> regexTest (a # as) (x # u) \<and> regexTest bs y"
      using \<open>atomMatches a x\<close> by simp
    then show "\<exists>u y. x # xs = u @ y \<and> length u = length (a # as)
        \<and> regexTest (a # as) u \<and> regexTest bs y" by blast
  next
    assume "\<exists>u y. x # xs = u @ y \<and> length u = length (a # as)
        \<and> regexTest (a # as) u \<and> regexTest bs y"
    then obtain u y where h: "x # xs = u @ y" "length u = length (a # as)"
        "regexTest (a # as) u" "regexTest bs y" by blast
    then obtain u' where u: "u = x # u'" by (cases u) auto
    then have "xs = u' @ y" "length u' = length as" "atomMatches a x" "regexTest as u'"
      using h by simp_all
    then show "regexTest ((a # as) @ bs) (x # xs)" using 2 h(4) by auto
  qed
next
  case (3 x xs)
  then show ?case by simp
next
  case (4 a as)
  then show ?case by simp
qed

lemma regexTest_prefix:
  "regexTest (map Lit s @ rest) v \<longleftrightarrow> (\<exists>y. v = s @ y \<and> regexTest rest y)"
proof (induction s arbitrary: v)
  case Nil
  then show ?case by simp
next
  case (Cons c s)
  then show ?case by (cases v) auto
qed

lemma regexTest_replicate:
  "regexTest (replicate n a) v \<longleftrightarrow> length v = n \<and> list_all (atomMatches a) v"
proof (induction n arbitrary: v)
  case 0
  then show ?case by (cases v) auto
next
  case (Suc n)
  then show ?case by (cases v) auto
qed

lemma atomMatches_alnum: "atomMatches alnum c \<longleftrightarrow> alnumChar c"
  by (simp add: alnum_def alnumChar_def Let_def)

lemma atomMatches_hexDigit: "atomMatches hexDigit c \<Longrightarrow> atomMatches alnum c"
  by (auto simp: alnum_def hexDigit_def)

lemma regexTest_group:
  "regexTest (replicate 4 alnum @ rest) v \<longleftrightarrow>
     (\<exists>g y. v = g @ y \<and> length g = 4 \<and> list_all alnumChar g \<and> regexTest rest y)"
  by (auto simp: regexTest_append regexTest_replicate atomMatches_alnum cong: list.pred_cong)

lemma regexTest_dash:
  "regexTest ([Lit c] @ rest) v \<longleftrightarrow> (\<exists>y. v = [c] @ y \<and> regexTest rest y)"
  by (cases v) auto

lemma regexTest_last_group:
  "regexTest (replicate 4 alnum) v \<longleftrightarrow> length v = 4 \<and> list_all alnumChar v"
  by (auto simp: regexTest_replicate atomMatches_alnum cong: list.pred_cong)

lemma groups_shape:
  "(\<exists>y g1 y1 y2 g2 y3 y4.
      v = p @ y \<and> y = g1 @ y1 \<and> A g1 \<and> B g1 \<and> y1 = d @ y2 \<and> y2 = g2 @ y3
      \<and> A g2 \<and> B g2 \<and> y3 = d @ y4 \<and> A y4 \<and> B y4) \<longleftrightarrow>
   (\<exists>g1 g2 g3. v = p @ g1 @ d @ g2 @ d @ g3 \<and> A g1 \<and> A g2 \<and> A g3
      \<and> B g1 \<and> B g2 \<and> B g3)"
  by blast

lemma regexTest_mono:
  "regexTest as v \<Longrightarrow> list_all2 (\<lambda>a b. \<forall>c. atomMatches a c \<longrightarrow> atomMatches b c) as bs \<Longrightarrow>
     regexTest bs v"
proof (induction as v arbitrary: bs rule: regexTest.induct)
  case 1
  then show ?case by simp
next
  case (2 a as x xs)
  then show ?case by (cases bs) auto
next
  case (3 x xs)
  then show ?case by simp
next
  case (4 a as)
  then show ?case by simp
qed

text \<open>
  C9, as the code has it. The validator accepts exactly the strings \<open>ACCT-g1-g2-g3\<close>
  whose three groups have four characters each, all of them digits or ASCII letters
  (\<^verbatim>\<open>[0-9A-Za-z]\<close>, not only the hexadecimal ones); it accepts every string that the
  specification's hexadecimal pattern accepts.
\<close>

theorem validateAccountNumber_alnum_groups:
  "(validateAccountNumber v \<longleftrightarrow>
      (\<exists>g1 g2 g3. v = ''ACCT-'' @ g1 @ ''-'' @ g2 @ ''-'' @ g3
         \<and> length g1 = 4 \<and> length g2 = 4 \<and> length g3 = 4
         \<and> list_all alnumChar g1 \<and> list_all alnumChar g2 \<and> list_all alnumChar g3))
   \<and> (regexTest specAccountNumberRegex v \<longrightarrow> validateAccountNumber v)"
proof (rule conjI)
  have "validateAccountNumber v \<longleftrightarrow>
      (\<exists>y. v = ''ACCT-'' @ y \<and>
        (\<exists>g1 y1. y = g1 @ y1 \<and> length g1 = 4 \<and> list_all alnumChar g1 \<and>
          (\<exists>y2. y1 = ''-'' @ y2 \<and>
            (\<exists>g2 y3. y2 = g2 @ y3 \<and> length g2 = 4 \<and> list_all alnumChar g2 \<and>
              (\<exists>y4. y3 = ''-'' @ y4 \<and> length y4 = 4 \<and> list_all alnumChar y4)))))"
    by (simp only: validateAccountNumber_def accountNumberRegex_def regexTest_prefix
          regexTest_group regexTest_dash regexTest_last_group)
  also have "\<dots> \<longleftrightarrow>
      (\<exists>g1 g2 g3. v = ''ACCT-'' @ g1 @ ''-'' @ g2 @ ''-'' @ g3
         \<and> length g1 = 4 \<and> length g2 = 4 \<and> length g3 = 4
         \<and> list_all alnumChar g1 \<and> list_all alnumChar g2 \<and> list_all alnumChar g3)"
    by (simp only: ex_simps[symmetric] simp_thms)
       (rule groups_shape[of v "''ACCT-''" "\<lambda>g. length g = 4" "list_all alnumChar" "''-''"])
  finally show "validateAccountNumber v \<longleftrightarrow>
      (\<exists>g1 g2 g3. v = ''ACCT-'' @ g1 @ ''-'' @ g2 @ ''-'' @ g3
         \<and> length g1 = 4 \<and> length g2 = 4 \<and> length g3 = 4
         \<and> list_all alnumChar g1 \<and> list_all alnumChar g2 \<and> list_all alnumChar g3)" .
  show "regexTest specAccountNumberRegex v \<longrightarrow> validateAccountNumber v"
  proof
    assume "regexTest specAccountNumberRegex v"
    then show "validateAccountNumber v"
      unfolding validateAccountNumber_def
      by (rule regexTest_mono)
         (simp add: specAccountNumberRegex_def accountNumberRegex_def atomMatches_hexDigit
            numeral_eq_Suc)
  qed
qed

theorem validateAccountNumber_alnum_groups_witness:
  "regexTest specAccountNumberRegex ''ACCT-09AF-af00-1234''
   \<and> validateAccountNumber ''ACCT-09AF-af00-1234''"
proof -
  have h: "regexTest specAccountNumberRegex ''ACCT-09AF-af00-1234''"
    by (simp add: specAccountNumberRegex_def hexDigit_def numeral_eq_Suc)
  from validateAccountNumber_alnum_groups[of "''ACCT-09AF-af00-1234''", THEN conjunct2, THEN mp, OF h]
  show ?thesis using h by simp
qed

text \<open>
  The string \<open>ACCT-GHIJ-0000-zzzz\<close> has letters beyond \<open>F\<close> in its groups: the validator
  accepts it, the specification's hexadecimal pattern does not.
\<close>

theorem validateAccountNumber_accepts_non_hex:
  "validateAccountNumber ''ACCT-GHIJ-0000-zzzz''
   \<and> \<not> regexTest specAccountNumberRegex ''ACCT-GHIJ-0000-zzzz''"
  by (simp add: validateAccountNumber_def accountNumberRegex_def alnum_def
      specAccountNumberRegex_def hexDigit_def numeral_eq_Suc)

section \<open>Floating point in the ledger path\<close>

text \<open>Computing \<open>round64\<close> from the exponent and the integer part of the scaled value.\<close>

lemma roundHalfEven_eval:
  assumes "of_int f \<le> x" "x < of_int f + 1"
  shows "roundHalfEven x =
           (if x - of_int f < 1/2 then f else if 1/2 < x - of_int f then f + 1
            else if even f then f else f + 1)"
proof -
  have "\<lfloor>x\<rfloor> = f" using assms by (intro floor_unique) auto
  then show ?thesis by (simp add: roundHalfEven_def Let_def)
qed

lemma round64_eval:
  assumes "0 < x" "2 powi k \<le> x" "x < 2 powi (k + 1)"
      and "e = max (k - 52) (- 1074)"
      and "roundHalfEven (x / 2 powi e) = m"
      and "v = of_int m * 2 powi e"
      and "v < 2 powi 1024"
  shows "round64 x = Finite v"
proof -
  have "log2floor x = k" using assms(2,3) by (rule log2floor_unique)
  then have "roundPos x = v" using assms(4,5,6) by (simp add: roundPos_def Let_def)
  then show ?thesis using assms(1,7) by (simp add: round64_def Let_def del: power_int_numeral)
qed

lemma parseFloat_above_2_53: "parseFloat 9007199254740993 = Finite 9007199254740992"
proof -
  have r: "roundHalfEven (9007199254740993 / 2 powi 1) = 4503599627370496"
    by (subst roundHalfEven_eval[of 4503599627370496]) simp_all
  show ?thesis
    unfolding parseFloat_def
    by (rule round64_eval[where k = 53 and e = 1 and m = 4503599627370496, OF _ _ _ _ r]) simp_all
qed

lemma parseFloat_2_53: "parseFloat 9007199254740992 = Finite 9007199254740992"
  using parseFloat_int[of 9007199254740992] by simp

lemma parseFloat_tenth:
  "parseFloat (1/10) = Finite (7205759403792794 / 72057594037927936)"
proof -
  have r: "roundHalfEven ((1/10) / 2 powi (- 56)) = 7205759403792794"
    by (subst roundHalfEven_eval[of 7205759403792793]) simp_all
  show ?thesis
    unfolding parseFloat_def
    by (rule round64_eval[where k = "- 4" and e = "- 56" and m = 7205759403792794, OF _ _ _ _ r])
       simp_all
qed

lemma parseFloat_two_tenths:
  "parseFloat (2/10) = Finite (7205759403792794 / 36028797018963968)"
proof -
  have r: "roundHalfEven ((2/10) / 2 powi (- 55)) = 7205759403792794"
    by (subst roundHalfEven_eval[of 7205759403792793]) simp_all
  show ?thesis
    unfolding parseFloat_def
    by (rule round64_eval[where k = "- 3" and e = "- 55" and m = 7205759403792794, OF _ _ _ _ r])
       simp_all
qed

lemma parseFloat_three_tenths:
  "parseFloat (3/10) = Finite (5404319552844595 / 18014398509481984)"
proof -
  have r: "roundHalfEven ((3/10) / 2 powi (- 54)) = 5404319552844595"
    by (subst roundHalfEven_eval[of 5404319552844595]) simp_all
  show ?thesis
    unfolding parseFloat_def
    by (rule round64_eval[where k = "- 2" and e = "- 54" and m = 5404319552844595, OF _ _ _ _ r])
       simp_all
qed

lemma fadd_tenth_two_tenths:
  "fadd (Finite (7205759403792794 / 72057594037927936))
        (Finite (7205759403792794 / 36028797018963968))
     = Finite (5404319552844596 / 18014398509481984)"
proof -
  have r: "roundHalfEven ((7205759403792794 / 72057594037927936
                           + 7205759403792794 / 36028797018963968) / 2 powi (- 54))
             = 5404319552844596"
    by (subst roundHalfEven_eval[of 5404319552844595]) simp_all
  show ?thesis
    unfolding fadd.simps
    by (rule round64_eval[where k = "- 2" and e = "- 54" and m = 5404319552844596, OF _ _ _ _ r])
       simp_all
qed

lemma fadd_residue:
  "fadd (Finite (5404319552844596 / 18014398509481984))
        (Finite (- (5404319552844595 / 18014398509481984)))
     = Finite (1 / 18014398509481984)"
proof -
  have r: "roundHalfEven ((5404319552844596 / 18014398509481984
                           + - (5404319552844595 / 18014398509481984)) / 2 powi (- 106))
             = 4503599627370496"
    by (subst roundHalfEven_eval[of 4503599627370496]) simp_all
  show ?thesis
    unfolding fadd.simps
    by (rule round64_eval[where k = "- 54" and e = "- 106" and m = 4503599627370496, OF _ _ _ _ r])
       simp_all
qed

text \<open>
  C8 on the code. The validator of the schema accumulates \<^verbatim>\<open>parseFloat\<close> values with
  the \<^verbatim>\<open>+\<close> of numbers: the entries \<open>DEBIT 0.10\<close>, \<open>DEBIT 0.20\<close>, \<open>CREDIT 0.30\<close> balance
  as decimals, and the validator refuses them, its sum being \<open>2 ^ -54\<close>. The summary of
  the statistics adds \<^verbatim>\<open>parseFloat\<close> of each decimal total: for the total
  \<open>9007199254740993\<close> it holds the number \<open>9007199254740992\<close>, and so it prints the same
  summary for both totals, whatever the printing of a number is.
\<close>

theorem floating_point_in_validator_and_summary:
  "debitSum exCentEntries = creditSum exCentEntries
   \<and> entriesSum exCentEntries = Finite (1 / 2 ^ 54)
   \<and> \<not> entriesBalanceValidator exCentEntries
   \<and> totalAmountByCurrency (accumulateSummary [exStat 9007199254740993])
       = [(''USD'', Finite 9007199254740992)]
   \<and> calculateTransactionSummary toFixed2 [exStat 9007199254740993]
       = calculateTransactionSummary toFixed2 [exStat 9007199254740992]"
proof -
  have d: "debitSum exCentEntries = creditSum exCentEntries"
    by (simp add: debitSum_def creditSum_def exCentEntries_def)
  note f = parseFloat_tenth[simplified] parseFloat_two_tenths[simplified]
    parseFloat_three_tenths[simplified] fadd_tenth_two_tenths[simplified]
    fadd_residue[simplified]
    fadd_zero_left(1)[OF parseFloat_tenth[unfolded parseFloat_def], simplified]
  have s: "entriesSum exCentEntries = Finite (1 / 2 ^ 54)"
    by (simp add: entriesSum_def exCentEntries_def Let_def f)
  have v: "\<not> entriesBalanceValidator exCentEntries"
    by (simp add: entriesBalanceValidator_def s)
  note g = parseFloat_above_2_53 parseFloat_2_53
    fadd_zero_left(1)[OF parseFloat_2_53[unfolded parseFloat_def], simplified]
  have a1: "accumulateSummary [exStat 9007199254740993]
              = \<lparr>totalCount = 1, totalAmountByCurrency = [(''USD'', Finite 9007199254740992)],
                 countByType = [(DEPOSIT, 1)]\<rparr>"
    by (simp add: accumulateSummary_def summaryStep_def exStat_def Let_def g)
  have a2: "accumulateSummary [exStat 9007199254740992]
              = \<lparr>totalCount = 1, totalAmountByCurrency = [(''USD'', Finite 9007199254740992)],
                 countByType = [(DEPOSIT, 1)]\<rparr>"
    by (simp add: accumulateSummary_def summaryStep_def exStat_def Let_def g)
  have t: "totalAmountByCurrency (accumulateSummary [exStat 9007199254740993])
       = [(''USD'', Finite 9007199254740992)]"
    by (simp add: a1)
  have c: "calculateTransactionSummary toFixed2 [exStat 9007199254740993]
       = calculateTransactionSummary toFixed2 [exStat 9007199254740992]"
    by (simp add: calculateTransactionSummary_def a1 a2)
  show ?thesis by (intro conjI d s v t c)
qed

section \<open>Conservation and the sweep, on the examples\<close>

text \<open>
  C7 on the code. The deposit of \<open>30\<close> into \<open>A\<close> succeeds with a \<open>COMPLETED\<close> transaction
  whose entries are \<open>CREDIT A 30\<close> and \<open>DEBIT 30\<close> on the \<open>DEPOSITS\<close> account, and only the
  balance of \<open>A\<close> is written: the total of all balances grows from \<open>100\<close> to \<open>130\<close>, the
  balance of the system account staying \<open>0\<close>.
\<close>

theorem deposit_changes_total_balance:
  "\<not> isl (fst (createDeposit exFresh1 (exRequest 30) exState))
   \<and> map status (transactions (snd (createDeposit exFresh1 (exRequest 30) exState))) = [COMPLETED]
   \<and> map entries (transactions (snd (createDeposit exFresh1 (exRequest 30) exState)))
       = [[\<lparr>accountId = ''64a000000000000000000001'', entryType = CREDIT, entryAmount = 30\<rparr>,
           \<lparr>accountId = ''64c000000000000000000001'', entryType = DEBIT, entryAmount = 30\<rparr>]]
   \<and> totalBalance exState = 100
   \<and> totalBalance (snd (createDeposit exFresh1 (exRequest 30) exState)) = 130
   \<and> balanceOf (snd (createDeposit exFresh1 (exRequest 30) exState)) ''64a000000000000000000001'' = Some 130
   \<and> balanceOf (snd (createDeposit exFresh1 (exRequest 30) exState)) ''64c000000000000000000001'' = Some 0"
proof -
  note v = pair_validators[of 30, simplified]
  show ?thesis
    by (simp add: createDeposit_def totalBalance_def ex_defs op_defs v saveTransaction_append_last
        dec_simps)
qed

text \<open>
  C1 on the code. The sweep at time \<open>100000\<close> over \<open>exPendingState\<close> completes the first
  transaction (\<open>A = 90\<close>, \<open>B = 10\<close>). The second credits \<open>A\<close> with \<open>50\<close> and fails on its
  debit of \<open>B\<close>: it is marked \<open>FAILED\<close> with its failure reason and counted in the result,
  the effects of the first stay, and the credit of \<open>50\<close> that it had already posted to \<open>A\<close>
  stays as well: \<open>A = 140\<close> in the committed state.
\<close>

theorem sweep_keeps_partial_postings:
  "fst (processPendingTransactions 100000 exPendingState)
     = Inr \<lparr>processed = 1, failed = 1, failedIds = [''TXN-T0-00000002'']\<rparr>
   \<and> map status (transactions (snd (processPendingTransactions 100000 exPendingState)))
       = [COMPLETED, FAILED]
   \<and> map failureReason (transactions (snd (processPendingTransactions 100000 exPendingState)))
       = [None, Some ''Insufficient funds for transaction'']
   \<and> balanceOf (snd (processPendingTransactions 100000 exPendingState)) ''64a000000000000000000001'' = Some 140
   \<and> balanceOf (snd (processPendingTransactions 100000 exPendingState)) ''64a000000000000000000002'' = Some 10"
proof -
  note v = pair_validators[of 10, simplified] pair_validators[of 50, simplified]
  have r: "processPendingTransactions 100000 exPendingState =
      (Inr \<lparr>processed = 1, failed = 1, failedIds = [''TXN-T0-00000002'']\<rparr>,
       \<lparr>accounts = [exAccountA, exAccountB],
        balances = [exBalanceA\<lparr>balance := 140\<rparr>, exBalanceB\<lparr>balance := 10\<rparr>],
        transactions = [exPending1\<lparr>status := COMPLETED\<rparr>,
                        exPending2\<lparr>status := FAILED,
                          failureReason := Some ''Insufficient funds for transaction''\<rparr>],
        systemAccounts = []\<rparr>)"
    by (simp add: processPendingTransactions_def pendingTransactions_def tryProcess_def
        saveLoaded_def ex_defs op_defs v dec_simps)
  show ?thesis
    by (simp add: r) (simp add: ex_defs op_defs)
qed

section \<open>What the insert validates\<close>







end
